theory Spec2Isabelle
  imports Complex_Main
begin

section \<open>Tables\<close>

text \<open>
  Every table of the pipeline is a list of rows, in file order; a row is a record with one
  field per column. A cell that pandas reads as null (an empty CSV field, \<open>None\<close>,
  \<open>NaN\<close>) is \<open>None\<close>. A table argument of type \<open>_ list option\<close> is a CSV file on disk:
  \<open>None\<close> when the file does not exist, which the stages test with \<open>os.path.exists\<close>.

  Team names are strings. The cleaned match tables have no row with a null \<open>home_team\<close>
  or \<open>away_team\<close> (the cleaning stage drops such rows), and \<open>pd.read_csv\<close> never reads a
  field as the empty string, so a name that reaches the stages below is a non-empty string.
  Python's truth test on a string (\<open>if row['home_team'] and ...\<close>) is the test
  \<open>name \<noteq> []\<close>; the properties of the Teams table below are stated for tables whose
  names are non-empty.
\<close>

subsection \<open>Cleaned match tables (clean\_league\_matches.csv, clean\_wc\_matches.csv)\<close>

text \<open>The columns read by \<open>create_teams_table\<close>, present in both cleaned match tables.\<close>

record match_row =
  competition_name :: string
  home_team :: string
  away_team :: string

subsection \<open>Teams reference table (ref\_teams.csv)\<close>

record team =
  team_id :: "int option"
  team_name :: string
  competition_type :: string
  country :: "string option"
  primary_competition :: string

subsection \<open>Cleaned match tables, continued\<close>

text \<open>The remaining columns that the two cleaned match tables share.\<close>

record clean_match = match_row +
  season :: "string option"
  date :: "string option"
  time :: "string option"
  home_goals :: "int option"
  away_goals :: "int option"
  home_shots :: "int option"
  away_shots :: "int option"
  home_sot :: "int option"
  away_sot :: "int option"

text \<open>A row of clean\_league\_matches.csv.\<close>

record league_match = clean_match +
  home_fouls :: "int option"
  away_fouls :: "int option"
  home_corners :: "int option"
  away_corners :: "int option"
  home_yellow :: "int option"
  away_yellow :: "int option"
  home_red :: "int option"
  away_red :: "int option"
  referee :: "string option"

text \<open>A row of clean\_wc\_matches.csv.\<close>

record wc_match = clean_match +
  home_xg :: "real option"
  away_xg :: "real option"
  home_possession :: "real option"
  away_possession :: "real option"
  home_passes_completed :: "int option"
  home_passes_attempted :: "int option"
  away_passes_completed :: "int option"
  away_passes_attempted :: "int option"
  home_tackles :: "int option"
  away_tackles :: "int option"
  home_interceptions :: "int option"
  away_interceptions :: "int option"
  home_clearances :: "int option"
  away_clearances :: "int option"
  home_saves :: "int option"
  away_saves :: "int option"
  venue :: "string option"

subsection \<open>Normalized match tables (normalized\_league\_matches.csv, normalized\_wc\_matches.csv)\<close>

text \<open>The cleaned row with the two identifier columns that \<open>normalize_matches\<close> adds.\<close>

record normalized_league_match = league_match +
  home_team_id :: "int option"
  away_team_id :: "int option"

record normalized_wc_match = wc_match +
  home_team_id :: "int option"
  away_team_id :: "int option"

subsection \<open>Match tables (db\_matches\_base.csv, db\_match\_stats\_advanced.csv) and their enhanced variants\<close>

record match_base =
  match_id :: "int option"
  competition_name :: string
  season :: "string option"
  date :: "string option"
  time :: "string option"
  home_team_id :: "int option"
  away_team_id :: "int option"
  home_goals :: "int option"
  away_goals :: "int option"
  home_shots :: "int option"
  away_shots :: "int option"
  home_sot :: "int option"
  away_sot :: "int option"
  home_fouls :: "int option"
  away_fouls :: "int option"
  home_corners :: "int option"
  away_corners :: "int option"
  home_yellow :: "int option"
  away_yellow :: "int option"
  home_red :: "int option"
  away_red :: "int option"
  venue :: "string option"
  referee :: "string option"

record match_base_enhanced = match_base +
  goal_difference :: "int option"
  total_goals :: "int option"
  total_cards :: int
  home_shot_accuracy :: "real option"
  away_shot_accuracy :: "real option"
  result :: "string option"

record match_stats_advanced =
  match_id :: "int option"
  home_xg :: "real option"
  away_xg :: "real option"
  home_possession :: "real option"
  away_possession :: "real option"
  home_passes_completed :: "int option"
  home_passes_attempted :: "int option"
  away_passes_completed :: "int option"
  away_passes_attempted :: "int option"
  home_tackles :: "int option"
  away_tackles :: "int option"
  home_interceptions :: "int option"
  away_interceptions :: "int option"
  home_clearances :: "int option"
  away_clearances :: "int option"
  home_saves :: "int option"
  away_saves :: "int option"

record match_stats_advanced_enhanced = match_stats_advanced +
  home_pass_accuracy :: "real option"
  away_pass_accuracy :: "real option"
  possession_delta :: "real option"
  xg_difference :: "real option"

subsection \<open>Player tables\<close>

text \<open>A row of clean\_wc\_players.csv.\<close>

record wc_player =
  player :: string
  team :: "string option"
  position :: "string option"
  age :: "int option"
  minutes :: "int option"
  games :: "int option"
  goals :: "int option"
  assists :: "int option"
  shots :: "int option"
  shots_on_target :: "int option"
  passes_completed :: "int option"
  passes :: "int option"
  passes_pct :: "real option"
  tackles :: "int option"
  interceptions :: "int option"
  clearances :: "int option"
  touches :: "int option"
  dispossessed :: "int option"
  xg :: "real option"
  xg_assist :: "real option"

text \<open>A row of ref\_players.csv.\<close>

record player_ref =
  player_id :: "int option"
  player_name :: string
  team_id :: "int option"
  team_name :: "string option"
  position :: "string option"
  age :: "int option"

text \<open>A row of normalized\_wc\_players.csv, and of db\_players\_stats\_enhanced.csv.\<close>

record normalized_wc_player = wc_player +
  player_id :: "int option"
  team_id :: "int option"

record player_stats_enhanced = normalized_wc_player +
  goals_per_game :: "real option"
  assists_per_game :: "real option"
  shot_efficiency :: "real option"
  sot_percentage :: "real option"
  goal_contributions :: int
  contributions_per_game :: "real option"

subsection \<open>Standings (clean\_wc\_standings.csv, db\_standings\_enhanced.csv)\<close>

record standing =
  group :: string
  rank :: "int option"
  team :: "string option"
  played :: "int option"
  wins :: "int option"
  draws :: "int option"
  losses :: "int option"
  goals_for :: "int option"
  goals_against :: "int option"
  goal_difference :: "int option"
  points :: "int option"

record standing_enhanced = standing +
  win_percentage :: "real option"
  points_per_game :: "real option"
  goals_per_game :: "real option"
  clean_sheets :: "int option"

section \<open>Nullable cells\<close>

text \<open>
  Counts are \<open>int option\<close>, measured and derived quantities \<open>real option\<close> (the source's
  floating-point numbers, taken as exact numbers). pandas and numpy propagate a null through
  arithmetic, every ordering comparison with a null is false, and \<open>!=\<close> with a null is true.
\<close>

definition isnull :: "'a option \<Rightarrow> bool" where
  "isnull c = (c = None)"

definition notna :: "'a option \<Rightarrow> bool" where
  "notna c = (c \<noteq> None)"

definition gt :: "'a::linorder option \<Rightarrow> 'a option \<Rightarrow> bool" where
  "gt a b = (case (a, b) of (Some x, Some y) \<Rightarrow> x > y | _ \<Rightarrow> False)"

definition lt :: "'a::linorder option \<Rightarrow> 'a option \<Rightarrow> bool" where
  "lt a b = (case (a, b) of (Some x, Some y) \<Rightarrow> x < y | _ \<Rightarrow> False)"

definition eq :: "'a option \<Rightarrow> 'a option \<Rightarrow> bool" where
  "eq a b = (case (a, b) of (Some x, Some y) \<Rightarrow> x = y | _ \<Rightarrow> False)"

definition ne :: "'a option \<Rightarrow> 'a option \<Rightarrow> bool" where
  "ne a b = (\<not> eq a b)"

definition add :: "'a::plus option \<Rightarrow> 'a option \<Rightarrow> 'a option" where
  "add a b = (case (a, b) of (Some x, Some y) \<Rightarrow> Some (x + y) | _ \<Rightarrow> None)"

definition sub :: "'a::minus option \<Rightarrow> 'a option \<Rightarrow> 'a option" where
  "sub a b = (case (a, b) of (Some x, Some y) \<Rightarrow> Some (x - y) | _ \<Rightarrow> None)"

definition mul :: "'a::times option \<Rightarrow> 'a option \<Rightarrow> 'a option" where
  "mul a b = (case (a, b) of (Some x, Some y) \<Rightarrow> Some (x * y) | _ \<Rightarrow> None)"

definition fillna :: "'a \<Rightarrow> 'a option \<Rightarrow> 'a" where
  "fillna d c = (case c of None \<Rightarrow> d | Some x \<Rightarrow> x)"

text \<open>A count used in a floating-point expression.\<close>

definition num :: "int option \<Rightarrow> real option" where
  "num c = map_option real_of_int c"

text \<open>
  What the pipeline can raise. Python's \<open>/\<close> raises \<open>ZeroDivisionError\<close> on a zero
  divisor whatever the dividend; numpy's scalars return \<open>inf\<close> or \<open>nan\<close> with a warning
  instead. The model takes the stricter reading, so that a metric which never raises here
  never raises under either.
\<close>

datatype reference_violation =
    NullTeamId
  | DuplicateTeamIds "int option list"
  | UnexpectedTeamCount nat
  | InvalidCompetitionType "string list"
  | NullPlayerId
  | NullPlayerTeamId
  | DuplicatePlayerIds "int option list"
  | NonexistentTeamIds "int option list"
  | UnexpectedPlayerCount nat
  | InvalidAgeRange int int

datatype match_violation =
    NullMatchId
  | DuplicateMatchIds "int option list"
  | UnexpectedMatchCount nat
  | NullHomeTeamId
  | NullAwayTeamId
  | NonexistentHomeTeamIds "int option list"
  | NonexistentAwayTeamIds "int option list"
  | SelfMatches nat
  | NegativeHomeGoals
  | NegativeAwayGoals
  | NegativeHomeShots
  | HomeSotExceedsShots nat
  | AwaySotExceedsShots nat
  | HomeShotAccuracyOver100 nat
  | InvalidDateFormat
  | InvalidResultValues "string list"

datatype advanced_violation =
    UnexpectedAdvancedCount nat
  | NonexistentMatchIds "int option list"
  | HomePossessionOver100 nat
  | AwayPossessionOver100 nat
  | PossessionSumNot100 nat
  | NegativeHomeXg
  | NegativeAwayXg
  | HomePassesCompletedExceedAttempted nat
  | HomePassAccuracyOver100 nat

datatype player_stats_violation =
    NonexistentPlayerIds "int option list"
  | UnexpectedPlayerStatsCount nat
  | NegativeValues string
  | ShotsOnTargetExceedShots nat
  | PassesCompletedExceedPasses nat
  | GoalsExceedShots nat
  | PassesPctOver100 nat
  | ShotEfficiencyOver100 nat

datatype standings_violation =
    UnexpectedStandingsCount nat
  | WinsDrawsLossesNotPlayed nat
  | IncorrectPoints nat
  | NegativeColumn string
  | WinsExceedPlayed
  | DrawsExceedPlayed
  | LossesExceedPlayed
  | DuplicateRanks string
  | WinPercentageOver100 nat

text \<open>
  The message of a \<open>ValidationError\<close>: which check raised it, with the numbers or keys the
  source formats into the text.
\<close>

datatype violation =
    MissingFile string
  | Reference reference_violation
  | Matches match_violation
  | Advanced advanced_violation
  | PlayerStats player_stats_violation
  | Standings standings_violation

datatype error =
    ValidationError violation
  | FileNotFoundError string
  | EmptyDataError
  | KeyError string
  | ZeroDivisionError

text \<open>\<open>a / b\<close> on two cells.\<close>

definition truediv :: "real option \<Rightarrow> real option \<Rightarrow> error + real option" where
  "truediv a b =
     (if b = Some 0 then Inl ZeroDivisionError
      else Inr (case (a, b) of (Some x, Some y) \<Rightarrow> Some (x / y) | _ \<Rightarrow> None))"

text \<open>\<open>e * k\<close> where \<open>e\<close> may already have raised.\<close>

definition times :: "error + real option \<Rightarrow> real \<Rightarrow> error + real option" where
  "times e k = (case e of Inl err \<Rightarrow> Inl err | Inr q \<Rightarrow> Inr (mul q (Some k)))"

text \<open>Running a row function over a table, stopping at the first row that raises.\<close>

fun apply_rows :: "('a \<Rightarrow> error + 'b) \<Rightarrow> 'a list \<Rightarrow> error + 'b list" where
  "apply_rows f [] = Inr []"
| "apply_rows f (row # df) =
     (case f row of
        Inl err \<Rightarrow> Inl err
      | Inr r \<Rightarrow> (case apply_rows f df of Inl err \<Rightarrow> Inl err | Inr rs \<Rightarrow> Inr (r # rs)))"

text \<open>
  \<open>Series.duplicated()\<close> marks every occurrence of a value after its first; these are the
  values at the marked positions.
\<close>

fun duplicated_from :: "'a list \<Rightarrow> 'a list \<Rightarrow> 'a list" where
  "duplicated_from seen [] = []"
| "duplicated_from seen (x # xs) =
     (if x \<in> set seen then x # duplicated_from seen xs else duplicated_from (x # seen) xs)"

definition duplicated :: "'a list \<Rightarrow> 'a list" where
  "duplicated xs = duplicated_from [] xs"

text \<open>\<open>set(a) - set(b)\<close>, listed in the order of \<open>a\<close>.\<close>

definition set_difference :: "'a list \<Rightarrow> 'a list \<Rightarrow> 'a list" where
  "set_difference a b = remdups (filter (\<lambda>x. x \<notin> set b) a)"

text \<open>
  The elements of a list in order of first appearance, each kept once; this is also what
  \<open>Series.unique()\<close> returns.
\<close>

function first_seen :: "'a list \<Rightarrow> 'a list" where
  "first_seen [] = []"
| "first_seen (x # xs) = x # first_seen (filter (\<lambda>y. y \<noteq> x) xs)"
  by pat_completeness auto
termination
  by (relation "measure length") (auto simp: less_Suc_eq_le)

text \<open>\<open>dict(zip(keys, values))\<close>: a later pair overwrites an earlier one with the same key.\<close>

definition dict_zip :: "'k list \<Rightarrow> 'v list \<Rightarrow> ('k \<rightharpoonup> 'v)" where
  "dict_zip ks vs = fold (\<lambda>(k, v) m. m(k \<mapsto> v)) (zip ks vs) Map.empty"

text \<open>
  \<open>d.get(key)\<close> and \<open>Series.map(d)\<close> where the stored values are nullable cells: a missing
  key gives null.
\<close>

definition dict_get :: "('k \<rightharpoonup> 'v option) \<Rightarrow> 'k \<Rightarrow> 'v option" where
  "dict_get d k = (case d k of None \<Rightarrow> None | Some v \<Rightarrow> v)"

section \<open>Reference table builder: \<open>create_teams_table\<close>\<close>

text \<open>The three local variables of \<open>create_teams_table\<close> that its two passes update.\<close>

record teams_state =
  teams_data :: "team list"
  team_id_counter :: int
  seen_teams :: "string set"

text \<open>
  One \<open>if name and name not in seen_teams: append; add; counter += 1\<close> block. The source
  has four copies of it, which differ in the constants stored in the appended row.
\<close>

definition add_team :: "string \<Rightarrow> string \<Rightarrow> string option \<Rightarrow> string \<Rightarrow> teams_state \<Rightarrow> teams_state" where
  "add_team name ctype ctry primary s =
     (if name \<noteq> [] \<and> name \<notin> seen_teams s then
        s\<lparr>teams_data := teams_data s @
             [\<lparr>team.team_id = Some (team_id_counter s), team.team_name = name, competition_type = ctype,
               country = ctry, primary_competition = primary\<rparr>],
          seen_teams := insert name (seen_teams s),
          team_id_counter := team_id_counter s + 1\<rparr>
      else s)"

text \<open>Body of the loop over league rows: home team, then away team.\<close>

definition league_step :: "'a match_row_scheme \<Rightarrow> teams_state \<Rightarrow> teams_state" where
  "league_step row s =
     (let competition = match_row.competition_name row;
          s1 = add_team (home_team row) ''league'' None competition s
      in add_team (away_team row) ''league'' None competition s1)"

text \<open>Body of the loop over World-Cup rows: home team, then away team.\<close>

definition wc_step :: "'a match_row_scheme \<Rightarrow> teams_state \<Rightarrow> teams_state" where
  "wc_step row s =
     (let s1 = add_team (home_team row) ''international'' (Some (home_team row)) ''World Cup'' s
      in add_team (away_team row) ''international'' (Some (away_team row)) ''World Cup'' s1)"

definition create_teams_table ::
    "'a match_row_scheme list option \<Rightarrow> 'b match_row_scheme list option \<Rightarrow> team list" where
  "create_teams_table league_file wc_file =
     (let s0 = \<lparr>teams_data = [], team_id_counter = 1, seen_teams = {}\<rparr>;
          s1 = (case league_file of None \<Rightarrow> s0 | Some df \<Rightarrow> fold league_step df s0);
          s2 = (case wc_file of None \<Rightarrow> s1 | Some df \<Rightarrow> fold wc_step df s1)
      in teams_data s2)"

section \<open>Reference table builder: \<open>create_players_table\<close>\<close>

text \<open>
  \<open>player_id\<close> is the row's index in the file plus one. The team is looked up with
  \<open>dict.get\<close>, which returns null for a missing key; a null team name is no key of the map.

  Two inputs make the function raise. A Teams file without rows is the file that
  \<open>create_teams_table\<close> writes for an empty table, a single newline, on which \<open>pd.read_csv\<close>
  raises \<open>EmptyDataError\<close>. For a player table without rows the loop appends nothing, the
  DataFrame built from the empty list has no columns, and after the file has been written
  the summary line reads \<open>players_df['team_id']\<close>, which raises \<open>KeyError\<close>.
\<close>

definition create_players_table ::
    "team list option \<Rightarrow> wc_player list option \<Rightarrow> error + player_ref list option" where
  "create_players_table teams_file players_file =
     (case teams_file of
        None \<Rightarrow> Inr None
      | Some teams_df \<Rightarrow>
          if teams_df = [] then Inl EmptyDataError
          else
          (let team_name_to_id = dict_zip (map team.team_name teams_df) (map team.team_id teams_df)
           in case players_file of
                None \<Rightarrow> Inr None
              | Some df \<Rightarrow>
                  (let players_data =
                     map (\<lambda>(idx, row).
                          \<lparr>player_ref.player_id = Some (int idx + 1),
                            player_name = wc_player.player row,
                            player_ref.team_id =
                              (case wc_player.team row of
                                 None \<Rightarrow> None
                               | Some name \<Rightarrow> dict_get team_name_to_id name),
                            team_name = wc_player.team row,
                            player_ref.position = wc_player.position row,
                            player_ref.age = wc_player.age row\<rparr>)
                        (enumerate 0 df)
                   in if players_data = [] then Inl (KeyError ''team_id'')
                      else Inr (Some players_data))))"

section \<open>Normalizer\<close>

definition normalize_league_row :: "(string \<rightharpoonup> int option) \<Rightarrow> league_match \<Rightarrow> normalized_league_match" where
  "normalize_league_row team_name_to_id row =
     league_match.extend row
       (normalized_league_match.fields
          (dict_get team_name_to_id (home_team row))
          (dict_get team_name_to_id (away_team row)))"

definition normalize_wc_row :: "(string \<rightharpoonup> int option) \<Rightarrow> wc_match \<Rightarrow> normalized_wc_match" where
  "normalize_wc_row team_name_to_id row =
     wc_match.extend row
       (normalized_wc_match.fields
          (dict_get team_name_to_id (home_team row))
          (dict_get team_name_to_id (away_team row)))"

definition normalize_matches ::
    "team list option \<Rightarrow> league_match list option \<Rightarrow> wc_match list option
       \<Rightarrow> normalized_league_match list option \<times> normalized_wc_match list option" where
  "normalize_matches teams_file league_file wc_file =
     (case teams_file of
        None \<Rightarrow> (None, None)
      | Some teams_df \<Rightarrow>
          (let team_name_to_id = dict_zip (map team.team_name teams_df) (map team.team_id teams_df)
           in (map_option (map (normalize_league_row team_name_to_id)) league_file,
               map_option (map (normalize_wc_row team_name_to_id)) wc_file)))"

text \<open>
  The player map is keyed by \<open>(player_name, team_name)\<close>. A key whose team is null is never
  found again: a null read from one file is not equal to a null read from another.
\<close>

definition normalize_players ::
    "team list option \<Rightarrow> player_ref list option \<Rightarrow> wc_player list option
       \<Rightarrow> normalized_wc_player list option" where
  "normalize_players teams_file players_ref_file stats_file =
     (case (teams_file, players_ref_file) of
        (Some teams_df, Some players_df) \<Rightarrow>
          (case stats_file of
             None \<Rightarrow> None
           | Some stats_df \<Rightarrow>
               (let player_name_team_to_id =
                      dict_zip (map (\<lambda>row. (player_name row, player_ref.team_name row)) players_df)
                               (map player_ref.player_id players_df);
                    player_id_to_team_id =
                      dict_zip (map player_ref.player_id players_df) (map player_ref.team_id players_df)
                in Some (map (\<lambda>row.
                     (let pid = (case wc_player.team row of
                                   None \<Rightarrow> None
                                 | Some t \<Rightarrow> dict_get player_name_team_to_id (wc_player.player row, Some t));
                          tid = (case pid of
                                   None \<Rightarrow> None
                                 | Some i \<Rightarrow> dict_get player_id_to_team_id (Some i))
                      in wc_player.extend row (normalized_wc_player.fields pid tid)))
                   stats_df)))
      | _ \<Rightarrow> None)"

section \<open>Match splitter: \<open>split_matches\<close>\<close>

text \<open>The three local variables of \<open>split_matches\<close> that its two passes update.\<close>

record split_state =
  all_base_matches :: "match_base list"
  all_advanced_stats :: "match_stats_advanced list"
  match_id_counter :: int

text \<open>
  The base row built from a league row. \<open>row.get('venue')\<close> is null: the league table has
  no such column.
\<close>

definition league_base_match :: "int \<Rightarrow> normalized_league_match \<Rightarrow> match_base" where
  "league_base_match counter row =
     \<lparr>match_base.match_id = Some counter,
      match_base.competition_name = match_row.competition_name row,
      match_base.season = clean_match.season row,
      match_base.date = clean_match.date row,
      match_base.time = clean_match.time row,
      match_base.home_team_id = normalized_league_match.home_team_id row,
      match_base.away_team_id = normalized_league_match.away_team_id row,
      match_base.home_goals = clean_match.home_goals row,
      match_base.away_goals = clean_match.away_goals row,
      match_base.home_shots = clean_match.home_shots row,
      match_base.away_shots = clean_match.away_shots row,
      match_base.home_sot = clean_match.home_sot row,
      match_base.away_sot = clean_match.away_sot row,
      match_base.home_fouls = league_match.home_fouls row,
      match_base.away_fouls = league_match.away_fouls row,
      match_base.home_corners = league_match.home_corners row,
      match_base.away_corners = league_match.away_corners row,
      match_base.home_yellow = league_match.home_yellow row,
      match_base.away_yellow = league_match.away_yellow row,
      match_base.home_red = league_match.home_red row,
      match_base.away_red = league_match.away_red row,
      match_base.venue = None,
      match_base.referee = league_match.referee row\<rparr>"

text \<open>
  The base row built from a World-Cup row. The World-Cup table has no foul, corner or card
  columns, so \<open>row.get\<close> gives null for them; \<open>referee\<close> is the constant \<open>None\<close>.
\<close>

definition wc_base_match :: "int \<Rightarrow> normalized_wc_match \<Rightarrow> match_base" where
  "wc_base_match counter row =
     \<lparr>match_base.match_id = Some counter,
      match_base.competition_name = match_row.competition_name row,
      match_base.season = clean_match.season row,
      match_base.date = clean_match.date row,
      match_base.time = clean_match.time row,
      match_base.home_team_id = normalized_wc_match.home_team_id row,
      match_base.away_team_id = normalized_wc_match.away_team_id row,
      match_base.home_goals = clean_match.home_goals row,
      match_base.away_goals = clean_match.away_goals row,
      match_base.home_shots = clean_match.home_shots row,
      match_base.away_shots = clean_match.away_shots row,
      match_base.home_sot = clean_match.home_sot row,
      match_base.away_sot = clean_match.away_sot row,
      match_base.home_fouls = None,
      match_base.away_fouls = None,
      match_base.home_corners = None,
      match_base.away_corners = None,
      match_base.home_yellow = None,
      match_base.away_yellow = None,
      match_base.home_red = None,
      match_base.away_red = None,
      match_base.venue = wc_match.venue row,
      match_base.referee = None\<rparr>"

definition wc_advanced_stats :: "int \<Rightarrow> normalized_wc_match \<Rightarrow> match_stats_advanced" where
  "wc_advanced_stats counter row =
     \<lparr>match_stats_advanced.match_id = Some counter,
      match_stats_advanced.home_xg = wc_match.home_xg row,
      match_stats_advanced.away_xg = wc_match.away_xg row,
      match_stats_advanced.home_possession = wc_match.home_possession row,
      match_stats_advanced.away_possession = wc_match.away_possession row,
      match_stats_advanced.home_passes_completed = wc_match.home_passes_completed row,
      match_stats_advanced.home_passes_attempted = wc_match.home_passes_attempted row,
      match_stats_advanced.away_passes_completed = wc_match.away_passes_completed row,
      match_stats_advanced.away_passes_attempted = wc_match.away_passes_attempted row,
      match_stats_advanced.home_tackles = wc_match.home_tackles row,
      match_stats_advanced.away_tackles = wc_match.away_tackles row,
      match_stats_advanced.home_interceptions = wc_match.home_interceptions row,
      match_stats_advanced.away_interceptions = wc_match.away_interceptions row,
      match_stats_advanced.home_clearances = wc_match.home_clearances row,
      match_stats_advanced.away_clearances = wc_match.away_clearances row,
      match_stats_advanced.home_saves = wc_match.home_saves row,
      match_stats_advanced.away_saves = wc_match.away_saves row\<rparr>"

text \<open>Body of the loop over league rows.\<close>

definition split_league_row :: "normalized_league_match \<Rightarrow> split_state \<Rightarrow> split_state" where
  "split_league_row row s =
     s\<lparr>all_base_matches := all_base_matches s @ [league_base_match (match_id_counter s) row],
       match_id_counter := match_id_counter s + 1\<rparr>"

text \<open>Body of the loop over World-Cup rows.\<close>

definition split_wc_row :: "normalized_wc_match \<Rightarrow> split_state \<Rightarrow> split_state" where
  "split_wc_row row s =
     s\<lparr>all_base_matches := all_base_matches s @ [wc_base_match (match_id_counter s) row],
       all_advanced_stats := all_advanced_stats s @ [wc_advanced_stats (match_id_counter s) row],
       match_id_counter := match_id_counter s + 1\<rparr>"

text \<open>The two tables returned, MatchBase first.\<close>

definition split_matches ::
    "normalized_league_match list option \<Rightarrow> normalized_wc_match list option
       \<Rightarrow> match_base list \<times> match_stats_advanced list" where
  "split_matches league_file wc_file =
     (let s0 = \<lparr>all_base_matches = [], all_advanced_stats = [], match_id_counter = 1\<rparr>;
          s1 = (case league_file of None \<Rightarrow> s0 | Some df \<Rightarrow> fold split_league_row df s0);
          s2 = (case wc_file of None \<Rightarrow> s1 | Some df \<Rightarrow> fold split_wc_row df s1)
      in (all_base_matches s2, all_advanced_stats s2))"

text \<open>db\_match\_stats\_advanced.csv is written only when there is at least one advanced row.\<close>

definition advanced_file_written :: "match_stats_advanced list \<Rightarrow> match_stats_advanced list option" where
  "advanced_file_written all_advanced = (if length all_advanced > 0 then Some all_advanced else None)"

section \<open>Metrics deriver\<close>

text \<open>Sequencing two steps, the second skipped when the first raised.\<close>

definition and_then :: "error + 'a \<Rightarrow> ('a \<Rightarrow> error + 'b) \<Rightarrow> error + 'b" where
  "and_then e f = (case e of Inl err \<Rightarrow> Inl err | Inr x \<Rightarrow> f x)"

subsection \<open>\<open>derive_match_metrics\<close>\<close>

definition home_shot_accuracy_of :: "'a match_base_scheme \<Rightarrow> error + real option" where
  "home_shot_accuracy_of row =
     (if notna (match_base.home_shots row) \<and> gt (match_base.home_shots row) (Some 0)
      then times (truediv (num (match_base.home_sot row)) (num (match_base.home_shots row))) 100
      else Inr None)"

definition away_shot_accuracy_of :: "'a match_base_scheme \<Rightarrow> error + real option" where
  "away_shot_accuracy_of row =
     (if notna (match_base.away_shots row) \<and> gt (match_base.away_shots row) (Some 0)
      then times (truediv (num (match_base.away_sot row)) (num (match_base.away_shots row))) 100
      else Inr None)"

definition result_of :: "'a match_base_scheme \<Rightarrow> string" where
  "result_of row =
     (if gt (match_base.home_goals row) (match_base.away_goals row) then ''H''
      else if gt (match_base.away_goals row) (match_base.home_goals row) then ''A''
      else ''D'')"

definition enhance_match :: "match_base \<Rightarrow> error + match_base_enhanced" where
  "enhance_match row =
     and_then (home_shot_accuracy_of row) (\<lambda>hsa.
     and_then (away_shot_accuracy_of row) (\<lambda>asa.
       Inr (match_base.extend row
         (match_base_enhanced.fields
            (sub (match_base.home_goals row) (match_base.away_goals row))
            (add (match_base.home_goals row) (match_base.away_goals row))
            (fillna 0 (match_base.home_yellow row) + fillna 0 (match_base.away_yellow row) +
             fillna 0 (match_base.home_red row) + fillna 0 (match_base.away_red row))
            hsa asa (Some (result_of row))))))"

definition home_pass_accuracy_of :: "'a match_stats_advanced_scheme \<Rightarrow> error + real option" where
  "home_pass_accuracy_of row =
     (if notna (match_stats_advanced.home_passes_attempted row)
         \<and> gt (match_stats_advanced.home_passes_attempted row) (Some 0)
      then times (truediv (num (match_stats_advanced.home_passes_completed row))
                          (num (match_stats_advanced.home_passes_attempted row))) 100
      else Inr None)"

definition away_pass_accuracy_of :: "'a match_stats_advanced_scheme \<Rightarrow> error + real option" where
  "away_pass_accuracy_of row =
     (if notna (match_stats_advanced.away_passes_attempted row)
         \<and> gt (match_stats_advanced.away_passes_attempted row) (Some 0)
      then times (truediv (num (match_stats_advanced.away_passes_completed row))
                          (num (match_stats_advanced.away_passes_attempted row))) 100
      else Inr None)"

definition possession_delta_of :: "'a match_stats_advanced_scheme \<Rightarrow> real option" where
  "possession_delta_of row =
     (if notna (match_stats_advanced.home_possession row)
         \<and> notna (match_stats_advanced.away_possession row)
      then sub (match_stats_advanced.home_possession row) (match_stats_advanced.away_possession row)
      else None)"

definition xg_difference_of :: "'a match_stats_advanced_scheme \<Rightarrow> real option" where
  "xg_difference_of row =
     (if notna (match_stats_advanced.home_xg row) \<and> notna (match_stats_advanced.away_xg row)
      then sub (match_stats_advanced.home_xg row) (match_stats_advanced.away_xg row)
      else None)"

definition enhance_advanced :: "match_stats_advanced \<Rightarrow> error + match_stats_advanced_enhanced" where
  "enhance_advanced row =
     and_then (home_pass_accuracy_of row) (\<lambda>hpa.
     and_then (away_pass_accuracy_of row) (\<lambda>apa.
       Inr (match_stats_advanced.extend row
         (match_stats_advanced_enhanced.fields hpa apa
            (possession_delta_of row) (xg_difference_of row)))))"

text \<open>
  Returns \<open>None\<close> when the base file is absent; the advanced table is derived only when
  its file exists.
\<close>

definition derive_match_metrics ::
    "match_base list option \<Rightarrow> match_stats_advanced list option
       \<Rightarrow> error + (match_base_enhanced list \<times> match_stats_advanced_enhanced list option) option" where
  "derive_match_metrics base_file advanced_file =
     (case base_file of
        None \<Rightarrow> Inr None
      | Some df \<Rightarrow>
          and_then (apply_rows enhance_match df) (\<lambda>enhanced.
            case advanced_file of
              None \<Rightarrow> Inr (Some (enhanced, None))
            | Some advanced_df \<Rightarrow>
                and_then (apply_rows enhance_advanced advanced_df) (\<lambda>advanced.
                  Inr (Some (enhanced, Some advanced)))))"

subsection \<open>\<open>derive_player_metrics\<close>\<close>

definition goals_per_game_of :: "'a wc_player_scheme \<Rightarrow> error + real option" where
  "goals_per_game_of row =
     (if notna (games row) \<and> gt (games row) (Some 0)
      then truediv (num (goals row)) (num (games row))
      else Inr None)"

definition assists_per_game_of :: "'a wc_player_scheme \<Rightarrow> error + real option" where
  "assists_per_game_of row =
     (if notna (games row) \<and> gt (games row) (Some 0)
      then truediv (num (assists row)) (num (games row))
      else Inr None)"

definition shot_efficiency_of :: "'a wc_player_scheme \<Rightarrow> error + real option" where
  "shot_efficiency_of row =
     (if notna (shots row) \<and> gt (shots row) (Some 0)
      then times (truediv (num (goals row)) (num (shots row))) 100
      else Inr None)"

definition sot_percentage_of :: "'a wc_player_scheme \<Rightarrow> error + real option" where
  "sot_percentage_of row =
     (if notna (shots row) \<and> gt (shots row) (Some 0)
      then times (truediv (num (shots_on_target row)) (num (shots row))) 100
      else Inr None)"

definition goal_contributions_of :: "'a wc_player_scheme \<Rightarrow> int" where
  "goal_contributions_of row =
     (if notna (goals row) then the (goals row) else 0) +
     (if notna (assists row) then the (assists row) else 0)"

text \<open>Reads the \<open>goal_contributions\<close> column computed just before.\<close>

definition contributions_per_game_of :: "int \<Rightarrow> 'a wc_player_scheme \<Rightarrow> error + real option" where
  "contributions_per_game_of contributions row =
     (if notna (games row) \<and> gt (games row) (Some 0)
      then truediv (Some (real_of_int contributions)) (num (games row))
      else Inr None)"

definition enhance_player :: "normalized_wc_player \<Rightarrow> error + player_stats_enhanced" where
  "enhance_player row =
     and_then (goals_per_game_of row) (\<lambda>gpg.
     and_then (assists_per_game_of row) (\<lambda>apg.
     and_then (shot_efficiency_of row) (\<lambda>se.
     and_then (sot_percentage_of row) (\<lambda>sp.
     and_then (contributions_per_game_of (goal_contributions_of row) row) (\<lambda>cpg.
       Inr (normalized_wc_player.extend row
         (player_stats_enhanced.fields gpg apg se sp (goal_contributions_of row) cpg)))))))"

definition derive_player_metrics ::
    "normalized_wc_player list option \<Rightarrow> error + player_stats_enhanced list option" where
  "derive_player_metrics players_file =
     (case players_file of
        None \<Rightarrow> Inr None
      | Some df \<Rightarrow> and_then (apply_rows enhance_player df) (\<lambda>enhanced. Inr (Some enhanced)))"

subsection \<open>\<open>derive_standings_metrics\<close>\<close>

definition win_percentage_of :: "'a standing_scheme \<Rightarrow> error + real option" where
  "win_percentage_of row =
     (if notna (played row) \<and> gt (played row) (Some 0)
      then times (truediv (num (wins row)) (num (played row))) 100
      else Inr None)"

definition points_per_game_of :: "'a standing_scheme \<Rightarrow> error + real option" where
  "points_per_game_of row =
     (if notna (played row) \<and> gt (played row) (Some 0)
      then truediv (num (points row)) (num (played row))
      else Inr None)"

definition standing_goals_per_game_of :: "'a standing_scheme \<Rightarrow> error + real option" where
  "standing_goals_per_game_of row =
     (if notna (played row) \<and> gt (played row) (Some 0)
      then truediv (num (goals_for row)) (num (played row))
      else Inr None)"

definition clean_sheets_of :: "'a standing_scheme \<Rightarrow> int option" where
  "clean_sheets_of row =
     (if notna (played row) \<and> notna (losses row) then sub (played row) (losses row) else None)"

definition enhance_standing :: "standing \<Rightarrow> error + standing_enhanced" where
  "enhance_standing row =
     and_then (win_percentage_of row) (\<lambda>wp.
     and_then (points_per_game_of row) (\<lambda>ppg.
     and_then (standing_goals_per_game_of row) (\<lambda>gpg.
       Inr (standing.extend row (standing_enhanced.fields wp ppg gpg (clean_sheets_of row))))))"

definition derive_standings_metrics ::
    "standing list option \<Rightarrow> error + standing_enhanced list option" where
  "derive_standings_metrics standings_file =
     (case standings_file of
        None \<Rightarrow> Inr None
      | Some df \<Rightarrow> and_then (apply_rows enhance_standing df) (\<lambda>enhanced. Inr (Some enhanced)))"

section \<open>Validator\<close>

text \<open>
  Each check group returns \<open>Inr ()\<close> when every check passes, and \<open>Inl\<close> of the first
  failure otherwise, in the order of the source's \<open>raise\<close> statements. The tables are typed
  records, so the columns a group requires are always present and its \<open>in df.columns\<close>
  guards are true. A file that a group opens without testing for it first raises
  \<open>FileNotFoundError\<close> when absent.
\<close>

definition raise :: "violation \<Rightarrow> error + 'a" where
  "raise v = Inl (ValidationError v)"

text \<open>\<open>Series.dropna()\<close>.\<close>

definition dropna :: "'a option list \<Rightarrow> 'a list" where
  "dropna col = concat (map (\<lambda>c. case c of None \<Rightarrow> [] | Some x \<Rightarrow> [x]) col)"

text \<open>\<open>min()\<close> and \<open>max()\<close> of a non-empty column.\<close>

definition col_min :: "'a::linorder list \<Rightarrow> 'a" where
  "col_min col = fold min (tl col) (hd col)"

definition col_max :: "'a::linorder list \<Rightarrow> 'a" where
  "col_max col = fold max (tl col) (hd col)"

text \<open>\<open>DataFrame.sum(axis=1)\<close> on one row: nulls are skipped, an all-null row sums to 0.\<close>

definition row_sum :: "real option list \<Rightarrow> real" where
  "row_sum cells = sum_list (dropna cells)"

subsection \<open>\<open>validate_reference_tables\<close>\<close>

definition validate_reference_tables :: "team list option \<Rightarrow> player_ref list option \<Rightarrow> error + unit" where
  "validate_reference_tables teams_file players_file =
     (case teams_file of
        None \<Rightarrow> raise (MissingFile ''ref_teams.csv'')
      | Some teams_df \<Rightarrow>
     (case players_file of
        None \<Rightarrow> raise (MissingFile ''ref_players.csv'')
      | Some players_df \<Rightarrow>
          if list_ex isnull (map team.team_id teams_df) then
            raise (Reference NullTeamId)
          else if duplicated (map team.team_id teams_df) \<noteq> [] then
            raise (Reference (DuplicateTeamIds (duplicated (map team.team_id teams_df))))
          else if length teams_df < 100 \<or> length teams_df > 150 then
            raise (Reference (UnexpectedTeamCount (length teams_df)))
          else if length (filter (\<lambda>t. competition_type t \<notin> set [''league'', ''international'']) teams_df) > 0 then
            raise (Reference (InvalidCompetitionType (first_seen (map competition_type
              (filter (\<lambda>t. competition_type t \<notin> set [''league'', ''international'']) teams_df)))))
          else if list_ex isnull (map player_ref.player_id players_df) then
            raise (Reference NullPlayerId)
          else if list_ex isnull (map player_ref.team_id players_df) then
            raise (Reference NullPlayerTeamId)
          else if duplicated (map player_ref.player_id players_df) \<noteq> [] then
            raise (Reference (DuplicatePlayerIds (duplicated (map player_ref.player_id players_df))))
          else if set_difference (map player_ref.team_id players_df) (map team.team_id teams_df) \<noteq> [] then
            raise (Reference (NonexistentTeamIds
              (set_difference (map player_ref.team_id players_df) (map team.team_id teams_df))))
          else if length players_df < 600 \<or> length players_df > 800 then
            raise (Reference (UnexpectedPlayerCount (length players_df)))
          else
            (let age_col = dropna (map player_ref.age players_df)
             in if length age_col > 0 \<and> (col_min age_col < 15 \<or> col_max age_col > 45) then
                  raise (Reference (InvalidAgeRange (col_min age_col) (col_max age_col)))
                else Inr ())))"

subsection \<open>\<open>validate_matches_base\<close>\<close>

text \<open>
  The date check calls \<open>pd.to_datetime(df['date'], errors='raise')\<close>; the library's parser
  is the parameter \<open>to_datetime\<close>, true when the column parses.
\<close>

definition validate_matches_base ::
    "(string option list \<Rightarrow> bool) \<Rightarrow> match_base_enhanced list option \<Rightarrow> team list option \<Rightarrow> error + unit" where
  "validate_matches_base to_datetime matches_file teams_file =
     (case matches_file of
        None \<Rightarrow> raise (MissingFile ''db_matches_base_enhanced.csv'')
      | Some df \<Rightarrow>
     (case teams_file of
        None \<Rightarrow> Inl (FileNotFoundError ''ref_teams.csv'')
      | Some teams_df \<Rightarrow>
          (let valid_team_ids = map team.team_id teams_df in
          if list_ex isnull (map match_base.match_id df) then
            raise (Matches NullMatchId)
          else if duplicated (map match_base.match_id df) \<noteq> [] then
            raise (Matches (DuplicateMatchIds (take 5 (duplicated (map match_base.match_id df)))))
          else if length df < 1800 \<or> length df > 2000 then
            raise (Matches (UnexpectedMatchCount (length df)))
          else if list_ex isnull (map match_base.home_team_id df) then
            raise (Matches NullHomeTeamId)
          else if list_ex isnull (map match_base.away_team_id df) then
            raise (Matches NullAwayTeamId)
          else if set_difference (map match_base.home_team_id df) valid_team_ids \<noteq> [] then
            raise (Matches (NonexistentHomeTeamIds
              (set_difference (map match_base.home_team_id df) valid_team_ids)))
          else if set_difference (map match_base.away_team_id df) valid_team_ids \<noteq> [] then
            raise (Matches (NonexistentAwayTeamIds
              (set_difference (map match_base.away_team_id df) valid_team_ids)))
          else if length (filter (\<lambda>r. eq (match_base.home_team_id r) (match_base.away_team_id r)) df) > 0 then
            raise (Matches (SelfMatches
              (length (filter (\<lambda>r. eq (match_base.home_team_id r) (match_base.away_team_id r)) df))))
          else if list_ex (\<lambda>r. lt (match_base.home_goals r) (Some 0)) df then
            raise (Matches NegativeHomeGoals)
          else if list_ex (\<lambda>r. lt (match_base.away_goals r) (Some 0)) df then
            raise (Matches NegativeAwayGoals)
          else if list_ex (\<lambda>x. x < 0) (dropna (map match_base.home_shots df)) then
            raise (Matches NegativeHomeShots)
          else if length (filter (\<lambda>r. gt (match_base.home_sot r) (match_base.home_shots r)
                     \<and> notna (match_base.home_sot r) \<and> notna (match_base.home_shots r)) df) > 0 then
            raise (Matches (HomeSotExceedsShots
              (length (filter (\<lambda>r. gt (match_base.home_sot r) (match_base.home_shots r)
                     \<and> notna (match_base.home_sot r) \<and> notna (match_base.home_shots r)) df))))
          else if length (filter (\<lambda>r. gt (match_base.away_sot r) (match_base.away_shots r)
                     \<and> notna (match_base.away_sot r) \<and> notna (match_base.away_shots r)) df) > 0 then
            raise (Matches (AwaySotExceedsShots
              (length (filter (\<lambda>r. gt (match_base.away_sot r) (match_base.away_shots r)
                     \<and> notna (match_base.away_sot r) \<and> notna (match_base.away_shots r)) df))))
          else if length (filter (\<lambda>r. gt (home_shot_accuracy r) (Some 100)
                     \<and> notna (home_shot_accuracy r)) df) > 0 then
            raise (Matches (HomeShotAccuracyOver100
              (length (filter (\<lambda>r. gt (home_shot_accuracy r) (Some 100)
                     \<and> notna (home_shot_accuracy r)) df))))
          else if \<not> to_datetime (map match_base.date df) then
            raise (Matches InvalidDateFormat)
          else if length (filter (\<lambda>r. \<not> (result r \<in> set [Some ''H'', Some ''A'', Some ''D''])
                     \<and> notna (result r)) df) > 0 then
            raise (Matches (InvalidResultValues (first_seen (dropna (map result
              (filter (\<lambda>r. \<not> (result r \<in> set [Some ''H'', Some ''A'', Some ''D''])
                     \<and> notna (result r)) df))))))
          else Inr ())))"

subsection \<open>\<open>validate_match_stats_advanced\<close>\<close>

text \<open>
  The two lines of the possession-sum check: the row-wise sum of the two possession
  columns, and the sums outside the tolerance band.
\<close>

definition possession_sum :: "'a match_stats_advanced_scheme list \<Rightarrow> real list" where
  "possession_sum adv_df =
     map (\<lambda>r. row_sum [match_stats_advanced.home_possession r,
                        match_stats_advanced.away_possession r]) adv_df"

definition possession_sum_invalid :: "real list \<Rightarrow> real list" where
  "possession_sum_invalid totals = filter (\<lambda>s. s < 98 \<or> s > 102) totals"

definition validate_match_stats_advanced ::
    "match_stats_advanced_enhanced list option \<Rightarrow> match_base_enhanced list option \<Rightarrow> error + unit" where
  "validate_match_stats_advanced adv_file base_file =
     (case adv_file of
        None \<Rightarrow> raise (MissingFile ''db_match_stats_advanced_enhanced.csv'')
      | Some adv_df \<Rightarrow>
     (case base_file of
        None \<Rightarrow> Inl (FileNotFoundError ''db_matches_base_enhanced.csv'')
      | Some base_df \<Rightarrow>
          (let valid_match_ids = map match_base.match_id base_df in
          if length adv_df \<noteq> 64 then
            raise (Advanced (UnexpectedAdvancedCount (length adv_df)))
          else if set_difference (map match_stats_advanced.match_id adv_df) valid_match_ids \<noteq> [] then
            raise (Advanced (NonexistentMatchIds
              (set_difference (map match_stats_advanced.match_id adv_df) valid_match_ids)))
          else if length (filter (\<lambda>r. gt (match_stats_advanced.home_possession r) (Some 100)
                     \<and> notna (match_stats_advanced.home_possession r)) adv_df) > 0 then
            raise (Advanced (HomePossessionOver100
              (length (filter (\<lambda>r. gt (match_stats_advanced.home_possession r) (Some 100)
                     \<and> notna (match_stats_advanced.home_possession r)) adv_df))))
          else if length (filter (\<lambda>r. gt (match_stats_advanced.away_possession r) (Some 100)
                     \<and> notna (match_stats_advanced.away_possession r)) adv_df) > 0 then
            raise (Advanced (AwayPossessionOver100
              (length (filter (\<lambda>r. gt (match_stats_advanced.away_possession r) (Some 100)
                     \<and> notna (match_stats_advanced.away_possession r)) adv_df))))
          else if length (possession_sum_invalid (possession_sum adv_df)) > 0 then
            raise (Advanced (PossessionSumNot100
              (length (possession_sum_invalid (possession_sum adv_df)))))
          else if list_ex (\<lambda>x. x < 0) (dropna (map match_stats_advanced.home_xg adv_df)) then
            raise (Advanced NegativeHomeXg)
          else if list_ex (\<lambda>x. x < 0) (dropna (map match_stats_advanced.away_xg adv_df)) then
            raise (Advanced NegativeAwayXg)
          else if length (filter (\<lambda>r. gt (match_stats_advanced.home_passes_completed r)
                                         (match_stats_advanced.home_passes_attempted r)
                     \<and> notna (match_stats_advanced.home_passes_completed r)
                     \<and> notna (match_stats_advanced.home_passes_attempted r)) adv_df) > 0 then
            raise (Advanced (HomePassesCompletedExceedAttempted
              (length (filter (\<lambda>r. gt (match_stats_advanced.home_passes_completed r)
                                         (match_stats_advanced.home_passes_attempted r)
                     \<and> notna (match_stats_advanced.home_passes_completed r)
                     \<and> notna (match_stats_advanced.home_passes_attempted r)) adv_df))))
          else if length (filter (\<lambda>r. gt (home_pass_accuracy r) (Some 100)
                     \<and> notna (home_pass_accuracy r)) adv_df) > 0 then
            raise (Advanced (HomePassAccuracyOver100
              (length (filter (\<lambda>r. gt (home_pass_accuracy r) (Some 100)
                     \<and> notna (home_pass_accuracy r)) adv_df))))
          else Inr ())))"

subsection \<open>\<open>validate_players_stats\<close>\<close>

definition validate_players_stats ::
    "player_stats_enhanced list option \<Rightarrow> player_ref list option \<Rightarrow> error + unit" where
  "validate_players_stats players_file ref_players_file =
     (case players_file of
        None \<Rightarrow> raise (MissingFile ''db_players_stats_enhanced.csv'')
      | Some df \<Rightarrow>
     (case ref_players_file of
        None \<Rightarrow> Inl (FileNotFoundError ''ref_players.csv'')
      | Some ref_df \<Rightarrow>
          (let valid_player_ids = map player_ref.player_id ref_df;
               numeric_cols = [(''goals'', map goals df), (''assists'', map assists df),
                               (''shots'', map shots df), (''shots_on_target'', map shots_on_target df),
                               (''minutes'', map minutes df), (''games'', map games df)]
           in
          if set_difference (map normalized_wc_player.player_id df) valid_player_ids \<noteq> [] then
            raise (PlayerStats (NonexistentPlayerIds
              (take 5 (set_difference (map normalized_wc_player.player_id df) valid_player_ids))))
          else if length df < 600 \<or> length df > 800 then
            raise (PlayerStats (UnexpectedPlayerStatsCount (length df)))
          else
            (case find (\<lambda>(col, cells). list_ex (\<lambda>x. x < 0) (dropna cells)) numeric_cols of
               Some (col, cells) \<Rightarrow> raise (PlayerStats (NegativeValues col))
             | None \<Rightarrow>
          if length (filter (\<lambda>r. gt (shots_on_target r) (shots r)
                     \<and> notna (shots_on_target r) \<and> notna (shots r)) df) > 0 then
            raise (PlayerStats (ShotsOnTargetExceedShots
              (length (filter (\<lambda>r. gt (shots_on_target r) (shots r)
                     \<and> notna (shots_on_target r) \<and> notna (shots r)) df))))
          else if length (filter (\<lambda>r. gt (passes_completed r) (passes r)
                     \<and> notna (passes_completed r) \<and> notna (passes r)) df) > 0 then
            raise (PlayerStats (PassesCompletedExceedPasses
              (length (filter (\<lambda>r. gt (passes_completed r) (passes r)
                     \<and> notna (passes_completed r) \<and> notna (passes r)) df))))
          else if length (filter (\<lambda>r. gt (goals r) (shots r)
                     \<and> notna (goals r) \<and> notna (shots r)) df) > 0 then
            raise (PlayerStats (GoalsExceedShots
              (length (filter (\<lambda>r. gt (goals r) (shots r)
                     \<and> notna (goals r) \<and> notna (shots r)) df))))
          else if length (filter (\<lambda>r. gt (passes_pct r) (Some 100) \<and> notna (passes_pct r)) df) > 0 then
            raise (PlayerStats (PassesPctOver100
              (length (filter (\<lambda>r. gt (passes_pct r) (Some 100) \<and> notna (passes_pct r)) df))))
          else if length (filter (\<lambda>r. gt (shot_efficiency r) (Some 100)
                     \<and> notna (shot_efficiency r)) df) > 0 then
            raise (PlayerStats (ShotEfficiencyOver100
              (length (filter (\<lambda>r. gt (shot_efficiency r) (Some 100)
                     \<and> notna (shot_efficiency r)) df))))
          else Inr ()))))"

subsection \<open>\<open>validate_standings\<close>\<close>

definition validate_standings :: "standing_enhanced list option \<Rightarrow> error + unit" where
  "validate_standings standings_file =
     (case standings_file of
        None \<Rightarrow> raise (MissingFile ''db_standings_enhanced.csv'')
      | Some df \<Rightarrow>
          (let expected_points = map (\<lambda>r. add (mul (wins r) (Some 3)) (draws r)) df;
               numeric_cols = [(''played'', map played df), (''wins'', map wins df),
                               (''draws'', map draws df), (''losses'', map losses df),
                               (''goals_for'', map goals_for df),
                               (''goals_against'', map goals_against df),
                               (''points'', map points df)]
           in
          if length df \<noteq> 32 then
            raise (Standings (UnexpectedStandingsCount (length df)))
          else if length (filter (\<lambda>r. ne (add (add (wins r) (draws r)) (losses r)) (played r)) df) > 0 then
            raise (Standings (WinsDrawsLossesNotPlayed
              (length (filter (\<lambda>r. ne (add (add (wins r) (draws r)) (losses r)) (played r)) df))))
          else if length (filter (\<lambda>(p, e). ne p e) (zip (map points df) expected_points)) > 0 then
            raise (Standings (IncorrectPoints
              (length (filter (\<lambda>(p, e). ne p e) (zip (map points df) expected_points)))))
          else
            (case find (\<lambda>(col, cells). list_ex (\<lambda>c. lt c (Some 0)) cells) numeric_cols of
               Some (col, cells) \<Rightarrow> raise (Standings (NegativeColumn col))
             | None \<Rightarrow>
          if list_ex (\<lambda>r. gt (wins r) (played r)) df then
            raise (Standings WinsExceedPlayed)
          else if list_ex (\<lambda>r. gt (draws r) (played r)) df then
            raise (Standings DrawsExceedPlayed)
          else if list_ex (\<lambda>r. gt (losses r) (played r)) df then
            raise (Standings LossesExceedPlayed)
          else
            (case find (\<lambda>g. length (first_seen (map rank (filter (\<lambda>r. group r = g) df)))
                               \<noteq> length (filter (\<lambda>r. group r = g) df))
                       (first_seen (map group df)) of
               Some g \<Rightarrow> raise (Standings (DuplicateRanks g))
             | None \<Rightarrow>
          if length (filter (\<lambda>r. gt (win_percentage r) (Some 100) \<and> notna (win_percentage r)) df) > 0 then
            raise (Standings (WinPercentageOver100
              (length (filter (\<lambda>r. gt (win_percentage r) (Some 100) \<and> notna (win_percentage r)) df))))
          else Inr ()))))"

subsection \<open>\<open>validate_all\<close>\<close>

text \<open>
  The five groups in order, stopping at the first that raises; \<open>True\<close> when all pass. The
  arguments are the six files the groups read.
\<close>

definition validate_all ::
    "(string option list \<Rightarrow> bool) \<Rightarrow> team list option \<Rightarrow> player_ref list option
       \<Rightarrow> match_base_enhanced list option \<Rightarrow> match_stats_advanced_enhanced list option
       \<Rightarrow> player_stats_enhanced list option \<Rightarrow> standing_enhanced list option \<Rightarrow> error + bool" where
  "validate_all to_datetime ref_teams ref_players matches_enhanced advanced_enhanced
                players_enhanced standings_enhanced =
     and_then (validate_reference_tables ref_teams ref_players) (\<lambda>_.
     and_then (validate_matches_base to_datetime matches_enhanced ref_teams) (\<lambda>_.
     and_then (validate_match_stats_advanced advanced_enhanced matches_enhanced) (\<lambda>_.
     and_then (validate_players_stats players_enhanced ref_players) (\<lambda>_.
     and_then (validate_standings standings_enhanced) (\<lambda>_.
       Inr True)))))"

section \<open>Pipeline: \<open>run_pipeline\<close>, steps 5 to 9\<close>

text \<open>
  The stages after cleaning, in the order \<open>run_pipeline\<close> calls them, each reading the
  files the stages before it wrote into an empty output directory: reference tables,
  normalization, match split, derived metrics, validation. The arguments are the four
  cleaned tables. A stage that raises ends the run there with its error; otherwise the
  result is the Validator's.
\<close>

definition run_pipeline ::
    "(string option list \<Rightarrow> bool) \<Rightarrow> league_match list option \<Rightarrow> wc_match list option
       \<Rightarrow> standing list option \<Rightarrow> wc_player list option \<Rightarrow> error + bool" where
  "run_pipeline to_datetime clean_league clean_wc clean_standings clean_players =
     (let ref_teams = Some (create_teams_table clean_league clean_wc)
      in and_then (create_players_table ref_teams clean_players) (\<lambda>ref_players.
     (let normalized = normalize_matches ref_teams clean_league clean_wc;
          normalized_players = normalize_players ref_teams ref_players clean_players;
          split = split_matches (fst normalized) (snd normalized)
      in and_then (derive_match_metrics (Some (fst split)) (advanced_file_written (snd split)))
           (\<lambda>match_metrics.
         and_then (derive_player_metrics normalized_players) (\<lambda>players_enhanced.
         and_then (derive_standings_metrics clean_standings) (\<lambda>standings_enhanced.
           validate_all to_datetime ref_teams ref_players
             (map_option fst match_metrics) (Option.bind match_metrics snd)
             players_enhanced standings_enhanced))))))"

subsection \<open>Specification vocabulary for the derived metrics\<close>

text \<open>
  A ratio metric as the specification words it: \<open>n / d * k\<close>, defined only when the
  denominator \<open>d\<close> is present and greater than zero, else null; null as well when the
  numerator is missing.
\<close>

definition ratio_when_positive :: "int option \<Rightarrow> int option \<Rightarrow> real \<Rightarrow> real option" where
  "ratio_when_positive n d k =
     (case d of
        None \<Rightarrow> None
      | Some dv \<Rightarrow>
          if dv > 0
          then (case n of None \<Rightarrow> None | Some nv \<Rightarrow> Some (real_of_int nv / real_of_int dv * k))
          else None)"

subsection \<open>Specification vocabulary for the standings\<close>

text \<open>
  A standings row as the specification wants it: the five record counts are present,
  \<open>wins + draws + losses = played\<close>, \<open>points = wins * 3 + draws\<close>, every count is
  non-negative and none of wins, draws and losses exceeds \<open>played\<close>; a goal count that is
  present is non-negative, and a win percentage that is present is at most 100.
\<close>

definition standing_row_valid :: "standing_enhanced \<Rightarrow> bool" where
  "standing_row_valid r =
     ((\<exists>w d l p pts.
         wins r = Some w \<and> draws r = Some d \<and> losses r = Some l \<and> played r = Some p
       \<and> points r = Some pts
       \<and> w + d + l = p \<and> pts = w * 3 + d
       \<and> 0 \<le> w \<and> 0 \<le> d \<and> 0 \<le> l \<and> 0 \<le> p \<and> 0 \<le> pts
       \<and> w \<le> p \<and> d \<le> p \<and> l \<le> p)
      \<and> \<not> lt (goals_for r) (Some 0) \<and> \<not> lt (goals_against r) (Some 0)
      \<and> \<not> gt (win_percentage r) (Some 100))"

text \<open>
  A standings table as the specification wants it: 32 rows, every row valid, and
  \<open>rank\<close> unique within each group.
\<close>

definition standings_valid :: "standing_enhanced list \<Rightarrow> bool" where
  "standings_valid df =
     (length df = 32
      \<and> list_all standing_row_valid df
      \<and> list_all (\<lambda>g. distinct (map rank (filter (\<lambda>r. group r = g) df))) (map group df))"

subsection \<open>Specification vocabulary for the Teams table\<close>

text \<open>
  The names of a match table in the order the builder visits them: row by row, home team
  before away team.
\<close>

definition names_in_order :: "'a match_row_scheme list \<Rightarrow> string list" where
  "names_in_order df = concat (map (\<lambda>row. [home_team row, away_team row]) df)"

text \<open>Rows of a file that may be absent.\<close>

definition rows_of :: "'a list option \<Rightarrow> 'a list" where
  "rows_of file = (case file of None \<Rightarrow> [] | Some df \<Rightarrow> df)"

section \<open>Example rows\<close>


definition match_base_row ::
    "int \<Rightarrow> int option \<Rightarrow> int option \<Rightarrow> int option \<Rightarrow> int option \<Rightarrow> match_base" where
  "match_base_row i hg ag hs hsot =
     \<lparr>match_base.match_id = Some i, match_base.competition_name = ''World Cup'',
      match_base.season = Some ''2022'', match_base.date = Some ''2022-11-20'',
      match_base.time = None, match_base.home_team_id = Some 1, match_base.away_team_id = Some 2,
      match_base.home_goals = hg, match_base.away_goals = ag,
      match_base.home_shots = hs, match_base.away_shots = None,
      match_base.home_sot = hsot, match_base.away_sot = None,
      match_base.home_fouls = None, match_base.away_fouls = None,
      match_base.home_corners = None, match_base.away_corners = None,
      match_base.home_yellow = None, match_base.away_yellow = None,
      match_base.home_red = None, match_base.away_red = None,
      match_base.venue = None, match_base.referee = None\<rparr>"

text \<open>
  An enhanced advanced-stats row with the given \<open>match_id\<close> and possession pair, and the
  64-row table whose rows all carry that pair, with \<open>match_id\<close> 1 to 64.
\<close>

definition advanced_row :: "int \<Rightarrow> real option \<Rightarrow> real option \<Rightarrow> match_stats_advanced_enhanced" where
  "advanced_row i hp ap =
     \<lparr>match_stats_advanced.match_id = Some i,
      match_stats_advanced.home_xg = None, match_stats_advanced.away_xg = None,
      match_stats_advanced.home_possession = hp, match_stats_advanced.away_possession = ap,
      match_stats_advanced.home_passes_completed = None,
      match_stats_advanced.home_passes_attempted = None,
      match_stats_advanced.away_passes_completed = None,
      match_stats_advanced.away_passes_attempted = None,
      match_stats_advanced.home_tackles = None, match_stats_advanced.away_tackles = None,
      match_stats_advanced.home_interceptions = None,
      match_stats_advanced.away_interceptions = None,
      match_stats_advanced.home_clearances = None, match_stats_advanced.away_clearances = None,
      match_stats_advanced.home_saves = None, match_stats_advanced.away_saves = None,
      home_pass_accuracy = None, away_pass_accuracy = None,
      possession_delta = possession_delta_of
        \<lparr>match_stats_advanced.match_id = Some i,
         match_stats_advanced.home_xg = None, match_stats_advanced.away_xg = None,
         match_stats_advanced.home_possession = hp, match_stats_advanced.away_possession = ap,
         match_stats_advanced.home_passes_completed = None,
         match_stats_advanced.home_passes_attempted = None,
         match_stats_advanced.away_passes_completed = None,
         match_stats_advanced.away_passes_attempted = None,
         match_stats_advanced.home_tackles = None, match_stats_advanced.away_tackles = None,
         match_stats_advanced.home_interceptions = None,
         match_stats_advanced.away_interceptions = None,
         match_stats_advanced.home_clearances = None, match_stats_advanced.away_clearances = None,
         match_stats_advanced.home_saves = None, match_stats_advanced.away_saves = None\<rparr>,
      xg_difference = None\<rparr>"

definition advanced_table :: "real option \<Rightarrow> real option \<Rightarrow> match_stats_advanced_enhanced list" where
  "advanced_table hp ap = map (\<lambda>i. advanced_row i hp ap) [1..64]"

text \<open>An enhanced base table with \<open>match_id\<close> 1 to 64.\<close>

definition base_table :: "match_base_enhanced list" where
  "base_table =
     map (\<lambda>i. match_base.extend (match_base_row i (Some 1) (Some 0) None None)
                 (match_base_enhanced.fields (Some 1) (Some 1) 0 None None (Some ''H'')))
       [1..64]"

text \<open>
  An enhanced base table of \<open>n\<close> matches with \<open>match_id\<close> 1 to \<open>n\<close>, each a 1-0 home win of
  team 1 over team 2.
\<close>

definition season_table :: "int \<Rightarrow> match_base_enhanced list" where
  "season_table n =
     map (\<lambda>i. match_base.extend (match_base_row i (Some 1) (Some 0) None None)
                 (match_base_enhanced.fields (Some 1) (Some 1) 0 None None (Some ''H'')))
       [1..n]"

text \<open>
  A standings table of eight groups of four teams, each team with one win, one draw and
  one loss.
\<close>

definition standing_row :: "string \<Rightarrow> int \<Rightarrow> standing_enhanced" where
  "standing_row g k =
     \<lparr>group = g, rank = Some k, standing.team = Some (g @ '' team''),
      played = Some 3, wins = Some 1, draws = Some 1, losses = Some 1,
      goals_for = Some 3, goals_against = Some 3, standing.goal_difference = Some 0,
      points = Some 4,
      win_percentage = Some (100 / 3), points_per_game = Some (4 / 3),
      standing_enhanced.goals_per_game = Some 1, clean_sheets = Some 2\<rparr>"

definition standings_table :: "standing_enhanced list" where
  "standings_table =
     concat (map (\<lambda>g. map (standing_row g) [1, 2, 3, 4])
       [''A'', ''B'', ''C'', ''D'', ''E'', ''F'', ''G'', ''H''])"

text \<open>
  A Teams table of \<open>n\<close> league teams with identifiers 1 to \<open>n\<close>, and a cleaned player row
  with the given name and team.
\<close>

definition teams_table :: "int \<Rightarrow> team list" where
  "teams_table n =
     map (\<lambda>i. \<lparr>team.team_id = Some i, team.team_name = ''Team '' @ replicate (nat i) CHR ''I'',
                competition_type = ''league'', country = None,
                primary_competition = ''Serie A''\<rparr>) [1..n]"

definition player_row :: "string \<Rightarrow> string option \<Rightarrow> wc_player" where
  "player_row name t =
     \<lparr>player = name, wc_player.team = t, wc_player.position = Some ''MF'',
      wc_player.age = Some 25, minutes = None, games = None, goals = None, assists = None,
      shots = None, shots_on_target = None, passes_completed = None, passes = None,
      passes_pct = None, tackles = None, interceptions = None, clearances = None,
      touches = None, dispossessed = None, xg = None, xg_assist = None\<rparr>"

text \<open>A cleaned league row with the given teams and goals, and a date parser that accepts.\<close>

definition league_row :: "string \<Rightarrow> string \<Rightarrow> int option \<Rightarrow> int option \<Rightarrow> league_match" where
  "league_row h a hg ag =
     \<lparr>match_row.competition_name = ''Premier League'', home_team = h, away_team = a,
      clean_match.season = Some ''2022-23'', clean_match.date = Some ''2022-08-06'',
      clean_match.time = None, clean_match.home_goals = hg, clean_match.away_goals = ag,
      clean_match.home_shots = None, clean_match.away_shots = None,
      clean_match.home_sot = None, clean_match.away_sot = None,
      league_match.home_fouls = None, league_match.away_fouls = None,
      league_match.home_corners = None, league_match.away_corners = None,
      league_match.home_yellow = None, league_match.away_yellow = None,
      league_match.home_red = None, league_match.away_red = None,
      league_match.referee = None\<rparr>"

definition accept_dates :: "string option list \<Rightarrow> bool" where
  "accept_dates col = True"

text \<open>
  Invariant of the passes of the builder: the identifiers handed out so far are \<open>1, 2, ...\<close> in
  table order, and the counter is the next unused one.
\<close>

definition ids_ok :: "teams_state \<Rightarrow> bool" where
  "ids_ok s \<longleftrightarrow> map team.team_id (teams_data s) = map Some [1..int (length (teams_data s))]
     \<and> team_id_counter s = int (length (teams_data s)) + 1"

text \<open>A name that the next \<open>if\<close> block would add: truthy and not yet seen.\<close>

definition fresh :: "teams_state \<Rightarrow> string \<Rightarrow> bool" where
  "fresh s n \<longleftrightarrow> n \<noteq> [] \<and> n \<notin> seen_teams s"


section \<open>Verified properties\<close>

subsection \<open>Teams table\<close>

lemma set_first_seen: "set (first_seen xs) = set xs"
  by (induction xs rule: first_seen.induct) auto

lemma distinct_first_seen: "distinct (first_seen xs)"
  by (induction xs rule: first_seen.induct) (auto simp: set_first_seen)

lemma add_team_ids_ok: "ids_ok s \<Longrightarrow> ids_ok (add_team n c ct p s)"
  by (simp add: ids_ok_def add_team_def upto_rec2)

lemma league_step_ids_ok: "ids_ok s \<Longrightarrow> ids_ok (league_step row s)"
  by (simp add: league_step_def Let_def add_team_ids_ok)

lemma wc_step_ids_ok: "ids_ok s \<Longrightarrow> ids_ok (wc_step row s)"
  by (simp add: wc_step_def Let_def add_team_ids_ok)

lemma fold_league_ids_ok: "ids_ok s \<Longrightarrow> ids_ok (fold league_step df s)"
  by (induction df arbitrary: s) (simp_all add: league_step_ids_ok)

lemma fold_wc_ids_ok: "ids_ok s \<Longrightarrow> ids_ok (fold wc_step df s)"
  by (induction df arbitrary: s) (simp_all add: wc_step_ids_ok)

lemma add_team_names:
  "map team.team_name (teams_data (add_team n c ct p s)) =
     map team.team_name (teams_data s) @ (if fresh s n then [n] else [])"
  by (simp add: add_team_def fresh_def)

lemma add_team_seen:
  "seen_teams (add_team n c ct p s) = (if n \<noteq> [] then insert n (seen_teams s) else seen_teams s)"
  by (auto simp: add_team_def)

lemma fresh_add_team: "fresh (add_team n c ct p s) m \<longleftrightarrow> fresh s m \<and> m \<noteq> n"
  by (auto simp: fresh_def add_team_seen)

lemma two_names:
  "map team.team_name (teams_data (add_team b c2 ct2 p2 (add_team a c ct p s))) @
      first_seen (filter (fresh (add_team b c2 ct2 p2 (add_team a c ct p s))) ns) =
   map team.team_name (teams_data s) @ first_seen (filter (fresh s) (a # b # ns))"
  by (auto simp: add_team_names fresh_add_team conj_commute conj_left_commute intro!: arg_cong[where f=first_seen] filter_cong)

lemma fold_league_names:
  "map team.team_name (teams_data (fold league_step df s)) =
     map team.team_name (teams_data s) @ first_seen (filter (fresh s) (names_in_order df))"
proof (induction df arbitrary: s)
  case Nil
  show ?case by (simp add: names_in_order_def)
next
  case (Cons row df)
  have step: "league_step row s =
      add_team (away_team row) ''league'' None (match_row.competition_name row)
        (add_team (home_team row) ''league'' None (match_row.competition_name row) s)"
    by (simp add: league_step_def Let_def)
  have names: "names_in_order (row # df) = home_team row # away_team row # names_in_order df"
    by (simp add: names_in_order_def)
  have "map team.team_name (teams_data (fold league_step (row # df) s)) =
      map team.team_name (teams_data (league_step row s)) @
        first_seen (filter (fresh (league_step row s)) (names_in_order df))"
    using Cons.IH[of "league_step row s"] by simp
  also have "\<dots> = map team.team_name (teams_data s) @
        first_seen (filter (fresh s) (names_in_order (row # df)))"
    unfolding step names by (rule two_names)
  finally show ?case .
qed

lemma fold_wc_names:
  "map team.team_name (teams_data (fold wc_step df s)) =
     map team.team_name (teams_data s) @ first_seen (filter (fresh s) (names_in_order df))"
proof (induction df arbitrary: s)
  case Nil
  show ?case by (simp add: names_in_order_def)
next
  case (Cons row df)
  have step: "wc_step row s =
      add_team (away_team row) ''international'' (Some (away_team row)) ''World Cup''
        (add_team (home_team row) ''international'' (Some (home_team row)) ''World Cup'' s)"
    by (simp add: wc_step_def Let_def)
  have names: "names_in_order (row # df) = home_team row # away_team row # names_in_order df"
    by (simp add: names_in_order_def)
  have "map team.team_name (teams_data (fold wc_step (row # df) s)) =
      map team.team_name (teams_data (wc_step row s)) @
        first_seen (filter (fresh (wc_step row s)) (names_in_order df))"
    using Cons.IH[of "wc_step row s"] by simp
  also have "\<dots> = map team.team_name (teams_data s) @
        first_seen (filter (fresh s) (names_in_order (row # df)))"
    unfolding step names by (rule two_names)
  finally show ?case .
qed

lemma league_step_seen:
  "seen_teams (league_step row s) =
     seen_teams s \<union> {n \<in> {home_team row, away_team row}. n \<noteq> []}"
  by (auto simp: league_step_def Let_def add_team_seen)

lemma fold_league_seen:
  "seen_teams (fold league_step df s) = seen_teams s \<union> {n \<in> set (names_in_order df). n \<noteq> []}"
proof (induction df arbitrary: s)
  case Nil
  show ?case by (simp add: names_in_order_def)
next
  case (Cons row df)
  have "names_in_order (row # df) = home_team row # away_team row # names_in_order df"
    by (simp add: names_in_order_def)
  then show ?case
    using Cons.IH[of "league_step row s"] by (auto simp: league_step_seen)
qed

text \<open>What a league pass adds: rows tagged league whose names occur in the table.\<close>

lemma add_team_member:
  "t \<in> set (teams_data (add_team n c ct p s)) \<Longrightarrow>
     t \<in> set (teams_data s) \<or>
     (fresh s n \<and> team.team_name t = n \<and> competition_type t = c \<and> country t = ct \<and> primary_competition t = p)"
  by (auto simp: add_team_def fresh_def split: if_splits)

lemma league_step_member:
  assumes "t \<in> set (teams_data (league_step row s))"
  shows "t \<in> set (teams_data s) \<or>
     (competition_type t = ''league'' \<and> team.team_name t \<in> {home_team row, away_team row})"
  using assms unfolding league_step_def Let_def
  by (auto dest!: add_team_member)

lemma fold_league_member:
  "t \<in> set (teams_data (fold league_step df s)) \<Longrightarrow>
     t \<in> set (teams_data s) \<or>
     (competition_type t = ''league'' \<and> team.team_name t \<in> set (names_in_order df))"
proof (induction df arbitrary: s)
  case Nil
  then show ?case by simp
next
  case (Cons row df)
  have names: "names_in_order (row # df) = home_team row # away_team row # names_in_order df"
    by (simp add: names_in_order_def)
  from Cons.prems have "t \<in> set (teams_data (fold league_step df (league_step row s)))"
    by simp
  from Cons.IH[OF this] show ?case
    unfolding names by (auto dest: league_step_member)
qed

lemma wc_step_member:
  assumes "t \<in> set (teams_data (wc_step row s))"
  shows "t \<in> set (teams_data s) \<or>
     (competition_type t = ''international'' \<and> fresh s (team.team_name t))"
  using assms unfolding wc_step_def Let_def
  by (auto dest!: add_team_member simp: fresh_add_team)

lemma fresh_wc_step: "fresh (wc_step row s) n \<Longrightarrow> fresh s n"
  by (simp add: wc_step_def Let_def fresh_add_team)

lemma fold_wc_member:
  "t \<in> set (teams_data (fold wc_step df s)) \<Longrightarrow>
     t \<in> set (teams_data s) \<or>
     (competition_type t = ''international'' \<and> fresh s (team.team_name t))"
proof (induction df arbitrary: s)
  case Nil
  then show ?case by simp
next
  case (Cons row df)
  from Cons.prems have "t \<in> set (teams_data (fold wc_step df (wc_step row s)))"
    by simp
  from Cons.IH[OF this] show ?case
    by (auto dest: wc_step_member fresh_wc_step)
qed


lemma first_seen_append:
  "first_seen (xs @ ys) = first_seen xs @ first_seen (filter (\<lambda>y. y \<notin> set xs) ys)"
proof (induction xs arbitrary: ys rule: first_seen.induct)
  case 1
  show ?case by simp
next
  case (2 x xs)
  have "filter (\<lambda>y. y \<notin> set (filter (\<lambda>y. y \<noteq> x) xs)) (filter (\<lambda>y. y \<noteq> x) ys) =
      filter (\<lambda>y. y \<notin> set (x # xs)) ys"
    by (auto intro: filter_cong)
  then show ?case
    using "2.IH"[of "filter (\<lambda>y. y \<noteq> x) ys"] by simp
qed

lemma create_teams_table_unfold:
  "create_teams_table league_file wc_file =
     teams_data (fold wc_step (rows_of wc_file) (fold league_step (rows_of league_file)
        \<lparr>teams_data = [], team_id_counter = 1, seen_teams = {}\<rparr>))"
  by (simp add: create_teams_table_def rows_of_def Let_def split: option.splits)

lemma create_teams_table_names:
  "map team.team_name (create_teams_table league_file wc_file) =
     first_seen (filter (\<lambda>n. n \<noteq> [])
       (names_in_order (rows_of league_file) @ names_in_order (rows_of wc_file)))"
proof -
  let ?s0 = "\<lparr>teams_data = [], team_id_counter = 1, seen_teams = {}\<rparr>"
  let ?L = "names_in_order (rows_of league_file)"
  let ?W = "names_in_order (rows_of wc_file)"
  let ?s1 = "fold league_step (rows_of league_file) ?s0"
  have f0: "fresh ?s0 = (\<lambda>n. n \<noteq> [])"
    by (simp add: fresh_def fun_eq_iff)
  have f1: "fresh ?s1 = (\<lambda>n. n \<noteq> [] \<and> n \<notin> set (filter (\<lambda>n. n \<noteq> []) ?L))"
    by (auto simp: fresh_def fun_eq_iff fold_league_seen)
  have "map team.team_name (create_teams_table league_file wc_file) =
      first_seen (filter (fresh ?s0) ?L) @ first_seen (filter (fresh ?s1) ?W)"
    by (simp add: create_teams_table_unfold fold_wc_names fold_league_names)
  also have "\<dots> = first_seen (filter (\<lambda>n. n \<noteq> []) ?L @ filter (\<lambda>n. n \<noteq> []) ?W)"
    unfolding f0 f1 first_seen_append by (simp add: conj_commute)
  finally show ?thesis by simp
qed

lemma create_teams_table_ids:
  "map team.team_id (create_teams_table league_file wc_file) =
     map Some [1..int (length (create_teams_table league_file wc_file))]"
proof -
  have "ids_ok \<lparr>teams_data = [], team_id_counter = 1, seen_teams = {}\<rparr>"
    by (simp add: ids_ok_def)
  then have "ids_ok (fold wc_step (rows_of wc_file) (fold league_step (rows_of league_file)
        \<lparr>teams_data = [], team_id_counter = 1, seen_teams = {}\<rparr>))"
    by (intro fold_wc_ids_ok fold_league_ids_ok)
  then show ?thesis
    by (simp add: ids_ok_def create_teams_table_unfold)
qed

lemma create_teams_table_competition_type:
  assumes "t \<in> set (create_teams_table league_file wc_file)"
  shows "(competition_type t = ''league'' \<and> team.team_name t \<in> set (names_in_order (rows_of league_file)))
       \<or> (competition_type t = ''international'' \<and> team.team_name t \<notin> set (names_in_order (rows_of league_file)))"
proof -
  let ?s0 = "\<lparr>teams_data = [], team_id_counter = 1, seen_teams = {}\<rparr>"
  let ?s1 = "fold league_step (rows_of league_file) ?s0"
  from assms have "t \<in> set (teams_data (fold wc_step (rows_of wc_file) ?s1))"
    by (simp add: create_teams_table_unfold)
  then consider "t \<in> set (teams_data ?s1)"
    | "competition_type t = ''international''" "fresh ?s1 (team.team_name t)"
    using fold_wc_member by blast
  then show ?thesis
  proof cases
    case 1
    then show ?thesis using fold_league_member[of t "rows_of league_file" ?s0] by simp
  next
    case 2
    then show ?thesis by (auto simp: fresh_def fold_league_seen)
  qed
qed

text \<open>
  Claim C1 (team surrogate-ID assignment). The builder visits the league table row by row,
  home team before away team, then the World-Cup table in the same way. When every name in
  the two tables is present (non-empty), the Teams table lists the names in order of first
  appearance in that stream, each once; the row at position \<open>k\<close> carries \<open>team_id = k\<close>,
  counting from 1; and a row is tagged \<open>league\<close> exactly when its name occurs in the league
  table, \<open>international\<close> otherwise (first seen wins).
\<close>

theorem create_teams_table_first_seen_ids:
  assumes "\<forall>n \<in> set (names_in_order (rows_of league_file) @ names_in_order (rows_of wc_file)). n \<noteq> []"
  shows "map team.team_name (create_teams_table league_file wc_file) =
           first_seen (names_in_order (rows_of league_file) @ names_in_order (rows_of wc_file))
       \<and> map team.team_id (create_teams_table league_file wc_file) =
           map Some [1..int (length (create_teams_table league_file wc_file))]
       \<and> distinct (map team.team_name (create_teams_table league_file wc_file))
       \<and> (\<forall>t \<in> set (create_teams_table league_file wc_file).
            competition_type t =
              (if team.team_name t \<in> set (names_in_order (rows_of league_file))
               then ''league'' else ''international''))"
proof -
  let ?stream = "names_in_order (rows_of league_file) @ names_in_order (rows_of wc_file)"
  from assms have "filter (\<lambda>n. n \<noteq> []) ?stream = ?stream"
    by (intro filter_True) simp
  then have names: "map team.team_name (create_teams_table league_file wc_file) = first_seen ?stream"
    using create_teams_table_names[of league_file wc_file] by simp
  have dist: "distinct (map team.team_name (create_teams_table league_file wc_file))"
    unfolding names by (rule distinct_first_seen)
  have tags: "\<forall>t \<in> set (create_teams_table league_file wc_file).
            competition_type t =
              (if team.team_name t \<in> set (names_in_order (rows_of league_file))
               then ''league'' else ''international'')"
    using create_teams_table_competition_type[of _ league_file wc_file] by auto
  from names create_teams_table_ids dist tags show ?thesis by blast
qed

theorem create_teams_table_first_seen_ids_witness:
  "names_in_order (rows_of (Some
        [\<lparr>match_row.competition_name = ''Serie A'', home_team = ''Roma'', away_team = ''Lazio''\<rparr>,
         \<lparr>match_row.competition_name = ''Serie A'', home_team = ''Lazio'', away_team = ''Milan''\<rparr>])) @
      names_in_order (rows_of (Some
        [\<lparr>match_row.competition_name = ''World Cup'', home_team = ''Qatar'', away_team = ''Roma''\<rparr>]))
     = [''Roma'', ''Lazio'', ''Lazio'', ''Milan'', ''Qatar'', ''Roma'']
   \<and> map team.team_name (create_teams_table
       (Some [\<lparr>match_row.competition_name = ''Serie A'', home_team = ''Roma'', away_team = ''Lazio''\<rparr>,
              \<lparr>match_row.competition_name = ''Serie A'', home_team = ''Lazio'', away_team = ''Milan''\<rparr>])
       (Some [\<lparr>match_row.competition_name = ''World Cup'', home_team = ''Qatar'', away_team = ''Roma''\<rparr>]))
     = [''Roma'', ''Lazio'', ''Milan'', ''Qatar'']
   \<and> map team.team_id (create_teams_table
       (Some [\<lparr>match_row.competition_name = ''Serie A'', home_team = ''Roma'', away_team = ''Lazio''\<rparr>,
              \<lparr>match_row.competition_name = ''Serie A'', home_team = ''Lazio'', away_team = ''Milan''\<rparr>])
       (Some [\<lparr>match_row.competition_name = ''World Cup'', home_team = ''Qatar'', away_team = ''Roma''\<rparr>]))
     = [Some 1, Some 2, Some 3, Some 4]
   \<and> map competition_type (create_teams_table
       (Some [\<lparr>match_row.competition_name = ''Serie A'', home_team = ''Roma'', away_team = ''Lazio''\<rparr>,
              \<lparr>match_row.competition_name = ''Serie A'', home_team = ''Lazio'', away_team = ''Milan''\<rparr>])
       (Some [\<lparr>match_row.competition_name = ''World Cup'', home_team = ''Qatar'', away_team = ''Roma''\<rparr>]))
     = [''league'', ''league'', ''league'', ''international'']"
proof -
  let ?L = "Some [\<lparr>match_row.competition_name = ''Serie A'', home_team = ''Roma'', away_team = ''Lazio''\<rparr>,
              \<lparr>match_row.competition_name = ''Serie A'', home_team = ''Lazio'', away_team = ''Milan''\<rparr>]"
  let ?W = "Some [\<lparr>match_row.competition_name = ''World Cup'', home_team = ''Qatar'', away_team = ''Roma''\<rparr>]"
  have stream: "names_in_order (rows_of ?L) @ names_in_order (rows_of ?W) =
      [''Roma'', ''Lazio'', ''Lazio'', ''Milan'', ''Qatar'', ''Roma'']"
    by (simp add: names_in_order_def rows_of_def)
  have h: "\<forall>n \<in> set (names_in_order (rows_of ?L) @ names_in_order (rows_of ?W)). n \<noteq> []"
    unfolding stream by simp
  note t = create_teams_table_first_seen_ids[OF h]
  have names: "map team.team_name (create_teams_table ?L ?W) = [''Roma'', ''Lazio'', ''Milan'', ''Qatar'']"
    using t unfolding stream by simp
  then have "length (map team.team_name (create_teams_table ?L ?W)) = 4"
    by simp
  then have len: "length (create_teams_table ?L ?W) = 4"
    by simp
  have ids: "map team.team_id (create_teams_table ?L ?W) = [Some 1, Some 2, Some 3, Some 4]"
    using t unfolding len by (simp add: upto.simps)
  have "\<forall>t \<in> set (create_teams_table ?L ?W). competition_type t =
      (if team.team_name t \<in> {''Roma'', ''Lazio'', ''Milan''} then ''league'' else ''international'')"
    using t by (simp add: names_in_order_def rows_of_def)
  then have "map competition_type (create_teams_table ?L ?W) =
      map (\<lambda>n. if n \<in> {''Roma'', ''Lazio'', ''Milan''} then ''league'' else ''international'')
        (map team.team_name (create_teams_table ?L ?W))"
    by (simp add: comp_def)
  then have tags: "map competition_type (create_teams_table ?L ?W) =
      [''league'', ''league'', ''league'', ''international'']"
    unfolding names by simp
  from stream names ids tags show ?thesis by blast
qed


lemma count_distinct_names:
  assumes "distinct (map f xs)" "n \<in> set (map f xs)"
  shows "length (filter (\<lambda>t. f t = n) xs) = 1"
proof -
  have "length (filter (\<lambda>t. f t = n) xs) = length (filter (\<lambda>m. m = n) (map f xs))"
    by (simp add: filter_map comp_def)
  also have "\<dots> = card ({m. m = n} \<inter> set (map f xs))"
    using assms(1) by (rule distinct_length_filter)
  also have "{m. m = n} \<inter> set (map f xs) = {n}"
    using assms(2) by auto
  finally show ?thesis by simp
qed

text \<open>
  Claim C3 (Teams-table key invariant). When every team name in the two match tables is
  present (non-empty), each name that occurs as home or away team in a league or World-Cup
  row has exactly one row in the Teams table, the table has as many rows as there are
  distinct names, and its \<open>team_id\<close> values are exactly \<open>1..N\<close> for that number \<open>N\<close>,
  without duplicates.
\<close>

theorem teams_table_key_invariant:
  assumes "\<forall>n \<in> set (names_in_order (rows_of league_file) @ names_in_order (rows_of wc_file)). n \<noteq> []"
  shows "(\<forall>n \<in> set (names_in_order (rows_of league_file) @ names_in_order (rows_of wc_file)).
            length (filter (\<lambda>t. team.team_name t = n) (create_teams_table league_file wc_file)) = 1)
       \<and> length (create_teams_table league_file wc_file) =
            card (set (names_in_order (rows_of league_file) @ names_in_order (rows_of wc_file)))
       \<and> set (map team.team_id (create_teams_table league_file wc_file)) =
            Some ` {1..int (card (set (names_in_order (rows_of league_file) @ names_in_order (rows_of wc_file))))}
       \<and> distinct (map team.team_id (create_teams_table league_file wc_file))"
proof -
  let ?stream = "names_in_order (rows_of league_file) @ names_in_order (rows_of wc_file)"
  let ?T = "create_teams_table league_file wc_file"
  from assms have "filter (\<lambda>n. n \<noteq> []) ?stream = ?stream"
    by (intro filter_True) simp
  then have names: "map team.team_name ?T = first_seen ?stream"
    using create_teams_table_names[of league_file wc_file] by simp
  have dist: "distinct (map team.team_name ?T)"
    unfolding names by (rule distinct_first_seen)
  have mem: "set (map team.team_name ?T) = set ?stream"
    unfolding names by (rule set_first_seen)
  have once: "\<forall>n \<in> set ?stream. length (filter (\<lambda>t. team.team_name t = n) ?T) = 1"
    using count_distinct_names[OF dist] mem by blast
  have "length (map team.team_name ?T) = card (set (map team.team_name ?T))"
    using dist by (simp only: distinct_card)
  then have len: "length ?T = card (set ?stream)"
    unfolding mem by simp
  have ids: "map team.team_id ?T = map Some [1..int (length ?T)]"
    by (rule create_teams_table_ids)
  have range: "set (map team.team_id ?T) = Some ` {1..int (card (set ?stream))}"
    by (subst ids) (simp add: len)
  have dist_ids: "distinct (map team.team_id ?T)"
    by (subst ids) (simp add: distinct_map)
  from once len range dist_ids show ?thesis by blast
qed

theorem teams_table_key_invariant_witness:
  "map (\<lambda>n. length (filter (\<lambda>t. team.team_name t = n) (create_teams_table
       (Some [\<lparr>match_row.competition_name = ''La Liga'', home_team = ''Betis'', away_team = ''Getafe''\<rparr>])
       (Some [\<lparr>match_row.competition_name = ''World Cup'', home_team = ''Japan'', away_team = ''Spain''\<rparr>,
              \<lparr>match_row.competition_name = ''World Cup'', home_team = ''Spain'', away_team = ''Japan''\<rparr>]))))
      [''Betis'', ''Getafe'', ''Japan'', ''Spain''] = [1, 1, 1, 1]
   \<and> length (create_teams_table
       (Some [\<lparr>match_row.competition_name = ''La Liga'', home_team = ''Betis'', away_team = ''Getafe''\<rparr>])
       (Some [\<lparr>match_row.competition_name = ''World Cup'', home_team = ''Japan'', away_team = ''Spain''\<rparr>,
              \<lparr>match_row.competition_name = ''World Cup'', home_team = ''Spain'', away_team = ''Japan''\<rparr>])) = 4
   \<and> set (map team.team_id (create_teams_table
       (Some [\<lparr>match_row.competition_name = ''La Liga'', home_team = ''Betis'', away_team = ''Getafe''\<rparr>])
       (Some [\<lparr>match_row.competition_name = ''World Cup'', home_team = ''Japan'', away_team = ''Spain''\<rparr>,
              \<lparr>match_row.competition_name = ''World Cup'', home_team = ''Spain'', away_team = ''Japan''\<rparr>])))
      = {Some 1, Some 2, Some 3, Some 4}"
proof -
  let ?L = "Some [\<lparr>match_row.competition_name = ''La Liga'', home_team = ''Betis'', away_team = ''Getafe''\<rparr>]"
  let ?W = "Some [\<lparr>match_row.competition_name = ''World Cup'', home_team = ''Japan'', away_team = ''Spain''\<rparr>,
              \<lparr>match_row.competition_name = ''World Cup'', home_team = ''Spain'', away_team = ''Japan''\<rparr>]"
  have stream: "names_in_order (rows_of ?L) @ names_in_order (rows_of ?W) =
      [''Betis'', ''Getafe'', ''Japan'', ''Spain'', ''Spain'', ''Japan'']"
    by (simp add: names_in_order_def rows_of_def)
  have h: "\<forall>n \<in> set (names_in_order (rows_of ?L) @ names_in_order (rows_of ?W)). n \<noteq> []"
    unfolding stream by simp
  have card: "card (set [''Betis'', ''Getafe'', ''Japan'', ''Spain'', ''Spain'', ''Japan'']) = 4"
    by (simp only: card_set) simp
  have range: "Some ` {1..(4::int)} = {Some 1, Some 2, Some 3, Some 4}"
    by (auto simp: image_iff)
  note t = teams_table_key_invariant[OF h, unfolded stream card]
  from t range show ?thesis by simp
qed


subsection \<open>Match splitter\<close>

lemma split_league_row_sel:
  "all_base_matches (split_league_row row s) =
     all_base_matches s @ [league_base_match (match_id_counter s) row]"
  "all_advanced_stats (split_league_row row s) = all_advanced_stats s"
  "match_id_counter (split_league_row row s) = match_id_counter s + 1"
  by (simp_all add: split_league_row_def)

lemma split_wc_row_sel:
  "all_base_matches (split_wc_row row s) =
     all_base_matches s @ [wc_base_match (match_id_counter s) row]"
  "all_advanced_stats (split_wc_row row s) =
     all_advanced_stats s @ [wc_advanced_stats (match_id_counter s) row]"
  "match_id_counter (split_wc_row row s) = match_id_counter s + 1"
  by (simp_all add: split_wc_row_def)

lemma fold_split_league_row:
  "all_base_matches (fold split_league_row df s) =
     all_base_matches s @
       map (\<lambda>(i, row). league_base_match (match_id_counter s + int i) row) (enumerate 0 df)
   \<and> all_advanced_stats (fold split_league_row df s) = all_advanced_stats s
   \<and> match_id_counter (fold split_league_row df s) = match_id_counter s + int (length df)"
proof (induction df arbitrary: s)
  case Nil
  show ?case by simp
next
  case (Cons row df)
  have "fold split_league_row (row # df) s = fold split_league_row df (split_league_row row s)"
    by simp
  then show ?case
    using Cons.IH[of "split_league_row row s"]
    by (simp add: split_league_row_sel enumerate_Suc_eq split_def add.assoc comp_def)
qed

lemma fold_split_wc_row:
  "all_base_matches (fold split_wc_row df s) =
     all_base_matches s @
       map (\<lambda>(i, row). wc_base_match (match_id_counter s + int i) row) (enumerate 0 df)
   \<and> all_advanced_stats (fold split_wc_row df s) =
     all_advanced_stats s @
       map (\<lambda>(i, row). wc_advanced_stats (match_id_counter s + int i) row) (enumerate 0 df)
   \<and> match_id_counter (fold split_wc_row df s) = match_id_counter s + int (length df)"
proof (induction df arbitrary: s)
  case Nil
  show ?case by simp
next
  case (Cons row df)
  have "fold split_wc_row (row # df) s = fold split_wc_row df (split_wc_row row s)"
    by simp
  then show ?case
    using Cons.IH[of "split_wc_row row s"]
    by (simp add: split_wc_row_sel enumerate_Suc_eq split_def add.assoc comp_def)
qed

lemma split_matches_rows:
  "split_matches league_file wc_file =
     (map (\<lambda>(i, row). league_base_match (1 + int i) row) (enumerate 0 (rows_of league_file)) @
      map (\<lambda>(i, row). wc_base_match (1 + int (length (rows_of league_file)) + int i) row)
        (enumerate 0 (rows_of wc_file)),
      map (\<lambda>(i, row). wc_advanced_stats (1 + int (length (rows_of league_file)) + int i) row)
        (enumerate 0 (rows_of wc_file)))"
proof -
  let ?s0 = "\<lparr>all_base_matches = [], all_advanced_stats = [], match_id_counter = 1\<rparr>"
  have unfold: "split_matches league_file wc_file =
      (all_base_matches (fold split_wc_row (rows_of wc_file) (fold split_league_row (rows_of league_file) ?s0)),
       all_advanced_stats (fold split_wc_row (rows_of wc_file) (fold split_league_row (rows_of league_file) ?s0)))"
    by (simp add: split_matches_def Let_def rows_of_def split: option.splits)
  show ?thesis
    unfolding unfold by (simp add: fold_split_league_row fold_split_wc_row)
qed

lemma map_enumerate_ids:
  "map (\<lambda>(i, row). Some (c + int i)) (enumerate 0 df) = map Some [c..c + int (length df) - 1]"
proof (induction df arbitrary: c)
  case Nil
  show ?case by simp
next
  case (Cons row df)
  have "map (\<lambda>(i, row). Some (c + int i)) (enumerate 0 (row # df)) =
      Some c # map (\<lambda>(i, row). Some (c + 1 + int i)) (enumerate 0 df)"
    by (simp add: enumerate_Suc_eq split_def add.assoc comp_def)
  also have "\<dots> = Some c # map Some [c + 1..c + 1 + int (length df) - 1]"
    by (simp only: Cons.IH)
  also have "\<dots> = map Some [c..c + int (length (row # df)) - 1]"
    by (simp add: upto_rec1[of c])
  finally show ?case .
qed


lemma upto_append_counts:
  "[1..int n] @ [1 + int n..int n + int m] = [1..int n + int m]"
proof (cases n)
  case 0
  then show ?thesis by simp
next
  case (Suc k)
  then show ?thesis
    using upto_split2[of 1 "int n" "int n + int m"] by (simp add: add.commute)
qed

text \<open>
  Claim C2 (match splitter guarantee). League rows are processed first, World-Cup rows
  second, and \<open>match_id\<close> runs \<open>1, 2, ...\<close> over that whole stream. MatchBase has exactly
  one row per input match of either kind: the first rows are the league rows in order, the
  remaining ones the World-Cup rows in order. MatchStatsAdvanced has exactly one row per
  World-Cup match, built from that match and carrying the \<open>match_id\<close> of its base row, and
  none for a league match. Every World-Cup base row has a null \<open>referee\<close>.
\<close>

theorem split_matches_guarantee:
  "map match_base.match_id (fst (split_matches league_file wc_file)) =
      map Some [1..int (length (rows_of league_file)) + int (length (rows_of wc_file))]
   \<and> length (fst (split_matches league_file wc_file)) =
      length (rows_of league_file) + length (rows_of wc_file)
   \<and> take (length (rows_of league_file)) (fst (split_matches league_file wc_file)) =
      map (\<lambda>(i, row). league_base_match (1 + int i) row) (enumerate 0 (rows_of league_file))
   \<and> drop (length (rows_of league_file)) (fst (split_matches league_file wc_file)) =
      map (\<lambda>(i, row). wc_base_match (1 + int (length (rows_of league_file)) + int i) row)
        (enumerate 0 (rows_of wc_file))
   \<and> snd (split_matches league_file wc_file) =
      map (\<lambda>(i, row). wc_advanced_stats (1 + int (length (rows_of league_file)) + int i) row)
        (enumerate 0 (rows_of wc_file))
   \<and> length (snd (split_matches league_file wc_file)) = length (rows_of wc_file)
   \<and> map match_stats_advanced.match_id (snd (split_matches league_file wc_file)) =
      map match_base.match_id
        (drop (length (rows_of league_file)) (fst (split_matches league_file wc_file)))
   \<and> map match_stats_advanced.match_id (snd (split_matches league_file wc_file)) =
      map Some [1 + int (length (rows_of league_file))..
                int (length (rows_of league_file)) + int (length (rows_of wc_file))]
   \<and> map match_base.referee
        (drop (length (rows_of league_file)) (fst (split_matches league_file wc_file))) =
      replicate (length (rows_of wc_file)) None"
proof -
  let ?L = "rows_of league_file"
  let ?W = "rows_of wc_file"
  let ?n = "int (length ?L)"
  let ?lb = "map (\<lambda>(i, row). league_base_match (1 + int i) row) (enumerate 0 ?L)"
  let ?wb = "map (\<lambda>(i, row). wc_base_match (1 + ?n + int i) row) (enumerate 0 ?W)"
  let ?wa = "map (\<lambda>(i, row). wc_advanced_stats (1 + ?n + int i) row) (enumerate 0 ?W)"
  have rows: "split_matches league_file wc_file = (?lb @ ?wb, ?wa)"
    by (rule split_matches_rows)
  have len_lb: "length ?lb = length ?L"
    by simp
  have ids_lb: "map match_base.match_id ?lb = map Some [1..?n]"
    using map_enumerate_ids[of 1 ?L] by (simp add: league_base_match_def split_def comp_def)
  have ids_wb: "map match_base.match_id ?wb = map Some [1 + ?n..?n + int (length ?W)]"
    using map_enumerate_ids[of "1 + ?n" ?W] by (simp add: wc_base_match_def split_def comp_def)
  have ids_wa: "map match_stats_advanced.match_id ?wa = map Some [1 + ?n..?n + int (length ?W)]"
    using map_enumerate_ids[of "1 + ?n" ?W] by (simp add: wc_advanced_stats_def split_def comp_def)
  have ref_wb: "map match_base.referee ?wb = replicate (length ?W) None"
    by (simp add: wc_base_match_def split_def comp_def map_replicate_const)
  have "map match_base.match_id (?lb @ ?wb) =
      map Some ([1..?n] @ [1 + ?n..?n + int (length ?W)])"
    by (simp only: map_append ids_lb ids_wb)
  then have ids: "map match_base.match_id (?lb @ ?wb) = map Some [1..?n + int (length ?W)]"
    by (simp only: upto_append_counts)
  show ?thesis
    unfolding rows fst_conv snd_conv
    using ids ids_wa ids_wb ref_wb len_lb by simp
qed


subsection \<open>Metrics deriver\<close>

lemma guarded_ratio_times:
  "(if notna d \<and> gt d (Some 0) then times (truediv (num n) (num d)) k else Inr None) =
     Inr (ratio_when_positive n d k)"
  by (cases d; cases n)
     (simp_all add: notna_def gt_def num_def truediv_def times_def mul_def ratio_when_positive_def)

lemma guarded_ratio:
  "(if notna d \<and> gt d (Some 0) then truediv (num n) (num d) else Inr None) =
     Inr (ratio_when_positive n d 1)"
  by (cases d; cases n)
     (simp_all add: notna_def gt_def num_def truediv_def ratio_when_positive_def)

lemma guarded_ratio_present:
  "(if notna d \<and> gt d (Some 0) then truediv (Some (real_of_int c)) (num d) else Inr None) =
     Inr (ratio_when_positive (Some c) d 1)"
  by (cases d)
     (simp_all add: notna_def gt_def num_def truediv_def ratio_when_positive_def)

lemma apply_rows_total:
  assumes "\<And>row. f row = Inr (g row)"
  shows "apply_rows f df = Inr (map g df)"
  by (induction df) (simp_all add: assms)

lemma enhance_match_total:
  "enhance_match row =
     Inr (match_base.extend row
       (match_base_enhanced.fields
          (sub (match_base.home_goals row) (match_base.away_goals row))
          (add (match_base.home_goals row) (match_base.away_goals row))
          (fillna 0 (match_base.home_yellow row) + fillna 0 (match_base.away_yellow row) +
           fillna 0 (match_base.home_red row) + fillna 0 (match_base.away_red row))
          (ratio_when_positive (match_base.home_sot row) (match_base.home_shots row) 100)
          (ratio_when_positive (match_base.away_sot row) (match_base.away_shots row) 100)
          (Some (result_of row))))"
  unfolding enhance_match_def home_shot_accuracy_of_def away_shot_accuracy_of_def
    guarded_ratio_times
  by (simp add: and_then_def)

lemma enhance_advanced_total:
  "enhance_advanced row =
     Inr (match_stats_advanced.extend row
       (match_stats_advanced_enhanced.fields
          (ratio_when_positive (match_stats_advanced.home_passes_completed row)
             (match_stats_advanced.home_passes_attempted row) 100)
          (ratio_when_positive (match_stats_advanced.away_passes_completed row)
             (match_stats_advanced.away_passes_attempted row) 100)
          (possession_delta_of row) (xg_difference_of row)))"
  unfolding enhance_advanced_def home_pass_accuracy_of_def away_pass_accuracy_of_def
    guarded_ratio_times
  by (simp add: and_then_def)

lemma enhance_player_total:
  "enhance_player row =
     Inr (normalized_wc_player.extend row
       (player_stats_enhanced.fields
          (ratio_when_positive (goals row) (games row) 1)
          (ratio_when_positive (assists row) (games row) 1)
          (ratio_when_positive (goals row) (shots row) 100)
          (ratio_when_positive (shots_on_target row) (shots row) 100)
          (goal_contributions_of row)
          (ratio_when_positive (Some (goal_contributions_of row)) (games row) 1)))"
  unfolding enhance_player_def goals_per_game_of_def assists_per_game_of_def
    shot_efficiency_of_def sot_percentage_of_def contributions_per_game_of_def
    guarded_ratio_times guarded_ratio guarded_ratio_present
  by (simp add: and_then_def)

lemma enhance_standing_total:
  "enhance_standing row =
     Inr (standing.extend row
       (standing_enhanced.fields
          (ratio_when_positive (wins row) (played row) 100)
          (ratio_when_positive (points row) (played row) 1)
          (ratio_when_positive (goals_for row) (played row) 1)
          (clean_sheets_of row)))"
  unfolding enhance_standing_def win_percentage_of_def points_per_game_of_def
    standing_goals_per_game_of_def guarded_ratio_times guarded_ratio
  by (simp add: and_then_def)


lemma derive_player_metrics_total:
  "derive_player_metrics (Some df) =
     Inr (Some (map (\<lambda>row. normalized_wc_player.extend row
       (player_stats_enhanced.fields
          (ratio_when_positive (goals row) (games row) 1)
          (ratio_when_positive (assists row) (games row) 1)
          (ratio_when_positive (goals row) (shots row) 100)
          (ratio_when_positive (shots_on_target row) (shots row) 100)
          (goal_contributions_of row)
          (ratio_when_positive (Some (goal_contributions_of row)) (games row) 1))) df))"
  by (simp add: derive_player_metrics_def and_then_def apply_rows_total[OF enhance_player_total])

lemma derive_match_metrics_total:
  "derive_match_metrics (Some df) advanced_file =
     Inr (Some (map (\<lambda>row. match_base.extend row
       (match_base_enhanced.fields
          (sub (match_base.home_goals row) (match_base.away_goals row))
          (add (match_base.home_goals row) (match_base.away_goals row))
          (fillna 0 (match_base.home_yellow row) + fillna 0 (match_base.away_yellow row) +
           fillna 0 (match_base.home_red row) + fillna 0 (match_base.away_red row))
          (ratio_when_positive (match_base.home_sot row) (match_base.home_shots row) 100)
          (ratio_when_positive (match_base.away_sot row) (match_base.away_shots row) 100)
          (Some (result_of row)))) df,
       map_option (map (\<lambda>row. match_stats_advanced.extend row
         (match_stats_advanced_enhanced.fields
            (ratio_when_positive (match_stats_advanced.home_passes_completed row)
               (match_stats_advanced.home_passes_attempted row) 100)
            (ratio_when_positive (match_stats_advanced.away_passes_completed row)
               (match_stats_advanced.away_passes_attempted row) 100)
            (possession_delta_of row) (xg_difference_of row)))) advanced_file))"
  by (cases advanced_file)
     (simp_all add: derive_match_metrics_def and_then_def apply_rows_total[OF enhance_match_total]
        apply_rows_total[OF enhance_advanced_total])

lemma derive_standings_metrics_total:
  "derive_standings_metrics (Some df) =
     Inr (Some (map (\<lambda>row. standing.extend row
       (standing_enhanced.fields
          (ratio_when_positive (wins row) (played row) 100)
          (ratio_when_positive (points row) (played row) 1)
          (ratio_when_positive (goals_for row) (played row) 1)
          (clean_sheets_of row))) df))"
  by (simp add: derive_standings_metrics_def and_then_def apply_rows_total[OF enhance_standing_total])







lemma derived_matches:
  "\<exists>enhanced. derive_match_metrics (Some matches) None = Inr (Some (enhanced, None))
      \<and> map match_base.truncate enhanced = matches
      \<and> map match_base_enhanced.goal_difference enhanced =
          map (\<lambda>r. sub (match_base.home_goals r) (match_base.away_goals r)) enhanced
      \<and> map total_goals enhanced =
          map (\<lambda>r. add (match_base.home_goals r) (match_base.away_goals r)) enhanced
      \<and> map total_cards enhanced =
          map (\<lambda>r. fillna 0 (match_base.home_yellow r) + fillna 0 (match_base.away_yellow r) +
                    fillna 0 (match_base.home_red r) + fillna 0 (match_base.away_red r)) enhanced
      \<and> map home_shot_accuracy enhanced =
          map (\<lambda>r. ratio_when_positive (match_base.home_sot r) (match_base.home_shots r) 100) enhanced
      \<and> map away_shot_accuracy enhanced =
          map (\<lambda>r. ratio_when_positive (match_base.away_sot r) (match_base.away_shots r) 100) enhanced"
  unfolding derive_match_metrics_total
  by (simp add: comp_def match_base.defs match_base_enhanced.defs)
     (rule map_idI, simp)






lemma result_of_cases:
  "result_of r =
     (case (match_base.home_goals r, match_base.away_goals r) of
        (Some h, Some a) \<Rightarrow> if h > a then ''H'' else if a > h then ''A'' else ''D''
      | _ \<Rightarrow> ''D'')"
  by (simp add: result_of_def gt_def split: option.splits)

text \<open>
  Claim C10 (result of a match with a missing goal value). The deriver stores
  \<open>result = result_of row\<close> for every row. That value is \<open>D\<close> whenever \<open>home_goals\<close> or
  \<open>away_goals\<close> is null, the same value as for a genuine draw; it is \<open>H\<close> exactly when both
  goal values are present and the home value is larger, and \<open>A\<close> exactly when both are
  present and the away value is larger.
\<close>

theorem result_is_draw_when_goal_missing:
  "(\<exists>enhanced advanced.
       derive_match_metrics (Some matches) advanced_file = Inr (Some (enhanced, advanced))
     \<and> map match_base.home_goals enhanced = map match_base.home_goals matches
     \<and> map match_base.away_goals enhanced = map match_base.away_goals matches
     \<and> map result enhanced = map (\<lambda>r. Some (result_of r)) enhanced)
   \<and> (\<forall>r :: match_base_enhanced.
         isnull (match_base.home_goals r) \<or> isnull (match_base.away_goals r)
           \<longrightarrow> result_of r = ''D'')
   \<and> (\<forall>(r :: match_base_enhanced) g.
         match_base.home_goals r = Some g \<and> match_base.away_goals r = Some g
           \<longrightarrow> result_of r = ''D'')
   \<and> (\<forall>r :: match_base_enhanced.
         result_of r = ''H'' \<longleftrightarrow>
           (\<exists>h a. match_base.home_goals r = Some h \<and> match_base.away_goals r = Some a \<and> h > a))
   \<and> (\<forall>r :: match_base_enhanced.
         result_of r = ''A'' \<longleftrightarrow>
           (\<exists>h a. match_base.home_goals r = Some h \<and> match_base.away_goals r = Some a \<and> a > h))"
proof -
  have table: "\<exists>enhanced advanced.
       derive_match_metrics (Some matches) advanced_file = Inr (Some (enhanced, advanced))
     \<and> map match_base.home_goals enhanced = map match_base.home_goals matches
     \<and> map match_base.away_goals enhanced = map match_base.away_goals matches
     \<and> map result enhanced = map (\<lambda>r. Some (result_of r)) enhanced"
    unfolding derive_match_metrics_total
    by (simp add: comp_def result_of_def match_base.defs match_base_enhanced.defs)
  have rows: "(\<forall>r :: match_base_enhanced.
         isnull (match_base.home_goals r) \<or> isnull (match_base.away_goals r)
           \<longrightarrow> result_of r = ''D'')
   \<and> (\<forall>(r :: match_base_enhanced) g.
         match_base.home_goals r = Some g \<and> match_base.away_goals r = Some g
           \<longrightarrow> result_of r = ''D'')
   \<and> (\<forall>r :: match_base_enhanced.
         result_of r = ''H'' \<longleftrightarrow>
           (\<exists>h a. match_base.home_goals r = Some h \<and> match_base.away_goals r = Some a \<and> h > a))
   \<and> (\<forall>r :: match_base_enhanced.
         result_of r = ''A'' \<longleftrightarrow>
           (\<exists>h a. match_base.home_goals r = Some h \<and> match_base.away_goals r = Some a \<and> a > h))"
    by (auto simp: result_of_cases isnull_def split: option.splits)
  from table rows show ?thesis by (intro conjI) blast+
qed

theorem result_is_draw_when_goal_missing_witness:
  "\<exists>enhanced advanced.
       derive_match_metrics (Some
         [match_base_row 1 None (Some 2) None None,
          match_base_row 2 (Some 1) (Some 1) None None,
          match_base_row 3 (Some 2) (Some 1) None None,
          match_base_row 4 (Some 0) None None None]) None = Inr (Some (enhanced, advanced))
     \<and> map result enhanced = [Some ''D'', Some ''D'', Some ''H'', Some ''D'']"
proof -
  let ?matches = "[match_base_row 1 None (Some 2) None None,
          match_base_row 2 (Some 1) (Some 1) None None,
          match_base_row 3 (Some 2) (Some 1) None None,
          match_base_row 4 (Some 0) None None None]"
  from result_is_draw_when_goal_missing[of ?matches None]
  obtain enhanced advanced where e:
    "derive_match_metrics (Some ?matches) None = Inr (Some (enhanced, advanced))"
    "map match_base.home_goals enhanced = map match_base.home_goals ?matches"
    "map match_base.away_goals enhanced = map match_base.away_goals ?matches"
    "map result enhanced = map (\<lambda>r. Some (result_of r)) enhanced"
    by blast
  from e(2,3) obtain e1 e2 e3 e4 where rows: "enhanced = [e1, e2, e3, e4]"
    "match_base.home_goals e1 = None" "match_base.away_goals e1 = Some 2"
    "match_base.home_goals e2 = Some 1" "match_base.away_goals e2 = Some 1"
    "match_base.home_goals e3 = Some 2" "match_base.away_goals e3 = Some 1"
    "match_base.home_goals e4 = Some 0" "match_base.away_goals e4 = None"
    by (auto simp: map_eq_Cons_conv match_base_row_def)
  have "map result enhanced = [Some ''D'', Some ''D'', Some ''H'', Some ''D'']"
    using e(4) by (simp add: rows result_of_cases)
  with e(1) show ?thesis
    by (intro exI[of _ enhanced] exI[of _ advanced] conjI)
qed

subsection \<open>Validator: advanced match statistics\<close>

lemma set_difference_empty: "set_difference a b = [] \<longleftrightarrow> set a \<subseteq> set b"
  by (auto simp: set_difference_def filter_empty_conv)

lemma possession_sum_invalid_pos:
  "0 < length (possession_sum_invalid (possession_sum adv)) \<longleftrightarrow>
     (\<exists>r \<in> set adv.
        row_sum [match_stats_advanced.home_possession r, match_stats_advanced.away_possession r] < 98
      \<or> row_sum [match_stats_advanced.home_possession r, match_stats_advanced.away_possession r] > 102)"
  by (auto simp: possession_sum_invalid_def possession_sum_def filter_empty_conv)

lemma any_negative_dropna:
  "list_ex (\<lambda>x. x < 0) (dropna (map f xs)) \<longleftrightarrow> \<not> (\<forall>r \<in> set xs. \<not> lt (f r) (Some 0))"
  by (induction xs) (auto simp: dropna_def lt_def split: option.splits)

lemma any_above:
  "0 < length (filter (\<lambda>r. gt (f r) c \<and> notna (f r)) xs) \<longleftrightarrow>
     \<not> (\<forall>r \<in> set xs. \<not> gt (f r) c)"
  by (induction xs) (auto simp: gt_def notna_def split: option.splits)

lemma any_exceeds:
  "0 < length (filter (\<lambda>r. gt (f r) (g r) \<and> notna (f r) \<and> notna (g r)) xs) \<longleftrightarrow>
     \<not> (\<forall>r \<in> set xs. \<not> gt (f r) (g r))"
  by (induction xs) (auto simp: gt_def notna_def split: option.splits)

lemma if_raise_pass: "((if c then Inl e else rest) = Inr u) = (\<not> c \<and> rest = Inr u)"
  by simp

lemma validate_match_stats_advanced_pass_iff:
  "validate_match_stats_advanced (Some adv) (Some base) = Inr () \<longleftrightarrow>
     length adv = 64
   \<and> set (map match_stats_advanced.match_id adv) \<subseteq> set (map match_base.match_id base)
   \<and> (\<forall>r \<in> set adv. \<not> gt (match_stats_advanced.home_possession r) (Some 100))
   \<and> (\<forall>r \<in> set adv. \<not> gt (match_stats_advanced.away_possession r) (Some 100))
   \<and> (\<forall>r \<in> set adv.
        98 \<le> row_sum [match_stats_advanced.home_possession r, match_stats_advanced.away_possession r]
      \<and> row_sum [match_stats_advanced.home_possession r, match_stats_advanced.away_possession r] \<le> 102)
   \<and> (\<forall>r \<in> set adv. \<not> lt (match_stats_advanced.home_xg r) (Some 0))
   \<and> (\<forall>r \<in> set adv. \<not> lt (match_stats_advanced.away_xg r) (Some 0))
   \<and> (\<forall>r \<in> set adv. \<not> gt (match_stats_advanced.home_passes_completed r)
               (match_stats_advanced.home_passes_attempted r))
   \<and> (\<forall>r \<in> set adv. \<not> gt (home_pass_accuracy r) (Some 100))"
proof -
  have c5: "(0 < length (possession_sum_invalid (possession_sum adv))) \<longleftrightarrow>
      \<not> (\<forall>r \<in> set adv.
        98 \<le> row_sum [match_stats_advanced.home_possession r, match_stats_advanced.away_possession r]
      \<and> row_sum [match_stats_advanced.home_possession r, match_stats_advanced.away_possession r] \<le> 102)"
    unfolding possession_sum_invalid_pos by (meson not_le)
  show ?thesis
    unfolding validate_match_stats_advanced_def Let_def raise_def option.case if_raise_pass
      any_above any_exceeds any_negative_dropna c5 set_difference_empty
    by (simp only: simp_thms)
qed


lemma validate_match_stats_advanced_sum_violation:
  assumes "length adv = 64"
    and "set (map match_stats_advanced.match_id adv) \<subseteq> set (map match_base.match_id base)"
    and "\<forall>r \<in> set adv. \<not> gt (match_stats_advanced.home_possession r) (Some 100)"
    and "\<forall>r \<in> set adv. \<not> gt (match_stats_advanced.away_possession r) (Some 100)"
    and "0 < length (possession_sum_invalid (possession_sum adv))"
  shows "validate_match_stats_advanced (Some adv) (Some base) =
     raise (Advanced (PossessionSumNot100 (length (possession_sum_invalid (possession_sum adv)))))"
proof -
  have fk: "set_difference (map match_stats_advanced.match_id adv) (map match_base.match_id base) = []"
    using assms(2) by (simp only: set_difference_empty)
  have hp: "\<not> 0 < length (filter (\<lambda>r. gt (match_stats_advanced.home_possession r) (Some 100)
                     \<and> notna (match_stats_advanced.home_possession r)) adv)"
    using assms(3) by (simp only: any_above simp_thms)
  have ap: "\<not> 0 < length (filter (\<lambda>r. gt (match_stats_advanced.away_possession r) (Some 100)
                     \<and> notna (match_stats_advanced.away_possession r)) adv)"
    using assms(4) by (simp only: any_above simp_thms)
  show ?thesis
    unfolding validate_match_stats_advanced_def Let_def option.case
    by (simp only: assms(1) assms(5) fk hp ap if_True if_False simp_thms)
qed

lemma advanced_table_rows:
  "length (advanced_table hp ap) = 64"
  "set (map match_stats_advanced.match_id (advanced_table hp ap)) \<subseteq>
     set (map match_base.match_id base_table)"
  "r \<in> set (advanced_table hp ap) \<Longrightarrow>
     match_stats_advanced.home_possession r = hp \<and> match_stats_advanced.away_possession r = ap
   \<and> match_stats_advanced.home_xg r = None \<and> match_stats_advanced.away_xg r = None
   \<and> match_stats_advanced.home_passes_completed r = None
   \<and> match_stats_advanced.home_passes_attempted r = None
   \<and> home_pass_accuracy r = None"
  "advanced_table hp ap \<noteq> []"
proof -
  show "length (advanced_table hp ap) = 64"
    by (simp add: advanced_table_def)
  show "set (map match_stats_advanced.match_id (advanced_table hp ap)) \<subseteq>
     set (map match_base.match_id base_table)"
    by (auto simp: advanced_table_def base_table_def advanced_row_def match_base_row_def
        match_base.defs image_iff)
  show "r \<in> set (advanced_table hp ap) \<Longrightarrow>
     match_stats_advanced.home_possession r = hp \<and> match_stats_advanced.away_possession r = ap
   \<and> match_stats_advanced.home_xg r = None \<and> match_stats_advanced.away_xg r = None
   \<and> match_stats_advanced.home_passes_completed r = None
   \<and> match_stats_advanced.home_passes_attempted r = None
   \<and> home_pass_accuracy r = None"
    by (auto simp: advanced_table_def advanced_row_def)
  have "length (advanced_table hp ap) = 64"
    by (simp add: advanced_table_def)
  then show "advanced_table hp ap \<noteq> []"
    by auto
qed

lemma validate_advanced_table:
  "validate_match_stats_advanced (Some (advanced_table hp ap)) (Some base_table) = Inr () \<longleftrightarrow>
     \<not> gt hp (Some 100) \<and> \<not> gt ap (Some 100) \<and> 98 \<le> row_sum [hp, ap] \<and> row_sum [hp, ap] \<le> 102"
proof -
  obtain r where r: "r \<in> set (advanced_table hp ap)"
    using advanced_table_rows(4)[of hp ap] by (cases "advanced_table hp ap") auto
  show ?thesis
    unfolding validate_match_stats_advanced_pass_iff
    using advanced_table_rows(1,2)[of hp ap] advanced_table_rows(3)[of _ hp ap] r
    by (auto simp: gt_def lt_def)
qed

text \<open>
  The advanced-stats check has no lower bound on a possession value: the 64-row table
  whose rows all carry the pair (-1, 100), summing to 99, passes.
\<close>

theorem possession_negative_value_accepted:
  "validate_match_stats_advanced (Some (advanced_table (Some (- 1)) (Some 100))) (Some base_table)
     = Inr ()
   \<and> match_stats_advanced.home_possession (hd (advanced_table (Some (- 1)) (Some 100))) = Some (- 1)
   \<and> (- 1 :: real) < 0"
proof -
  have "validate_match_stats_advanced (Some (advanced_table (Some (- 1)) (Some 100))) (Some base_table)
     = Inr ()"
    unfolding validate_advanced_table by (simp add: gt_def row_sum_def dropna_def)
  moreover have "hd (advanced_table (Some (- 1)) (Some 100)) \<in> set (advanced_table (Some (- 1)) (Some 100))"
    using advanced_table_rows(4) by (rule hd_in_set)
  then have "match_stats_advanced.home_possession (hd (advanced_table (Some (- 1)) (Some 100))) = Some (- 1)"
    using advanced_table_rows(3) by blast
  ultimately show ?thesis by simp
qed


lemma advanced_table_invalid_sums:
  "length (possession_sum_invalid (possession_sum (advanced_table hp ap))) =
     (if row_sum [hp, ap] < 98 \<or> row_sum [hp, ap] > 102 then 64 else 0)"
proof -
  have "possession_sum (advanced_table hp ap) = map (\<lambda>i. row_sum [hp, ap]) [1..64]"
    by (simp add: possession_sum_def advanced_table_def advanced_row_def comp_def)
  moreover have "filter P (map (\<lambda>i. c) xs) = (if P c then map (\<lambda>i. c) xs else [])"
    for P :: "real \<Rightarrow> bool" and c and xs :: "int list"
    by (induction xs) auto
  ultimately show ?thesis
    by (simp add: possession_sum_invalid_def)
qed

text \<open>
  Claim C6 (possession validation), as amended. A table that passes the advanced-stats
  check has every non-null possession value at most 100 and every row's possession sum,
  nulls counted as zero, within 98 to 102; hence every non-null possession value is at least
  -2, but a value below 0 is not rejected as such. The 64-row table with the pair
  (61.0, 40.5) passes. A table with the expected row count and match ids and no value above
  100 that has a row whose two values sum to 90 is rejected with the possession-sum failure.
  Any table with a possession value above 100 is rejected.
\<close>

theorem possession_validation:
  "(validate_match_stats_advanced (Some adv) (Some base) = Inr () \<longrightarrow>
      (\<forall>r \<in> set adv.
         (\<forall>v. match_stats_advanced.home_possession r = Some v
               \<or> match_stats_advanced.away_possession r = Some v \<longrightarrow> - 2 \<le> v \<and> v \<le> 100)
       \<and> 98 \<le> row_sum [match_stats_advanced.home_possession r, match_stats_advanced.away_possession r]
       \<and> row_sum [match_stats_advanced.home_possession r, match_stats_advanced.away_possession r] \<le> 102))
   \<and> validate_match_stats_advanced (Some (advanced_table (Some 61.0) (Some 40.5))) (Some base_table)
       = Inr ()
   \<and> (length adv = 64
       \<and> set (map match_stats_advanced.match_id adv) \<subseteq> set (map match_base.match_id base)
       \<and> (\<forall>r \<in> set adv. \<not> gt (match_stats_advanced.home_possession r) (Some 100)
                        \<and> \<not> gt (match_stats_advanced.away_possession r) (Some 100))
       \<and> (\<exists>r \<in> set adv. \<exists>h a. match_stats_advanced.home_possession r = Some h
                        \<and> match_stats_advanced.away_possession r = Some a \<and> h + a = 90)
       \<longrightarrow> 0 < length (possession_sum_invalid (possession_sum adv))
         \<and> validate_match_stats_advanced (Some adv) (Some base) =
             raise (Advanced (PossessionSumNot100 (length (possession_sum_invalid (possession_sum adv))))))
   \<and> ((\<exists>r \<in> set adv. gt (match_stats_advanced.home_possession r) (Some 100)
                      \<or> gt (match_stats_advanced.away_possession r) (Some 100))
       \<longrightarrow> validate_match_stats_advanced (Some adv) base_file \<noteq> Inr ())"
proof (intro conjI impI)
  assume pass: "validate_match_stats_advanced (Some adv) (Some base) = Inr ()"
  show "\<forall>r \<in> set adv.
         (\<forall>v. match_stats_advanced.home_possession r = Some v
               \<or> match_stats_advanced.away_possession r = Some v \<longrightarrow> - 2 \<le> v \<and> v \<le> 100)
       \<and> 98 \<le> row_sum [match_stats_advanced.home_possession r, match_stats_advanced.away_possession r]
       \<and> row_sum [match_stats_advanced.home_possession r, match_stats_advanced.away_possession r] \<le> 102"
  proof
    fix r assume r: "r \<in> set adv"
    from pass r have b:
      "\<not> gt (match_stats_advanced.home_possession r) (Some 100)"
      "\<not> gt (match_stats_advanced.away_possession r) (Some 100)"
      "98 \<le> row_sum [match_stats_advanced.home_possession r, match_stats_advanced.away_possession r]"
      "row_sum [match_stats_advanced.home_possession r, match_stats_advanced.away_possession r] \<le> 102"
      unfolding validate_match_stats_advanced_pass_iff by blast+
    show "(\<forall>v. match_stats_advanced.home_possession r = Some v
               \<or> match_stats_advanced.away_possession r = Some v \<longrightarrow> - 2 \<le> v \<and> v \<le> 100)
       \<and> 98 \<le> row_sum [match_stats_advanced.home_possession r, match_stats_advanced.away_possession r]
       \<and> row_sum [match_stats_advanced.home_possession r, match_stats_advanced.away_possession r] \<le> 102"
      using b
      by (cases "match_stats_advanced.home_possession r"; cases "match_stats_advanced.away_possession r")
         (auto simp: gt_def row_sum_def dropna_def)
  qed
next
  show "validate_match_stats_advanced (Some (advanced_table (Some 61.0) (Some 40.5))) (Some base_table)
       = Inr ()"
    unfolding validate_advanced_table by (simp add: gt_def row_sum_def dropna_def)
next
  assume a: "length adv = 64
       \<and> set (map match_stats_advanced.match_id adv) \<subseteq> set (map match_base.match_id base)
       \<and> (\<forall>r \<in> set adv. \<not> gt (match_stats_advanced.home_possession r) (Some 100)
                        \<and> \<not> gt (match_stats_advanced.away_possession r) (Some 100))
       \<and> (\<exists>r \<in> set adv. \<exists>h a. match_stats_advanced.home_possession r = Some h
                        \<and> match_stats_advanced.away_possession r = Some a \<and> h + a = 90)"
  then obtain r h a' where r: "r \<in> set adv" "match_stats_advanced.home_possession r = Some h"
      "match_stats_advanced.away_possession r = Some a'" "h + a' = 90"
    by blast
  then have "row_sum [match_stats_advanced.home_possession r, match_stats_advanced.away_possession r] < 98"
    by (simp add: row_sum_def dropna_def)
  with r(1) show pos: "0 < length (possession_sum_invalid (possession_sum adv))"
    unfolding possession_sum_invalid_pos by blast
  from a have "length adv = 64"
    "set (map match_stats_advanced.match_id adv) \<subseteq> set (map match_base.match_id base)"
    "\<forall>r \<in> set adv. \<not> gt (match_stats_advanced.home_possession r) (Some 100)"
    "\<forall>r \<in> set adv. \<not> gt (match_stats_advanced.away_possession r) (Some 100)"
    by blast+
  then show "validate_match_stats_advanced (Some adv) (Some base) =
             raise (Advanced (PossessionSumNot100 (length (possession_sum_invalid (possession_sum adv)))))"
    using pos by (rule validate_match_stats_advanced_sum_violation)
next
  assume over: "\<exists>r \<in> set adv. gt (match_stats_advanced.home_possession r) (Some 100)
                      \<or> gt (match_stats_advanced.away_possession r) (Some 100)"
  show "validate_match_stats_advanced (Some adv) base_file \<noteq> Inr ()"
  proof (cases base_file)
    case None
    then show ?thesis by (simp add: validate_match_stats_advanced_def)
  next
    case (Some base)
    with over show ?thesis
      unfolding Some validate_match_stats_advanced_pass_iff by blast
  qed
qed

theorem possession_validation_witness:
  "validate_match_stats_advanced (Some (advanced_table (Some 61.0) (Some 40.5))) (Some base_table)
       = Inr ()
   \<and> row_sum [Some 61.0, Some 40.5] = 101.5
   \<and> validate_match_stats_advanced (Some (advanced_table (Some 50) (Some 40))) (Some base_table)
       = raise (Advanced (PossessionSumNot100 64))
   \<and> validate_match_stats_advanced (Some (advanced_table (Some 101) (Some 0))) (Some base_table)
       \<noteq> Inr ()"
proof -
  let ?ok = "advanced_table (Some 61.0) (Some 40.5)"
  let ?low = "advanced_table (Some 50) (Some 40)"
  let ?over = "advanced_table (Some 101) (Some 0)"
  note t_ok = possession_validation[of ?ok base_table]
  note t_low = possession_validation[of ?low base_table]
  note t_over = possession_validation[of ?over base_table "Some base_table"]
  from t_ok have pass: "validate_match_stats_advanced (Some ?ok) (Some base_table) = Inr ()"
    by blast
  with t_ok have "\<forall>r \<in> set ?ok.
       98 \<le> row_sum [match_stats_advanced.home_possession r, match_stats_advanced.away_possession r]"
    by blast
  have sum: "row_sum [Some 61.0, Some 40.5] = 101.5"
    by (simp add: row_sum_def dropna_def)
  have low_hyp: "length ?low = 64
       \<and> set (map match_stats_advanced.match_id ?low) \<subseteq> set (map match_base.match_id base_table)
       \<and> (\<forall>r \<in> set ?low. \<not> gt (match_stats_advanced.home_possession r) (Some 100)
                        \<and> \<not> gt (match_stats_advanced.away_possession r) (Some 100))
       \<and> (\<exists>r \<in> set ?low. \<exists>h a. match_stats_advanced.home_possession r = Some h
                        \<and> match_stats_advanced.away_possession r = Some a \<and> h + a = 90)"
  proof (intro conjI)
    show "length ?low = 64" by (rule advanced_table_rows(1))
    show "set (map match_stats_advanced.match_id ?low) \<subseteq> set (map match_base.match_id base_table)"
      by (rule advanced_table_rows(2))
    show "\<forall>r \<in> set ?low. \<not> gt (match_stats_advanced.home_possession r) (Some 100)
                        \<and> \<not> gt (match_stats_advanced.away_possession r) (Some 100)"
      using advanced_table_rows(3)[of _ "Some 50" "Some 40"] by (auto simp: gt_def)
    have "hd ?low \<in> set ?low"
      using advanced_table_rows(4) by (rule hd_in_set)
    then show "\<exists>r \<in> set ?low. \<exists>h a. match_stats_advanced.home_possession r = Some h
                        \<and> match_stats_advanced.away_possession r = Some a \<and> h + a = 90"
      using advanced_table_rows(3)[of "hd ?low" "Some 50" "Some 40"] by (intro bexI[of _ "hd ?low"]) auto
  qed
  with t_low have "validate_match_stats_advanced (Some ?low) (Some base_table) =
      raise (Advanced (PossessionSumNot100 (length (possession_sum_invalid (possession_sum ?low)))))"
    by blast
  then have low: "validate_match_stats_advanced (Some ?low) (Some base_table) =
      raise (Advanced (PossessionSumNot100 64))"
    by (simp add: advanced_table_invalid_sums row_sum_def dropna_def)
  have "hd ?over \<in> set ?over"
    using advanced_table_rows(4) by (rule hd_in_set)
  then have "\<exists>r \<in> set ?over. gt (match_stats_advanced.home_possession r) (Some 100)
                      \<or> gt (match_stats_advanced.away_possession r) (Some 100)"
    using advanced_table_rows(3)[of "hd ?over" "Some 101" "Some 0"]
    by (intro bexI[of _ "hd ?over"]) (auto simp: gt_def)
  with t_over have over: "validate_match_stats_advanced (Some ?over) (Some base_table) \<noteq> Inr ()"
    by blast
  from pass sum low over show ?thesis by (intro conjI)
qed

text \<open>
  Claim C9 (null possession values are summed as zero). For a row whose two possession
  values are both null the computed sum is 0, which the sum check flags; any table
  containing such a row is rejected, and with the possession-sum failure when the checks
  before it pass. For a row with exactly one non-null possession value the computed sum is
  that value, and the sum check does not flag the row if and only if the value lies in
  98 to 102.
\<close>

theorem null_possession_summed_as_zero:
  "(match_stats_advanced.home_possession r = None \<and> match_stats_advanced.away_possession r = None
      \<longrightarrow> possession_sum [r] = [0] \<and> possession_sum_invalid (possession_sum [r]) = [0])
   \<and> (r \<in> set adv \<and> match_stats_advanced.home_possession r = None
        \<and> match_stats_advanced.away_possession r = None
      \<longrightarrow> validate_match_stats_advanced (Some adv) base_file \<noteq> Inr ())
   \<and> (r \<in> set adv \<and> match_stats_advanced.home_possession r = None
        \<and> match_stats_advanced.away_possession r = None
        \<and> length adv = 64
        \<and> set (map match_stats_advanced.match_id adv) \<subseteq> set (map match_base.match_id base)
        \<and> (\<forall>q \<in> set adv. \<not> gt (match_stats_advanced.home_possession q) (Some 100)
                         \<and> \<not> gt (match_stats_advanced.away_possession q) (Some 100))
      \<longrightarrow> 0 < length (possession_sum_invalid (possession_sum adv))
        \<and> validate_match_stats_advanced (Some adv) (Some base) =
            raise (Advanced (PossessionSumNot100 (length (possession_sum_invalid (possession_sum adv))))))
   \<and> (match_stats_advanced.home_possession r = Some v \<and> match_stats_advanced.away_possession r = None
        \<or> match_stats_advanced.home_possession r = None \<and> match_stats_advanced.away_possession r = Some v
      \<longrightarrow> possession_sum [r] = [v]
        \<and> (possession_sum_invalid (possession_sum [r]) = [] \<longleftrightarrow> 98 \<le> v \<and> v \<le> 102))"
proof (intro conjI impI)
  assume "match_stats_advanced.home_possession r = None \<and> match_stats_advanced.away_possession r = None"
  then show "possession_sum [r] = [0]" "possession_sum_invalid (possession_sum [r]) = [0]"
    by (simp_all add: possession_sum_def possession_sum_invalid_def row_sum_def dropna_def)
next
  assume a: "r \<in> set adv \<and> match_stats_advanced.home_possession r = None
        \<and> match_stats_advanced.away_possession r = None"
  then have zero: "row_sum [match_stats_advanced.home_possession r, match_stats_advanced.away_possession r] = 0"
    by (simp add: row_sum_def dropna_def)
  show "validate_match_stats_advanced (Some adv) base_file \<noteq> Inr ()"
  proof (cases base_file)
    case None
    then show ?thesis by (simp add: validate_match_stats_advanced_def)
  next
    case (Some base)
    have "\<not> (\<forall>q \<in> set adv.
        98 \<le> row_sum [match_stats_advanced.home_possession q, match_stats_advanced.away_possession q]
      \<and> row_sum [match_stats_advanced.home_possession q, match_stats_advanced.away_possession q] \<le> 102)"
      using a zero by force
    then show ?thesis
      unfolding Some validate_match_stats_advanced_pass_iff by blast
  qed
next
  assume a: "r \<in> set adv \<and> match_stats_advanced.home_possession r = None
        \<and> match_stats_advanced.away_possession r = None
        \<and> length adv = 64
        \<and> set (map match_stats_advanced.match_id adv) \<subseteq> set (map match_base.match_id base)
        \<and> (\<forall>q \<in> set adv. \<not> gt (match_stats_advanced.home_possession q) (Some 100)
                         \<and> \<not> gt (match_stats_advanced.away_possession q) (Some 100))"
  then have "row_sum [match_stats_advanced.home_possession r, match_stats_advanced.away_possession r] < 98"
    by (simp add: row_sum_def dropna_def)
  with a show pos: "0 < length (possession_sum_invalid (possession_sum adv))"
    unfolding possession_sum_invalid_pos by blast
  from a have "length adv = 64"
    "set (map match_stats_advanced.match_id adv) \<subseteq> set (map match_base.match_id base)"
    "\<forall>q \<in> set adv. \<not> gt (match_stats_advanced.home_possession q) (Some 100)"
    "\<forall>q \<in> set adv. \<not> gt (match_stats_advanced.away_possession q) (Some 100)"
    by blast+
  then show "validate_match_stats_advanced (Some adv) (Some base) =
            raise (Advanced (PossessionSumNot100 (length (possession_sum_invalid (possession_sum adv)))))"
    using pos by (rule validate_match_stats_advanced_sum_violation)
next
  assume a: "match_stats_advanced.home_possession r = Some v \<and> match_stats_advanced.away_possession r = None
        \<or> match_stats_advanced.home_possession r = None \<and> match_stats_advanced.away_possession r = Some v"
  then show "possession_sum [r] = [v]"
    by (auto simp: possession_sum_def row_sum_def dropna_def)
  then show "possession_sum_invalid (possession_sum [r]) = [] \<longleftrightarrow> 98 \<le> v \<and> v \<le> 102"
    by (auto simp: possession_sum_invalid_def)
qed

theorem null_possession_summed_as_zero_witness:
  "possession_sum [advanced_row 1 None None] = [0]
   \<and> validate_match_stats_advanced (Some (advanced_table None None)) (Some base_table) =
        raise (Advanced (PossessionSumNot100 64))
   \<and> possession_sum [advanced_row 1 (Some 99) None] = [99]
   \<and> possession_sum_invalid (possession_sum [advanced_row 1 (Some 99) None]) = []
   \<and> possession_sum_invalid (possession_sum [advanced_row 1 None (Some 97)]) \<noteq> []"
proof -
  let ?T = "advanced_table None None"
  have hd_in: "hd ?T \<in> set ?T"
    using advanced_table_rows(4) by (rule hd_in_set)
  have nulls: "match_stats_advanced.home_possession (hd ?T) = None"
    "match_stats_advanced.away_possession (hd ?T) = None"
    using advanced_table_rows(3)[OF hd_in] by simp_all
  have le100: "\<forall>q \<in> set ?T. \<not> gt (match_stats_advanced.home_possession q) (Some 100)
                         \<and> \<not> gt (match_stats_advanced.away_possession q) (Some 100)"
    using advanced_table_rows(3)[of _ None None] by (auto simp: gt_def)
  have row1: "match_stats_advanced.home_possession (advanced_row 1 None None) = None
      \<and> match_stats_advanced.away_possession (advanced_row 1 None None) = None"
    by (simp add: advanced_row_def)
  from null_possession_summed_as_zero[where r="advanced_row 1 None None"] row1
  have zero: "possession_sum [advanced_row 1 None None] = [0]"
    by blast
  from null_possession_summed_as_zero[where r="hd ?T" and adv="?T" and base=base_table]
    hd_in nulls le100 advanced_table_rows(1,2)[of None None]
  have "validate_match_stats_advanced (Some ?T) (Some base_table) =
      raise (Advanced (PossessionSumNot100 (length (possession_sum_invalid (possession_sum ?T)))))"
    by blast
  then have rejected: "validate_match_stats_advanced (Some ?T) (Some base_table) =
      raise (Advanced (PossessionSumNot100 64))"
    by (simp add: advanced_table_invalid_sums row_sum_def dropna_def)
  have row99: "match_stats_advanced.home_possession (advanced_row 1 (Some 99) None) = Some 99
      \<and> match_stats_advanced.away_possession (advanced_row 1 (Some 99) None) = None"
    by (simp add: advanced_row_def)
  from null_possession_summed_as_zero[where r="advanced_row 1 (Some 99) None" and v=99] row99
  have one: "possession_sum [advanced_row 1 (Some 99) None] = [99]"
    "possession_sum_invalid (possession_sum [advanced_row 1 (Some 99) None]) = [] \<longleftrightarrow>
       98 \<le> (99::real) \<and> (99::real) \<le> 102"
    by blast+
  then have in_band: "possession_sum_invalid (possession_sum [advanced_row 1 (Some 99) None]) = []"
    by simp
  have row97: "match_stats_advanced.home_possession (advanced_row 1 None (Some 97)) = None
      \<and> match_stats_advanced.away_possession (advanced_row 1 None (Some 97)) = Some 97"
    by (simp add: advanced_row_def)
  from null_possession_summed_as_zero[where r="advanced_row 1 None (Some 97)" and v=97] row97
  have "possession_sum_invalid (possession_sum [advanced_row 1 None (Some 97)]) = [] \<longleftrightarrow>
       98 \<le> (97::real) \<and> (97::real) \<le> 102"
    by blast
  then have below: "possession_sum_invalid (possession_sum [advanced_row 1 None (Some 97)]) \<noteq> []"
    by simp
  from zero rejected one(1) in_band below show ?thesis by (intro conjI)
qed

subsection \<open>Validator: standings\<close>

lemma if_raise_pass': "((if c then raise v else rest) = Inr u) = (\<not> c \<and> rest = Inr u)"
  by (simp add: raise_def)

lemma find_named_column_pass:
  "((case find P cols of None \<Rightarrow> rest | Some (col, cells) \<Rightarrow> raise (h col)) = Inr u) =
     ((\<forall>c \<in> set cols. \<not> P c) \<and> rest = Inr u)"
  by (induction cols) (auto simp: raise_def split: option.splits)

lemma find_group_pass:
  "((case find P gs of None \<Rightarrow> rest | Some g \<Rightarrow> raise (h g)) = Inr u) =
     ((\<forall>g \<in> set gs. \<not> P g) \<and> rest = Inr u)"
  by (induction gs) (auto simp: raise_def split: option.splits)

lemma length_first_seen: "length (first_seen xs) = length xs \<longleftrightarrow> distinct xs"
proof -
  have "length (first_seen xs) = card (set xs)"
    using distinct_card[OF distinct_first_seen, of xs] by (simp add: set_first_seen)
  then show ?thesis
    using card_distinct[of xs] distinct_card[of xs] by auto
qed

lemma length_filter_zip:
  "length (filter (\<lambda>(p, e). ne p e) (zip (map f df) (map g df))) =
     length (filter (\<lambda>r. ne (f r) (g r)) df)"
  by (induction df) auto

lemma any_row: "0 < length (filter P xs) \<longleftrightarrow> \<not> (\<forall>r \<in> set xs. \<not> P r)"
  by (simp add: filter_empty_conv)

lemma any_row': "list_ex P xs \<longleftrightarrow> \<not> (\<forall>r \<in> set xs. \<not> P r)"
  by (simp add: list_ex_iff)

lemma validate_standings_pass_iff:
  "validate_standings (Some df) = Inr () \<longleftrightarrow>
     length df = 32
   \<and> (\<forall>r \<in> set df. \<not> ne (add (add (wins r) (draws r)) (losses r)) (played r))
   \<and> (\<forall>r \<in> set df. \<not> ne (points r) (add (mul (wins r) (Some 3)) (draws r)))
   \<and> (\<forall>r \<in> set df. \<not> lt (played r) (Some 0) \<and> \<not> lt (wins r) (Some 0) \<and> \<not> lt (draws r) (Some 0)
        \<and> \<not> lt (losses r) (Some 0) \<and> \<not> lt (goals_for r) (Some 0)
        \<and> \<not> lt (goals_against r) (Some 0) \<and> \<not> lt (points r) (Some 0))
   \<and> (\<forall>r \<in> set df. \<not> gt (wins r) (played r))
   \<and> (\<forall>r \<in> set df. \<not> gt (draws r) (played r))
   \<and> (\<forall>r \<in> set df. \<not> gt (losses r) (played r))
   \<and> (\<forall>g \<in> set (map group df). distinct (map rank (filter (\<lambda>r. group r = g) df)))
   \<and> (\<forall>r \<in> set df. \<not> gt (win_percentage r) (Some 100))"
proof -
  have neg: "(\<forall>c \<in> set [(''played'', map played df), (''wins'', map wins df),
                               (''draws'', map draws df), (''losses'', map losses df),
                               (''goals_for'', map goals_for df),
                               (''goals_against'', map goals_against df),
                               (''points'', map points df)].
         \<not> (case c of (col, cells) \<Rightarrow> list_ex (\<lambda>c. lt c (Some 0)) cells)) \<longleftrightarrow>
     (\<forall>r \<in> set df. \<not> lt (played r) (Some 0) \<and> \<not> lt (wins r) (Some 0) \<and> \<not> lt (draws r) (Some 0)
        \<and> \<not> lt (losses r) (Some 0) \<and> \<not> lt (goals_for r) (Some 0)
        \<and> \<not> lt (goals_against r) (Some 0) \<and> \<not> lt (points r) (Some 0))"
    by (simp add: list_ex_iff) blast
  have grp: "(\<forall>g \<in> set (first_seen (map group df)).
         \<not> length (first_seen (map rank (filter (\<lambda>r. group r = g) df)))
              \<noteq> length (filter (\<lambda>r. group r = g) df)) \<longleftrightarrow>
     (\<forall>g \<in> set (map group df). distinct (map rank (filter (\<lambda>r. group r = g) df)))"
    using length_first_seen[of "map rank (filter (\<lambda>r. group r = g) df)" for g]
    by (simp add: set_first_seen)
  show ?thesis
    unfolding validate_standings_def Let_def option.case if_raise_pass'
      find_named_column_pass find_group_pass length_filter_zip any_above
    unfolding any_row any_row' neg grp
    by (simp only: simp_thms)
qed



lemma standing_row_valid_iff:
  "standing_row_valid r \<longleftrightarrow>
     \<not> ne (add (add (wins r) (draws r)) (losses r)) (played r)
   \<and> \<not> ne (points r) (add (mul (wins r) (Some 3)) (draws r))
   \<and> (\<not> lt (played r) (Some 0) \<and> \<not> lt (wins r) (Some 0) \<and> \<not> lt (draws r) (Some 0)
        \<and> \<not> lt (losses r) (Some 0) \<and> \<not> lt (goals_for r) (Some 0)
        \<and> \<not> lt (goals_against r) (Some 0) \<and> \<not> lt (points r) (Some 0))
   \<and> \<not> gt (wins r) (played r) \<and> \<not> gt (draws r) (played r) \<and> \<not> gt (losses r) (played r)
   \<and> \<not> gt (win_percentage r) (Some 100)"
  by (cases "wins r"; cases "draws r"; cases "losses r"; cases "played r"; cases "points r")
     (auto simp: standing_row_valid_def ne_def eq_def add_def mul_def lt_def gt_def)

lemma validate_standings_valid:
  "validate_standings (Some df) = Inr () \<longleftrightarrow> standings_valid df"
proof -
  have "standings_valid df \<longleftrightarrow>
      length df = 32
    \<and> (\<forall>r \<in> set df. standing_row_valid r)
    \<and> (\<forall>g \<in> set (map group df). distinct (map rank (filter (\<lambda>r. group r = g) df)))"
    by (simp add: standings_valid_def list_all_iff)
  then show ?thesis
    unfolding validate_standings_pass_iff standing_row_valid_iff by blast
qed

lemma validate_standings_points_violation:
  assumes "length df = 32"
    and "\<forall>r \<in> set df. \<not> ne (add (add (wins r) (draws r)) (losses r)) (played r)"
    and "0 < length (filter (\<lambda>r. ne (points r) (add (mul (wins r) (Some 3)) (draws r))) df)"
  shows "validate_standings (Some df) =
     raise (Standings (IncorrectPoints
       (length (filter (\<lambda>r. ne (points r) (add (mul (wins r) (Some 3)) (draws r))) df))))"
proof -
  have wdl: "\<not> 0 < length (filter (\<lambda>r. ne (add (add (wins r) (draws r)) (losses r)) (played r)) df)"
    using assms(2) by (simp only: any_row simp_thms)
  show ?thesis
    unfolding validate_standings_def Let_def option.case length_filter_zip
    by (simp only: assms(1) assms(3) wdl if_True if_False simp_thms)
qed

lemma not_ne: "\<not> ne a b \<longleftrightarrow> (\<exists>x. a = Some x \<and> b = Some x)"
  by (cases a; cases b) (auto simp: ne_def eq_def)

lemma perturbed_points_rejected:
  assumes pass: "validate_standings (Some df) = Inr ()"
    and i: "i < length df"
    and p': "p' \<noteq> points (df ! i)"
  shows "validate_standings (Some (df[i := (df ! i)\<lparr>points := p'\<rparr>])) =
     raise (Standings (IncorrectPoints 1))"
proof -
  let ?x = "(df ! i)\<lparr>points := p'\<rparr>"
  let ?df' = "df[i := ?x]"
  let ?Q = "\<lambda>r. ne (points r) (add (mul (wins r) (Some 3)) (draws r))"
  from pass have ok: "length df = 32"
    "\<forall>r \<in> set df. \<not> ne (add (add (wins r) (draws r)) (losses r)) (played r)"
    "\<forall>r \<in> set df. \<not> ?Q r"
    unfolding validate_standings_pass_iff by blast+
  have mem: "df ! i \<in> set df"
    using i by simp
  have len: "length ?df' = 32"
    using ok(1) by simp
  have wdl: "\<forall>r \<in> set ?df'. \<not> ne (add (add (wins r) (draws r)) (losses r)) (played r)"
  proof
    fix r assume "r \<in> set ?df'"
    then have "r = ?x \<or> r \<in> set df"
      using set_update_subset_insert[of df i ?x] by auto
    then show "\<not> ne (add (add (wins r) (draws r)) (losses r)) (played r)"
      using ok(2) mem by auto
  qed
  from ok(3) mem obtain v where old: "points (df ! i) = Some v"
      "add (mul (wins (df ! i)) (Some 3)) (draws (df ! i)) = Some v"
    unfolding not_ne by blast
  have "ne p' (Some v)"
    using p' old(1) by (simp add: not_ne[symmetric, of p' "Some v", simplified])
  then have Qx: "?Q ?x"
    using old(2) by simp
  have split: "?df' = take i df @ ?x # drop (Suc i) df"
    using i by (rule upd_conv_take_nth_drop)
  have "filter ?Q (take i df) = []" "filter ?Q (drop (Suc i) df) = []"
    using ok(3) by (auto simp: filter_empty_conv dest: in_set_takeD in_set_dropD)
  then have "filter ?Q ?df' = [?x]"
    unfolding split using Qx by simp
  then have one: "length (filter ?Q ?df') = 1"
    by simp
  then have "0 < length (filter ?Q ?df')"
    by simp
  from validate_standings_points_violation[OF len wdl this] one show ?thesis
    by simp
qed

text \<open>
  Claim C7 (standings arithmetic validation). The standings check passes a table exactly
  when the table has 32 rows, every row has \<open>wins + draws + losses = played\<close> and
  \<open>points = wins * 3 + draws\<close> with non-negative counts and a win percentage of at most
  100, and ranks are unique within each group. Changing the \<open>points\<close> cell of any one row of
  a table that passes, to any other value, makes the check raise the incorrect-points
  failure for one team.
\<close>

theorem standings_arithmetic_validation:
  "(validate_standings (Some df) = Inr () \<longleftrightarrow> standings_valid df)
   \<and> (validate_standings (Some df) = Inr () \<and> i < length df \<and> p' \<noteq> points (df ! i) \<longrightarrow>
        validate_standings (Some (df[i := (df ! i)\<lparr>points := p'\<rparr>])) =
          raise (Standings (IncorrectPoints 1)))"
  using validate_standings_valid[of df] perturbed_points_rejected[of df i p'] by blast


theorem standings_arithmetic_validation_witness:
  "validate_standings (Some standings_table) = Inr ()
   \<and> points (standings_table ! 0) = Some 4
   \<and> validate_standings (Some (standings_table[0 := (standings_table ! 0)\<lparr>points := Some 5\<rparr>])) =
        raise (Standings (IncorrectPoints 1))"
proof -
  have rows: "list_all standing_row_valid standings_table"
    by (simp add: standings_table_def standing_row_def standing_row_valid_def lt_def gt_def)
  have ranks: "list_all (\<lambda>g. distinct (map rank (filter (\<lambda>r. group r = g) standings_table)))
      (map group standings_table)"
    by (simp add: standings_table_def standing_row_def)
  have len: "length standings_table = 32"
    by (simp add: standings_table_def)
  from len rows ranks have valid: "standings_valid standings_table"
    by (simp only: standings_valid_def simp_thms)
  note t = standings_arithmetic_validation[of standings_table 0 "Some 5"]
  from t valid have pass: "validate_standings (Some standings_table) = Inr ()"
    by blast
  have pts: "points (standings_table ! 0) = Some 4"
    by (simp add: standings_table_def standing_row_def)
  have "0 < length standings_table" "Some 5 \<noteq> points (standings_table ! 0)"
    using len pts by simp_all
  with t pass have "validate_standings
      (Some (standings_table[0 := (standings_table ! 0)\<lparr>points := Some 5\<rparr>])) =
        raise (Standings (IncorrectPoints 1))"
    by blast
  with pass pts show ?thesis by (intro conjI)
qed

subsection \<open>Reference tables: players and their validation\<close>

lemma fold_update_other:
  "k \<notin> fst ` set ps \<Longrightarrow> fold (\<lambda>(k, v) m. m(k \<mapsto> v)) ps m k = m k"
  by (induction ps arbitrary: m) (auto simp: split_def)

lemma dict_zip_miss: "k \<notin> set ks \<Longrightarrow> dict_zip ks vs k = None"
proof -
  assume "k \<notin> set ks"
  then have "k \<notin> fst ` set (zip ks vs)"
    by (auto dest: set_zip_leftD)
  then show ?thesis
    unfolding dict_zip_def by (simp add: fold_update_other)
qed

lemma dict_get_miss: "k \<notin> set ks \<Longrightarrow> dict_get (dict_zip ks vs) k = None"
  by (simp add: dict_get_def dict_zip_miss)

lemma duplicated_from_empty:
  "duplicated_from seen xs = [] \<longleftrightarrow> distinct xs \<and> set xs \<inter> set seen = {}"
  by (induction xs arbitrary: seen) auto

lemma duplicated_empty: "duplicated xs = [] \<longleftrightarrow> distinct xs"
  by (simp add: duplicated_def duplicated_from_empty)

lemma create_players_table_rows:
  assumes "teams \<noteq> []" "players \<noteq> []"
  shows "create_players_table (Some teams) (Some players) =
     Inr (Some (map (\<lambda>(idx, row).
       \<lparr>player_ref.player_id = Some (1 + int idx),
        player_name = wc_player.player row,
        player_ref.team_id =
          (case wc_player.team row of
             None \<Rightarrow> None
           | Some name \<Rightarrow> dict_get (dict_zip (map team.team_name teams) (map team.team_id teams)) name),
        team_name = wc_player.team row,
        player_ref.position = wc_player.position row,
        player_ref.age = wc_player.age row\<rparr>) (enumerate 0 players)))"
  using assms by (simp add: create_players_table_def Let_def add.commute enumerate_eq_zip)

lemma create_players_table_empty:
  "teams \<noteq> [] \<Longrightarrow> create_players_table (Some teams) (Some []) = Inl (KeyError ''team_id'')"
  by (simp add: create_players_table_def)

lemma map_snd_enumerate: "map (\<lambda>(i, row). f row) (enumerate n xs) = map f xs"
  by (induction xs arbitrary: n) auto

lemma validate_reference_tables_pass:
  assumes "validate_reference_tables teams_file (Some players_df) = Inr ()"
  shows "\<not> list_ex isnull (map player_ref.team_id players_df)"
proof (cases teams_file)
  case None
  with assms show ?thesis
    by (simp add: validate_reference_tables_def raise_def)
next
  case (Some teams_df)
  from assms show ?thesis
    unfolding Some validate_reference_tables_def option.case if_raise_pass' by blast
qed

lemma validate_reference_tables_null_player_team:
  assumes "\<not> list_ex isnull (map team.team_id teams_df)"
    and "distinct (map team.team_id teams_df)"
    and "100 \<le> length teams_df" "length teams_df \<le> 150"
    and "\<forall>t \<in> set teams_df. competition_type t \<in> {''league'', ''international''}"
    and "\<not> list_ex isnull (map player_ref.player_id players_df)"
    and "list_ex isnull (map player_ref.team_id players_df)"
  shows "validate_reference_tables (Some teams_df) (Some players_df) =
     raise (Reference NullPlayerTeamId)"
proof -
  have dup: "duplicated (map team.team_id teams_df) = []"
    using assms(2) by (simp only: duplicated_empty)
  have count: "\<not> (length teams_df < 100 \<or> length teams_df > 150)"
    using assms(3,4) by simp
  have types: "\<not> 0 < length (filter (\<lambda>t. competition_type t \<notin> set [''league'', ''international'']) teams_df)"
    using assms(5) by (simp add: filter_empty_conv)
  show ?thesis
    unfolding validate_reference_tables_def option.case
    by (simp only: assms(1) assms(6) assms(7) dup count types if_True if_False simp_thms)
qed


text \<open>
  Mapping-miss handling. Given a Teams table and a player table that each have a row, the
  builder returns a Players table, one row per player with \<open>player_id\<close> counting from 1; a
  player's \<open>team_id\<close> is what the name-to-id map holds for the team name, and null when the
  name is no key of the map (or is itself null). The reference-table check does not pass
  any Players table that has a null \<open>team_id\<close>, and raises the null-team-id failure for it
  when the checks before that one pass. So the check passes the built Players table only if
  every player's team name is a name of the Teams table.
\<close>

lemma players_table_mapping_miss:
  assumes "teams \<noteq> []" "players \<noteq> []"
  shows "(\<exists>out. create_players_table (Some teams) (Some players) = Inr (Some out)
      \<and> map player_ref.player_id out = map Some [1..int (length players)]
      \<and> map player_ref.team_name out = map wc_player.team players
      \<and> map player_ref.team_id out =
          map (\<lambda>row. case wc_player.team row of
                        None \<Rightarrow> None
                      | Some name \<Rightarrow>
                          dict_get (dict_zip (map team.team_name teams) (map team.team_id teams)) name)
            players
      \<and> (\<forall>p \<in> set out.
            (\<forall>name. player_ref.team_name p = Some name \<longrightarrow> name \<notin> set (map team.team_name teams))
              \<longrightarrow> player_ref.team_id p = None)
      \<and> (validate_reference_tables (Some teams) (Some out) = Inr () \<longrightarrow>
            (\<forall>row \<in> set players.
               \<exists>name. wc_player.team row = Some name \<and> name \<in> set (map team.team_name teams))))
   \<and> (list_ex isnull (map player_ref.team_id players_df) \<longrightarrow>
        validate_reference_tables teams_file (Some players_df) \<noteq> Inr ())
   \<and> (list_ex isnull (map player_ref.team_id players_df)
        \<and> \<not> list_ex isnull (map player_ref.player_id players_df)
        \<and> \<not> list_ex isnull (map team.team_id teams)
        \<and> distinct (map team.team_id teams)
        \<and> 100 \<le> length teams \<and> length teams \<le> 150
        \<and> (\<forall>t \<in> set teams. competition_type t \<in> {''league'', ''international''})
      \<longrightarrow> validate_reference_tables (Some teams) (Some players_df) =
            raise (Reference NullPlayerTeamId))"
proof (intro conjI)
  let ?d = "dict_zip (map team.team_name teams) (map team.team_id teams)"
  let ?mk = "\<lambda>(idx, row).
       \<lparr>player_ref.player_id = Some (1 + int idx),
        player_name = wc_player.player row,
        player_ref.team_id =
          (case wc_player.team row of None \<Rightarrow> None | Some name \<Rightarrow> dict_get ?d name),
        team_name = wc_player.team row,
        player_ref.position = wc_player.position row,
        player_ref.age = wc_player.age row\<rparr>"
  let ?out = "map ?mk (enumerate 0 players)"
  have built: "create_players_table (Some teams) (Some players) = Inr (Some ?out)"
    by (rule create_players_table_rows[OF assms])
  have ids: "map player_ref.player_id ?out = map Some [1..int (length players)]"
    using map_enumerate_ids[of 1 players] by (simp add: split_def comp_def)
  have names: "map player_ref.team_name ?out = map wc_player.team players"
    using map_snd_enumerate[of wc_player.team 0 players] by (simp add: split_def comp_def)
  have tids: "map player_ref.team_id ?out =
      map (\<lambda>row. case wc_player.team row of None \<Rightarrow> None | Some name \<Rightarrow> dict_get ?d name) players"
    using map_snd_enumerate[of "\<lambda>row. case wc_player.team row of None \<Rightarrow> None
        | Some name \<Rightarrow> dict_get ?d name" 0 players]
    by (simp add: split_def comp_def)
  have row: "player_ref.team_id p =
      (case player_ref.team_name p of None \<Rightarrow> None | Some name \<Rightarrow> dict_get ?d name)"
    if "p \<in> set ?out" for p
    using that by (auto simp: split_def)
  have miss: "\<forall>p \<in> set ?out.
      (\<forall>name. player_ref.team_name p = Some name \<longrightarrow> name \<notin> set (map team.team_name teams))
        \<longrightarrow> player_ref.team_id p = None"
  proof (intro ballI impI)
    fix p assume p: "p \<in> set ?out"
      and m: "\<forall>name. player_ref.team_name p = Some name \<longrightarrow> name \<notin> set (map team.team_name teams)"
    show "player_ref.team_id p = None"
      unfolding row[OF p] using m by (cases "player_ref.team_name p") (auto intro: dict_get_miss)
  qed
  have resolved: "validate_reference_tables (Some teams) (Some ?out) = Inr () \<longrightarrow>
      (\<forall>row \<in> set players.
         \<exists>name. wc_player.team row = Some name \<and> name \<in> set (map team.team_name teams))"
  proof (intro impI ballI)
    fix r assume pass: "validate_reference_tables (Some teams) (Some ?out) = Inr ()"
      and r: "r \<in> set players"
    from validate_reference_tables_pass[OF pass]
    have "\<not> list_ex isnull (map (\<lambda>row. case wc_player.team row of None \<Rightarrow> None
        | Some name \<Rightarrow> dict_get ?d name) players)"
      unfolding tids .
    then have "\<forall>row \<in> set players.
        \<not> isnull (case wc_player.team row of None \<Rightarrow> None | Some name \<Rightarrow> dict_get ?d name)"
      by (simp add: list_ex_iff)
    with r have nn: "(case wc_player.team r of None \<Rightarrow> None | Some name \<Rightarrow> dict_get ?d name) \<noteq> None"
      unfolding isnull_def by blast
    then obtain name where name: "wc_player.team r = Some name" "dict_get ?d name \<noteq> None"
      by (cases "wc_player.team r") auto
    have "name \<in> set (map team.team_name teams)"
    proof (rule ccontr)
      assume "name \<notin> set (map team.team_name teams)"
      then have "dict_get ?d name = None"
        by (rule dict_get_miss)
      with name(2) show False
        by simp
    qed
    with name(1) show "\<exists>name. wc_player.team r = Some name \<and> name \<in> set (map team.team_name teams)"
      by blast
  qed
  from built ids names tids miss resolved
  show "\<exists>out. create_players_table (Some teams) (Some players) = Inr (Some out)
      \<and> map player_ref.player_id out = map Some [1..int (length players)]
      \<and> map player_ref.team_name out = map wc_player.team players
      \<and> map player_ref.team_id out =
          map (\<lambda>row. case wc_player.team row of
                        None \<Rightarrow> None
                      | Some name \<Rightarrow>
                          dict_get (dict_zip (map team.team_name teams) (map team.team_id teams)) name)
            players
      \<and> (\<forall>p \<in> set out.
            (\<forall>name. player_ref.team_name p = Some name \<longrightarrow> name \<notin> set (map team.team_name teams))
              \<longrightarrow> player_ref.team_id p = None)
      \<and> (validate_reference_tables (Some teams) (Some out) = Inr () \<longrightarrow>
            (\<forall>row \<in> set players.
               \<exists>name. wc_player.team row = Some name \<and> name \<in> set (map team.team_name teams)))"
    by (intro exI[of _ ?out] conjI)
next
  show "list_ex isnull (map player_ref.team_id players_df) \<longrightarrow>
        validate_reference_tables teams_file (Some players_df) \<noteq> Inr ()"
    using validate_reference_tables_pass[of teams_file players_df] by blast
next
  show "list_ex isnull (map player_ref.team_id players_df)
        \<and> \<not> list_ex isnull (map player_ref.player_id players_df)
        \<and> \<not> list_ex isnull (map team.team_id teams)
        \<and> distinct (map team.team_id teams)
        \<and> 100 \<le> length teams \<and> length teams \<le> 150
        \<and> (\<forall>t \<in> set teams. competition_type t \<in> {''league'', ''international''})
      \<longrightarrow> validate_reference_tables (Some teams) (Some players_df) =
            raise (Reference NullPlayerTeamId)"
    using validate_reference_tables_null_player_team[of teams players_df] by blast
qed


lemma teams_table_facts:
  "map team.team_id (teams_table n) = map Some [1..n]"
  "length (teams_table n) = nat n"
  "t \<in> set (teams_table n) \<Longrightarrow> competition_type t = ''league'' \<and> take 5 (team.team_name t) = ''Team ''"
  by (auto simp: teams_table_def comp_def)

lemma players_table_mapping_miss_example:
  "(\<exists>out. create_players_table (Some (teams_table 2))
        (Some [player_row ''Known'' (Some ''Team II''), player_row ''Ghost'' (Some ''Atlantis'')]) = Inr (Some out)
      \<and> map player_ref.player_id out = [Some 1, Some 2]
      \<and> map player_ref.team_id out = [Some 2, None])
   \<and> (\<exists>out. create_players_table (Some (teams_table 100))
        (Some [player_row ''Ghost'' (Some ''Atlantis''), player_row ''Free'' None]) = Inr (Some out)
      \<and> map player_ref.team_id out = [None, None]
      \<and> validate_reference_tables (Some (teams_table 100)) (Some out) =
           raise (Reference NullPlayerTeamId))"
proof (intro conjI)
  let ?small = "[player_row ''Known'' (Some ''Team II''), player_row ''Ghost'' (Some ''Atlantis'')]"
  have two_teams: "teams_table 2 \<noteq> []"
    by (simp add: teams_table_def upto.simps)
  from players_table_mapping_miss[where teams="teams_table 2" and players="?small", OF two_teams]
  obtain out where out: "create_players_table (Some (teams_table 2)) (Some ?small) = Inr (Some out)"
    "map player_ref.player_id out = map Some [1..int (length ?small)]"
    "map player_ref.team_id out =
       map (\<lambda>row. case wc_player.team row of None \<Rightarrow> None
          | Some name \<Rightarrow> dict_get (dict_zip (map team.team_name (teams_table 2))
              (map team.team_id (teams_table 2))) name) ?small"
    by blast
  have two: "[1..2::int] = [1, 2]"
    by (simp add: upto.simps)
  have ids: "map player_ref.player_id out = [Some 1, Some 2]"
    using out(2) by (simp add: two)
  have tids: "map player_ref.team_id out = [Some 2, None]"
    unfolding out(3)
    by (simp add: player_row_def teams_table_def two dict_zip_def dict_get_def eval_nat_numeral)
  from out(1) ids tids
  show "\<exists>out. create_players_table (Some (teams_table 2)) (Some ?small) = Inr (Some out)
      \<and> map player_ref.player_id out = [Some 1, Some 2]
      \<and> map player_ref.team_id out = [Some 2, None]"
    by (intro exI[of _ out] conjI)
next
  let ?players = "[player_row ''Ghost'' (Some ''Atlantis''), player_row ''Free'' None]"
  let ?teams = "teams_table 100"
  have teams: "?teams \<noteq> []"
    using teams_table_facts(2)[of 100] by auto
  note t = players_table_mapping_miss[where teams="?teams" and players="?players", OF teams]
  from t obtain out where out: "create_players_table (Some ?teams) (Some ?players) = Inr (Some out)"
    "map player_ref.player_id out = map Some [1..int (length ?players)]"
    "map player_ref.team_id out =
       map (\<lambda>row. case wc_player.team row of None \<Rightarrow> None
          | Some name \<Rightarrow> dict_get (dict_zip (map team.team_name ?teams)
              (map team.team_id ?teams)) name) ?players"
    by blast
  have "''Atlantis'' \<notin> set (map team.team_name ?teams)"
  proof
    assume "''Atlantis'' \<in> set (map team.team_name ?teams)"
    then obtain t where "t \<in> set ?teams" "team.team_name t = ''Atlantis''"
      by auto
    with teams_table_facts(3)[of t 100] show False
      by simp
  qed
  then have miss: "dict_get (dict_zip (map team.team_name ?teams) (map team.team_id ?teams)) ''Atlantis'' = None"
    by (rule dict_get_miss)
  have tids: "map player_ref.team_id out = [None, None]"
    unfolding out(3) by (simp add: player_row_def miss)
  have ids: "map player_ref.player_id out = [Some 1, Some 2]"
    using out(2) by (simp add: upto.simps)
  have hyp: "list_ex isnull (map player_ref.team_id out)
        \<and> \<not> list_ex isnull (map player_ref.player_id out)
        \<and> \<not> list_ex isnull (map team.team_id ?teams)
        \<and> distinct (map team.team_id ?teams)
        \<and> 100 \<le> length ?teams \<and> length ?teams \<le> 150
        \<and> (\<forall>t \<in> set ?teams. competition_type t \<in> {''league'', ''international''})"
    unfolding tids ids teams_table_facts(1,2)
    using teams_table_facts(3)[of _ 100]
    by (auto simp: isnull_def list_ex_iff distinct_map)
  from players_table_mapping_miss[where teams="?teams" and players="?players" and players_df=out,
      OF teams] hyp
  have "validate_reference_tables (Some ?teams) (Some out) = raise (Reference NullPlayerTeamId)"
    by blast
  with out(1) tids
  show "\<exists>out. create_players_table (Some ?teams) (Some ?players) = Inr (Some out)
      \<and> map player_ref.team_id out = [None, None]
      \<and> validate_reference_tables (Some ?teams) (Some out) = raise (Reference NullPlayerTeamId)"
    by (intro exI[of _ out] conjI)
qed



text \<open>
  Claim C8 (mapping-miss handling). The builder is not total over player inputs: on a
  player table that has its header and no row, with a Teams table of three teams, it
  raises \<open>KeyError\<close> on the \<open>team_id\<close> column of the column-less table it has just written,
  where a Players table of no row was to be returned.
\<close>

theorem players_table_of_no_player_raises:
  "create_players_table (Some (teams_table 3)) (Some []) = Inl (KeyError ''team_id'')"
  by (simp add: create_players_table_def teams_table_def upto.simps)

subsection \<open>Small-fixture scenario\<close>

lemma three_fixtures_teams:
  assumes "home_team r1 = ''Team A''" "away_team r1 = ''Team B''"
    and "home_team r2 = ''Team A''" "away_team r2 = ''Team B''"
    and "home_team r3 = ''Team A''" "away_team r3 = ''Team C''"
    and "rows_of wc_file = []"
  shows "create_teams_table (Some [r1, r2, r3]) wc_file =
     [\<lparr>team.team_id = Some 1, team.team_name = ''Team A'', competition_type = ''league'',
       country = None, primary_competition = match_row.competition_name r1\<rparr>,
      \<lparr>team.team_id = Some 2, team.team_name = ''Team B'', competition_type = ''league'',
       country = None, primary_competition = match_row.competition_name r1\<rparr>,
      \<lparr>team.team_id = Some 3, team.team_name = ''Team C'', competition_type = ''league'',
       country = None, primary_competition = match_row.competition_name r3\<rparr>]"
  unfolding create_teams_table_unfold assms(7)
  by (simp add: rows_of_def league_step_def add_team_def Let_def assms(1-6))


lemma three_teams_rejected:
  assumes "map team.team_id teams = [Some 1, Some 2, Some 3]"
  shows "validate_reference_tables (Some teams) players_file =
     (case players_file of
        None \<Rightarrow> raise (MissingFile ''ref_players.csv'')
      | Some players_df \<Rightarrow> raise (Reference (UnexpectedTeamCount 3)))"
proof -
  have "length (map team.team_id teams) = 3"
    unfolding assms by simp
  then have len: "length teams = 3"
    by simp
  have null: "\<not> list_ex isnull (map team.team_id teams)"
    by (simp add: assms isnull_def)
  have dup: "duplicated (map team.team_id teams) = []"
    by (simp add: assms duplicated_def)
  have count: "length teams < 100 \<or> length teams > 150"
    by (simp add: len)
  show ?thesis
  proof (cases players_file)
    case None
    then show ?thesis by (simp add: validate_reference_tables_def)
  next
    case (Some players_df)
    show ?thesis
      unfolding Some validate_reference_tables_def option.case
      by (simp only: null dup count if_True if_False simp_thms) (simp only: len)
  qed
qed

lemma derive_player_metrics_returns: "\<exists>p. derive_player_metrics players = Inr p"
  using derive_player_metrics_total by (cases players) (auto simp: derive_player_metrics_def)

lemma derive_standings_metrics_returns: "\<exists>s. derive_standings_metrics standings = Inr s"
  using derive_standings_metrics_total by (cases standings) (auto simp: derive_standings_metrics_def)

lemma create_players_table_returns:
  assumes "teams \<noteq> []" "players_file \<noteq> Some []"
  shows "\<exists>p. create_players_table (Some teams) players_file = Inr p
           \<and> (p = None \<longleftrightarrow> players_file = None)"
  using assms
  by (cases players_file) (simp_all add: create_players_table_def Let_def enumerate_eq_zip)

lemma run_pipeline_three_teams:
  assumes "map team.team_id (create_teams_table clean_league clean_wc) = [Some 1, Some 2, Some 3]"
    and "clean_players \<noteq> Some []"
  shows "run_pipeline to_datetime clean_league clean_wc clean_standings clean_players =
     (case clean_players of
        None \<Rightarrow> raise (MissingFile ''ref_players.csv'')
      | Some players_df \<Rightarrow> raise (Reference (UnexpectedTeamCount 3)))"
proof -
  let ?teams = "Some (create_teams_table clean_league clean_wc)"
  let ?normalized = "normalize_matches ?teams clean_league clean_wc"
  let ?split = "split_matches (fst ?normalized) (snd ?normalized)"
  have "create_teams_table clean_league clean_wc \<noteq> []"
    using assms(1) by auto
  from create_players_table_returns[OF this assms(2)]
  obtain ref_players where ref:
    "create_players_table ?teams clean_players = Inr ref_players"
    "ref_players = None \<longleftrightarrow> clean_players = None"
    by blast
  obtain m where m: "derive_match_metrics (Some (fst ?split)) (advanced_file_written (snd ?split)) =
      Inr (Some m)"
    using derive_match_metrics_total by blast
  obtain p where p: "derive_player_metrics (normalize_players ?teams ref_players clean_players) = Inr p"
    using derive_player_metrics_returns by blast
  obtain s where s: "derive_standings_metrics clean_standings = Inr s"
    using derive_standings_metrics_returns by blast
  have "run_pipeline to_datetime clean_league clean_wc clean_standings clean_players =
      validate_all to_datetime ?teams ref_players (Some (fst m)) (snd m) p s"
    unfolding run_pipeline_def Let_def ref and_then_def sum.case m p s by simp
  also have "\<dots> = (case ref_players of
        None \<Rightarrow> raise (MissingFile ''ref_players.csv'')
      | Some players_df \<Rightarrow> raise (Reference (UnexpectedTeamCount 3)))"
    unfolding validate_all_def three_teams_rejected[OF assms(1)]
    by (simp add: and_then_def raise_def split: option.splits)
  also have "\<dots> = (case clean_players of
        None \<Rightarrow> raise (MissingFile ''ref_players.csv'')
      | Some players_df \<Rightarrow> raise (Reference (UnexpectedTeamCount 3)))"
    using ref(2) by (cases clean_players; cases ref_players) simp_all
  finally show ?thesis .
qed

lemma three_fixtures_split:
  assumes "home_team r1 = ''Team A''" "away_team r1 = ''Team B''"
    and "home_team r2 = ''Team A''" "away_team r2 = ''Team B''"
    and "home_team r3 = ''Team A''" "away_team r3 = ''Team C''"
    and "rows_of wc_file = []"
  shows "map match_base.match_id (fst (split_matches
           (fst (normalize_matches (Some (create_teams_table (Some [r1, r2, r3]) wc_file)) (Some [r1, r2, r3]) wc_file))
           (snd (normalize_matches (Some (create_teams_table (Some [r1, r2, r3]) wc_file)) (Some [r1, r2, r3]) wc_file))))
         = [Some 1, Some 2, Some 3]"
    and "map match_base.home_team_id (fst (split_matches
           (fst (normalize_matches (Some (create_teams_table (Some [r1, r2, r3]) wc_file)) (Some [r1, r2, r3]) wc_file))
           (snd (normalize_matches (Some (create_teams_table (Some [r1, r2, r3]) wc_file)) (Some [r1, r2, r3]) wc_file))))
         = [Some 1, Some 1, Some 1]"
    and "map match_base.away_team_id (fst (split_matches
           (fst (normalize_matches (Some (create_teams_table (Some [r1, r2, r3]) wc_file)) (Some [r1, r2, r3]) wc_file))
           (snd (normalize_matches (Some (create_teams_table (Some [r1, r2, r3]) wc_file)) (Some [r1, r2, r3]) wc_file))))
         = [Some 2, Some 2, Some 3]"
    and "snd (split_matches
           (fst (normalize_matches (Some (create_teams_table (Some [r1, r2, r3]) wc_file)) (Some [r1, r2, r3]) wc_file))
           (snd (normalize_matches (Some (create_teams_table (Some [r1, r2, r3]) wc_file)) (Some [r1, r2, r3]) wc_file)))
         = []"
proof -
  let ?T = "create_teams_table (Some [r1, r2, r3]) wc_file"
  let ?d = "dict_zip (map team.team_name ?T) (map team.team_id ?T)"
  let ?n = "normalize_matches (Some ?T) (Some [r1, r2, r3]) wc_file"
  have d: "dict_get ?d ''Team A'' = Some 1" "dict_get ?d ''Team B'' = Some 2"
      "dict_get ?d ''Team C'' = Some 3"
    unfolding three_fixtures_teams[OF assms]
    by (simp_all add: dict_zip_def dict_get_def)
  have league: "rows_of (fst ?n) = map (normalize_league_row ?d) [r1, r2, r3]"
    by (simp add: normalize_matches_def Let_def rows_of_def)
  have wc: "rows_of (snd ?n) = []"
    using assms(7) by (cases wc_file) (simp_all add: normalize_matches_def Let_def rows_of_def)
  have ids: "normalized_league_match.home_team_id (normalize_league_row ?d r) = dict_get ?d (home_team r)"
      "normalized_league_match.away_team_id (normalize_league_row ?d r) = dict_get ?d (away_team r)"
    for r
    by (simp_all add: normalize_league_row_def league_match.defs normalized_league_match.defs)
  have enum: "enumerate 0 [a, b, c] = [(0, a), (1, b), (2, c)]" for a b c :: normalized_league_match
    by (simp add: enumerate_eq_zip upt_rec)
  have split: "split_matches (fst ?n) (snd ?n) =
      (map (\<lambda>(i, row). league_base_match (1 + int i) row)
         (enumerate 0 (map (normalize_league_row ?d) [r1, r2, r3])), [])"
    unfolding split_matches_rows league wc by simp
  show "map match_base.match_id (fst (split_matches (fst ?n) (snd ?n))) = [Some 1, Some 2, Some 3]"
    unfolding split by (simp add: enum league_base_match_def)
  show "map match_base.home_team_id (fst (split_matches (fst ?n) (snd ?n))) = [Some 1, Some 1, Some 1]"
    unfolding split by (simp add: enum league_base_match_def ids assms(1-6) d)
  show "map match_base.away_team_id (fst (split_matches (fst ?n) (snd ?n))) = [Some 2, Some 2, Some 3]"
    unfolding split by (simp add: enum league_base_match_def ids assms(1-6) d)
  show "snd (split_matches (fst ?n) (snd ?n)) = []"
    unfolding split by simp
qed


lemma three_matches_rejected:
  assumes "map match_base.match_id df = [Some 1, Some 2, Some 3]"
  shows "validate_matches_base to_datetime (Some df) (Some teams_df) =
     raise (Matches (UnexpectedMatchCount 3))"
proof -
  have "length (map match_base.match_id df) = 3"
    unfolding assms by simp
  then have len: "length df = 3"
    by simp
  have null: "\<not> list_ex isnull (map match_base.match_id df)"
    by (simp add: assms isnull_def)
  have dup: "duplicated (map match_base.match_id df) = []"
    by (simp add: assms duplicated_def)
  have count: "length df < 1800 \<or> length df > 2000"
    by (simp add: len)
  show ?thesis
    unfolding validate_matches_base_def option.case Let_def
    by (simp only: null dup count if_True if_False simp_thms) (simp only: len)
qed

lemma validate_matches_base_pass_iff:
  "validate_matches_base to_datetime (Some df) (Some teams_df) = Inr () \<longleftrightarrow>
     \<not> list_ex isnull (map match_base.match_id df)
   \<and> distinct (map match_base.match_id df)
   \<and> 1800 \<le> length df \<and> length df \<le> 2000
   \<and> \<not> list_ex isnull (map match_base.home_team_id df)
   \<and> \<not> list_ex isnull (map match_base.away_team_id df)
   \<and> set (map match_base.home_team_id df) \<subseteq> set (map team.team_id teams_df)
   \<and> set (map match_base.away_team_id df) \<subseteq> set (map team.team_id teams_df)
   \<and> (\<forall>r \<in> set df. \<not> eq (match_base.home_team_id r) (match_base.away_team_id r))
   \<and> (\<forall>r \<in> set df. \<not> lt (match_base.home_goals r) (Some 0))
   \<and> (\<forall>r \<in> set df. \<not> lt (match_base.away_goals r) (Some 0))
   \<and> (\<forall>r \<in> set df. \<not> lt (match_base.home_shots r) (Some 0))
   \<and> (\<forall>r \<in> set df. \<not> gt (match_base.home_sot r) (match_base.home_shots r))
   \<and> (\<forall>r \<in> set df. \<not> gt (match_base.away_sot r) (match_base.away_shots r))
   \<and> (\<forall>r \<in> set df. \<not> gt (home_shot_accuracy r) (Some 100))
   \<and> to_datetime (map match_base.date df)
   \<and> (\<forall>r \<in> set df. result r \<in> {None, Some ''H'', Some ''A'', Some ''D''})"
proof -
  have count: "(length df < 1800 \<or> length df > 2000) \<longleftrightarrow> \<not> (1800 \<le> length df \<and> length df \<le> 2000)"
    by auto
  have res: "0 < length (filter (\<lambda>r. \<not> (result r \<in> set [Some ''H'', Some ''A'', Some ''D''])
                     \<and> notna (result r)) df) \<longleftrightarrow>
      \<not> (\<forall>r \<in> set df. result r \<in> {None, Some ''H'', Some ''A'', Some ''D''})"
    by (auto simp: filter_empty_conv notna_def)
  show ?thesis
    unfolding validate_matches_base_def Let_def option.case if_raise_pass'
      any_above any_exceeds any_negative_dropna res set_difference_empty duplicated_empty count
    unfolding any_row any_row'
    by (simp only: simp_thms de_Morgan_conj de_Morgan_disj not_not conj_assoc)
qed

lemma validate_matches_base_pass_only_if:
  assumes "validate_matches_base to_datetime (Some df) teams_file = Inr ()"
  shows "\<forall>r \<in> set df. \<not> lt (match_base.home_goals r) (Some 0)
            \<and> \<not> lt (match_base.away_goals r) (Some 0)
            \<and> \<not> eq (match_base.home_team_id r) (match_base.away_team_id r)"
proof (cases teams_file)
  case None
  with assms show ?thesis
    by (simp add: validate_matches_base_def)
next
  case (Some teams_df)
  from assms show ?thesis
    unfolding Some validate_matches_base_pass_iff by blast
qed

lemma season_table_passes:
  "validate_matches_base accept_dates (Some (season_table 1800)) (Some (teams_table 100)) = Inr ()"
proof -
  have ids: "map match_base.match_id (season_table 1800) = map Some [1..1800]"
    by (simp add: season_table_def comp_def match_base_row_def match_base.defs)
  have len: "length (season_table 1800) = 1800"
    by (simp add: season_table_def)
  have row: "match_base.home_team_id r = Some 1 \<and> match_base.away_team_id r = Some 2
      \<and> match_base.home_goals r = Some 1 \<and> match_base.away_goals r = Some 0
      \<and> match_base.home_shots r = None \<and> match_base.away_shots r = None
      \<and> match_base.home_sot r = None \<and> match_base.away_sot r = None
      \<and> home_shot_accuracy r = None \<and> result r = Some ''H''"
    if "r \<in> set (season_table 1800)" for r
    using that
    by (auto simp: season_table_def match_base_row_def match_base.defs match_base_enhanced.defs)
  have valid: "Some 1 \<in> set (map team.team_id (teams_table 100))"
    "Some 2 \<in> set (map team.team_id (teams_table 100))"
    by (simp_all add: teams_table_facts(1))
  show ?thesis
    unfolding validate_matches_base_pass_iff ids len
    using row valid
    by (auto simp: isnull_def list_ex_iff distinct_map eq_def lt_def gt_def accept_dates_def)
qed

text \<open>
  The three fixtures with goals 1-0, 2-2 and 0-3, a World-Cup table of no row, no
  standings table, and a player table of one player of Team A: every goal value is
  non-negative and no team plays itself, yet the Validator raises the team-count failure.
\<close>

theorem three_fixtures_rejected_with_valid_goals:
  "run_pipeline accept_dates (Some
         [league_row ''Team A'' ''Team B'' (Some 1) (Some 0),
          league_row ''Team A'' ''Team B'' (Some 2) (Some 2),
          league_row ''Team A'' ''Team C'' (Some 0) (Some 3)]) (Some []) None
         (Some [player_row ''Known'' (Some ''Team A'')]) =
     raise (Reference (UnexpectedTeamCount 3))
   \<and> map clean_match.home_goals
         [league_row ''Team A'' ''Team B'' (Some 1) (Some 0),
          league_row ''Team A'' ''Team B'' (Some 2) (Some 2),
          league_row ''Team A'' ''Team C'' (Some 0) (Some 3)] = [Some 1, Some 2, Some 0]
   \<and> map clean_match.away_goals
         [league_row ''Team A'' ''Team B'' (Some 1) (Some 0),
          league_row ''Team A'' ''Team B'' (Some 2) (Some 2),
          league_row ''Team A'' ''Team C'' (Some 0) (Some 3)] = [Some 0, Some 2, Some 3]
   \<and> map home_team
         [league_row ''Team A'' ''Team B'' (Some 1) (Some 0),
          league_row ''Team A'' ''Team B'' (Some 2) (Some 2),
          league_row ''Team A'' ''Team C'' (Some 0) (Some 3)] = [''Team A'', ''Team A'', ''Team A'']
   \<and> map away_team
         [league_row ''Team A'' ''Team B'' (Some 1) (Some 0),
          league_row ''Team A'' ''Team B'' (Some 2) (Some 2),
          league_row ''Team A'' ''Team C'' (Some 0) (Some 3)] = [''Team B'', ''Team B'', ''Team C'']"
proof -
  have "map team.team_id (create_teams_table (Some
         [league_row ''Team A'' ''Team B'' (Some 1) (Some 0),
          league_row ''Team A'' ''Team B'' (Some 2) (Some 2),
          league_row ''Team A'' ''Team C'' (Some 0) (Some 3)]) (Some [])) = [Some 1, Some 2, Some 3]"
    by (subst three_fixtures_teams) (simp_all add: league_row_def rows_of_def)
  then have "run_pipeline accept_dates (Some
         [league_row ''Team A'' ''Team B'' (Some 1) (Some 0),
          league_row ''Team A'' ''Team B'' (Some 2) (Some 2),
          league_row ''Team A'' ''Team C'' (Some 0) (Some 3)]) (Some []) None
         (Some [player_row ''Known'' (Some ''Team A'')]) =
     raise (Reference (UnexpectedTeamCount 3))"
    by (subst run_pipeline_three_teams) simp_all
  then show ?thesis
    by (simp add: league_row_def)
qed

text \<open>
  Claim C5 (small-fixture scenario), as amended. For three league fixtures, Team A against
  Team B twice and Team A against Team C once, whatever their other columns, no World-Cup
  row, and a player table that is absent or has a row: the Teams table is A:1, B:2, C:3 in
  order of first appearance; MatchBase has \<open>match_id\<close> 1 to 3 with home and away identifiers
  1-2, 1-2, 1-3, so no team plays itself; there is no MatchStatsAdvanced row. The match
  check of the Validator passes a match table only if no match of it has a negative goal
  value and no match is a self-match. The Validator does not pass on this fixture whatever
  the goal values are: the run ends in its first check group with the team-count failure,
  three teams being outside 100 to 150 (or the missing-file failure when there is no player
  table), and its match check raises the match-count failure on the fixture's enhanced match
  table, three matches being outside 1800 to 2000.
\<close>

theorem three_fixtures_scenario:
  assumes "home_team r1 = ''Team A''" "away_team r1 = ''Team B''"
    and "home_team r2 = ''Team A''" "away_team r2 = ''Team B''"
    and "home_team r3 = ''Team A''" "away_team r3 = ''Team C''"
    and "rows_of wc_file = []"
    and "clean_players \<noteq> Some []"
  shows "map team.team_name (create_teams_table (Some [r1, r2, r3]) wc_file) = [''Team A'', ''Team B'', ''Team C'']
       \<and> map team.team_id (create_teams_table (Some [r1, r2, r3]) wc_file) = [Some 1, Some 2, Some 3]
       \<and> map match_base.match_id (fst (split_matches
           (fst (normalize_matches (Some (create_teams_table (Some [r1, r2, r3]) wc_file)) (Some [r1, r2, r3]) wc_file))
           (snd (normalize_matches (Some (create_teams_table (Some [r1, r2, r3]) wc_file)) (Some [r1, r2, r3]) wc_file)))) = [Some 1, Some 2, Some 3]
       \<and> map match_base.home_team_id (fst (split_matches
           (fst (normalize_matches (Some (create_teams_table (Some [r1, r2, r3]) wc_file)) (Some [r1, r2, r3]) wc_file))
           (snd (normalize_matches (Some (create_teams_table (Some [r1, r2, r3]) wc_file)) (Some [r1, r2, r3]) wc_file)))) = [Some 1, Some 1, Some 1]
       \<and> map match_base.away_team_id (fst (split_matches
           (fst (normalize_matches (Some (create_teams_table (Some [r1, r2, r3]) wc_file)) (Some [r1, r2, r3]) wc_file))
           (snd (normalize_matches (Some (create_teams_table (Some [r1, r2, r3]) wc_file)) (Some [r1, r2, r3]) wc_file)))) = [Some 2, Some 2, Some 3]
       \<and> snd (split_matches
           (fst (normalize_matches (Some (create_teams_table (Some [r1, r2, r3]) wc_file)) (Some [r1, r2, r3]) wc_file))
           (snd (normalize_matches (Some (create_teams_table (Some [r1, r2, r3]) wc_file)) (Some [r1, r2, r3]) wc_file))) = []
       \<and> run_pipeline to_datetime (Some [r1, r2, r3]) wc_file clean_standings clean_players =
           (case clean_players of
              None \<Rightarrow> raise (MissingFile ''ref_players.csv'')
            | Some players_df \<Rightarrow> raise (Reference (UnexpectedTeamCount 3)))
       \<and> (\<exists>enhanced.
             derive_match_metrics (Some (fst (split_matches
           (fst (normalize_matches (Some (create_teams_table (Some [r1, r2, r3]) wc_file)) (Some [r1, r2, r3]) wc_file))
           (snd (normalize_matches (Some (create_teams_table (Some [r1, r2, r3]) wc_file)) (Some [r1, r2, r3]) wc_file))))) (advanced_file_written (snd (split_matches
           (fst (normalize_matches (Some (create_teams_table (Some [r1, r2, r3]) wc_file)) (Some [r1, r2, r3]) wc_file))
           (snd (normalize_matches (Some (create_teams_table (Some [r1, r2, r3]) wc_file)) (Some [r1, r2, r3]) wc_file))))) =
               Inr (Some (enhanced, None))
           \<and> map match_base.truncate enhanced = fst (split_matches
           (fst (normalize_matches (Some (create_teams_table (Some [r1, r2, r3]) wc_file)) (Some [r1, r2, r3]) wc_file))
           (snd (normalize_matches (Some (create_teams_table (Some [r1, r2, r3]) wc_file)) (Some [r1, r2, r3]) wc_file)))
           \<and> validate_matches_base to_datetime (Some enhanced)
               (Some (create_teams_table (Some [r1, r2, r3]) wc_file)) =
               raise (Matches (UnexpectedMatchCount 3)))
       \<and> (\<forall>df teams_file.
             validate_matches_base to_datetime (Some df) teams_file = Inr () \<longrightarrow>
               (\<forall>r \<in> set df. \<not> lt (match_base.home_goals r) (Some 0)
                  \<and> \<not> lt (match_base.away_goals r) (Some 0)
                  \<and> \<not> eq (match_base.home_team_id r) (match_base.away_team_id r)))"
proof -
  let ?T = "create_teams_table (Some [r1, r2, r3]) wc_file"
  let ?split = "(split_matches
           (fst (normalize_matches (Some (create_teams_table (Some [r1, r2, r3]) wc_file)) (Some [r1, r2, r3]) wc_file))
           (snd (normalize_matches (Some (create_teams_table (Some [r1, r2, r3]) wc_file)) (Some [r1, r2, r3]) wc_file)))"
  note fixtures = assms(1-7)
  have names: "map team.team_name ?T = [''Team A'', ''Team B'', ''Team C'']"
    and ids: "map team.team_id ?T = [Some 1, Some 2, Some 3]"
    unfolding three_fixtures_teams[OF fixtures] by simp_all
  note split = three_fixtures_split[OF fixtures]
  note rejected = run_pipeline_three_teams[OF ids assms(8), of to_datetime clean_standings]
  from derived_matches[of "fst ?split"] obtain enhanced where e:
    "derive_match_metrics (Some (fst ?split)) None = Inr (Some (enhanced, None))"
    "map match_base.truncate enhanced = fst ?split"
    by blast
  have "map match_base.match_id enhanced = map match_base.match_id (map match_base.truncate enhanced)"
    by (simp add: comp_def match_base.defs)
  then have "map match_base.match_id enhanced = [Some 1, Some 2, Some 3]"
    unfolding e(2) split(1) .
  then have count: "validate_matches_base to_datetime (Some enhanced) (Some ?T) =
      raise (Matches (UnexpectedMatchCount 3))"
    by (rule three_matches_rejected)
  have written: "advanced_file_written (snd ?split) = None"
    unfolding split(4) by (simp add: advanced_file_written_def)
  from e count have matches: "\<exists>enhanced.
             derive_match_metrics (Some (fst ?split)) (advanced_file_written (snd ?split)) =
               Inr (Some (enhanced, None))
           \<and> map match_base.truncate enhanced = fst ?split
           \<and> validate_matches_base to_datetime (Some enhanced) (Some ?T) =
               raise (Matches (UnexpectedMatchCount 3))"
    unfolding written by (intro exI[of _ enhanced] conjI)
  have only_if: "\<forall>df teams_file.
             validate_matches_base to_datetime (Some df) teams_file = Inr () \<longrightarrow>
               (\<forall>r \<in> set df. \<not> lt (match_base.home_goals r) (Some 0)
                  \<and> \<not> lt (match_base.away_goals r) (Some 0)
                  \<and> \<not> eq (match_base.home_team_id r) (match_base.away_team_id r))"
    using validate_matches_base_pass_only_if by blast
  from names ids split rejected matches only_if show ?thesis
    by (intro conjI)
qed

theorem three_fixtures_scenario_witness:
  "map team.team_name (create_teams_table (Some
         [league_row ''Team A'' ''Team B'' (Some 1) (Some 0),
          league_row ''Team A'' ''Team B'' (Some 2) (Some 2),
          league_row ''Team A'' ''Team C'' (Some 0) (Some 3)]) (Some ([] :: wc_match list)))
     = [''Team A'', ''Team B'', ''Team C'']
   \<and> map team.team_id (create_teams_table (Some
         [league_row ''Team A'' ''Team B'' (Some 1) (Some 0),
          league_row ''Team A'' ''Team B'' (Some 2) (Some 2),
          league_row ''Team A'' ''Team C'' (Some 0) (Some 3)]) (Some ([] :: wc_match list)))
     = [Some 1, Some 2, Some 3]
   \<and> run_pipeline accept_dates (Some
         [league_row ''Team A'' ''Team B'' (Some 1) (Some 0),
          league_row ''Team A'' ''Team B'' (Some 2) (Some 2),
          league_row ''Team A'' ''Team C'' (Some 0) (Some 3)]) (Some []) None
         (Some [player_row ''Known'' (Some ''Team A'')]) =
       raise (Reference (UnexpectedTeamCount 3))
   \<and> run_pipeline accept_dates (Some
         [league_row ''Team A'' ''Team B'' (Some 1) (Some 0),
          league_row ''Team A'' ''Team B'' (Some 2) (Some 2),
          league_row ''Team A'' ''Team C'' (Some 0) (Some 3)]) (Some []) None None =
       raise (MissingFile ''ref_players.csv'')
   \<and> validate_matches_base accept_dates (Some (season_table 1800)) (Some (teams_table 100)) = Inr ()
   \<and> \<not> list_ex (\<lambda>r. lt (match_base.home_goals r) (Some 0)) (season_table 1800)
   \<and> \<not> list_ex (\<lambda>r. lt (match_base.away_goals r) (Some 0)) (season_table 1800)
   \<and> \<not> list_ex (\<lambda>r. eq (match_base.home_team_id r) (match_base.away_team_id r)) (season_table 1800)"
proof -
  let ?fixtures = "[league_row ''Team A'' ''Team B'' (Some 1) (Some 0),
          league_row ''Team A'' ''Team B'' (Some 2) (Some 2),
          league_row ''Team A'' ''Team C'' (Some 0) (Some 3)]"
  have h: "home_team (league_row ''Team A'' ''Team B'' (Some 1) (Some 0)) = ''Team A''"
    "away_team (league_row ''Team A'' ''Team B'' (Some 1) (Some 0)) = ''Team B''"
    "home_team (league_row ''Team A'' ''Team B'' (Some 2) (Some 2)) = ''Team A''"
    "away_team (league_row ''Team A'' ''Team B'' (Some 2) (Some 2)) = ''Team B''"
    "home_team (league_row ''Team A'' ''Team C'' (Some 0) (Some 3)) = ''Team A''"
    "away_team (league_row ''Team A'' ''Team C'' (Some 0) (Some 3)) = ''Team C''"
    "rows_of (Some ([] :: wc_match list)) = []"
    by (simp_all add: league_row_def rows_of_def)
  have one: "Some [player_row ''Known'' (Some ''Team A'')] \<noteq> Some []"
    and none: "(None :: wc_player list option) \<noteq> Some []"
    by simp_all
  note with_players = three_fixtures_scenario[where to_datetime = accept_dates
      and clean_standings = None, OF h one]
  note without_players = three_fixtures_scenario[where to_datetime = accept_dates
      and clean_standings = None, OF h none]
  have names: "map team.team_name (create_teams_table (Some ?fixtures) (Some ([] :: wc_match list)))
      = [''Team A'', ''Team B'', ''Team C'']"
    by (rule with_players[THEN conjunct1])
  have ids: "map team.team_id (create_teams_table (Some ?fixtures) (Some ([] :: wc_match list)))
      = [Some 1, Some 2, Some 3]"
    by (rule with_players[THEN conjunct2, THEN conjunct1])
  from with_players
  have "run_pipeline accept_dates (Some ?fixtures) (Some []) None (Some [player_row ''Known'' (Some ''Team A'')]) =
      (case Some [player_row ''Known'' (Some ''Team A'')] of
         None \<Rightarrow> raise (MissingFile ''ref_players.csv'')
       | Some players_df \<Rightarrow> raise (Reference (UnexpectedTeamCount 3)))"
    by (elim conjE)
  then have rejected: "run_pipeline accept_dates (Some ?fixtures) (Some []) None (Some [player_row ''Known'' (Some ''Team A'')]) =
      raise (Reference (UnexpectedTeamCount 3))"
    by simp
  from without_players
  have "run_pipeline accept_dates (Some ?fixtures) (Some []) None None =
      (case (None :: wc_player list option) of
         None \<Rightarrow> raise (MissingFile ''ref_players.csv'')
       | Some players_df \<Rightarrow> raise (Reference (UnexpectedTeamCount 3)))"
    by (elim conjE)
  then have missing: "run_pipeline accept_dates (Some ?fixtures) (Some []) None None =
      raise (MissingFile ''ref_players.csv'')"
    by simp
  have passes: "validate_matches_base accept_dates (Some (season_table 1800)) (Some (teams_table 100)) = Inr ()"
    by (rule season_table_passes)
  from with_players
  have "\<forall>df teams_file.
      validate_matches_base accept_dates (Some df) teams_file = Inr () \<longrightarrow>
        (\<forall>r \<in> set df. \<not> lt (match_base.home_goals r) (Some 0)
           \<and> \<not> lt (match_base.away_goals r) (Some 0)
           \<and> \<not> eq (match_base.home_team_id r) (match_base.away_team_id r))"
    by (elim conjE)
  then have "validate_matches_base accept_dates (Some (season_table 1800)) (Some (teams_table 100)) = Inr () \<longrightarrow>
        (\<forall>r \<in> set (season_table 1800). \<not> lt (match_base.home_goals r) (Some 0)
           \<and> \<not> lt (match_base.away_goals r) (Some 0)
           \<and> \<not> eq (match_base.home_team_id r) (match_base.away_team_id r))"
    by (elim allE)
  with passes have rows: "\<forall>r \<in> set (season_table 1800). \<not> lt (match_base.home_goals r) (Some 0)
           \<and> \<not> lt (match_base.away_goals r) (Some 0)
           \<and> \<not> eq (match_base.home_team_id r) (match_base.away_team_id r)"
    by (rule rev_mp)
  then have goals: "\<not> list_ex (\<lambda>r. lt (match_base.home_goals r) (Some 0)) (season_table 1800)"
    "\<not> list_ex (\<lambda>r. lt (match_base.away_goals r) (Some 0)) (season_table 1800)"
    "\<not> list_ex (\<lambda>r. eq (match_base.home_team_id r) (match_base.away_team_id r)) (season_table 1800)"
    by (simp_all add: list_ex_iff)
  from names ids rejected missing passes goals show ?thesis
    by (intro conjI)
qed

end
